theory Spec2Isabelle
  imports Complex_Main
begin

section \<open>Modelling conventions\<close>

text \<open>
  The development embeds the submission pipeline of the achievements API: the submit
  endpoint, the dispatch and the validators of \<^verbatim>\<open>routes/vouchers.ts\<close>, the task codes
  of \<^verbatim>\<open>utils/contract.ts\<close> and the completions of \<^verbatim>\<open>utils/database.ts\<close>.

  \<^item> A JavaScript string is a \<^typ>\<open>string\<close>: the strings whose UTF-16 code units are all
    below 256. Trimming and case conversion are those of the language on these strings; where
    upper-casing leaves the range, the result is a list of code units.
  \<^item> The numbers of the quiz arithmetic (points, scores, percentages) are IEEE 754 doubles
    (\<open>jsnumber\<close>): a finite value is a rational, and every sum, product and quotient is
    rounded to the nearest double, ties to even, with overflow to the infinities. The two
    zeros are one value; the code divides by no zero and tells them apart nowhere. Counts
    and indices are natural numbers. Time stamps, chain ids and task codes are integers.
  \<^item> An exception is a value: a function that can throw returns an \<open>option\<close> (or a
    flag), and a \<^verbatim>\<open>try/catch\<close> is the case distinction on it.
  \<^item> Functions of the language and of the \<^verbatim>\<open>ethers\<close> library that the code calls
    but does not define (\<^verbatim>\<open>JSON.parse\<close>, \<^verbatim>\<open>ethers.getAddress\<close>, the typed-data
    signer, the text of a built-in function) are parameters of the model.
  \<^item> A submitted interactive answer is untyped JSON. The other data have the types that the
    source declares for them: the request body and its payload, the configured question
    banks and secrets, and the replies of the JSON-RPC endpoint.
  \<^item> A lookup in the catalog \<^verbatim>\<open>ACHIEVEMENT_TYPES\<close> finds its own entries and the members
    that the object inherits. The other tables (\<^verbatim>\<open>QUIZ_DATA\<close>, \<^verbatim>\<open>SECRET_ANSWERS\<close>, the
    submitted answers) are read after that lookup, under keys of the catalog and ids of
    questions; a lookup there reads the own properties of the table.
  \<^item> Mutable module variables, the database and the requests sent with \<^verbatim>\<open>fetch\<close> are
    fields of an explicit state; what the outside replies, and the clock, are inputs. One
    request reads the clock once. The handler of a request is split where it has looked up
    the stored completion, so that the handlers of two requests can overlap there.
\<close>

section \<open>Strings and numbers\<close>

text \<open>
  The white space and line terminators of the language below 256: tab, line feed, vertical
  tab, form feed, carriage return, space and no-break space.
\<close>

definition isWhiteSpace :: "char \<Rightarrow> bool" where
  "isWhiteSpace c = ((of_char c :: nat) \<in> {9, 10, 11, 12, 13, 32, 160})"

text \<open>\<^verbatim>\<open>String.prototype.trim\<close>.\<close>

definition trim :: "string \<Rightarrow> string" where
  "trim s = rev (dropWhile isWhiteSpace (rev (dropWhile isWhiteSpace s)))"

text \<open>
  The upper-case mapping of Unicode on the code units below 256, as code units: the letters
  \<open>a\<close> to \<open>z\<close> and the accented letters from 224 to 254 (but the division sign, 247)
  move down by 32; the micro sign (181) becomes the Greek capital mu (924), the sharp s
  (223) becomes \<open>SS\<close>, and the y with diaeresis (255) becomes its capital (376).
\<close>

definition toUpperUnits :: "char \<Rightarrow> nat list" where
  "toUpperUnits c =
     (let n = (of_char c :: nat) in
      if 97 \<le> n \<and> n \<le> 122 then [n - 32]
      else if n = 181 then [924]
      else if n = 223 then [83, 83]
      else if (224 \<le> n \<and> n \<le> 246) \<or> (248 \<le> n \<and> n \<le> 254) then [n - 32]
      else if n = 255 then [376]
      else [n])"

text \<open>\<^verbatim>\<open>String.prototype.toUpperCase\<close>; the code compares its results only.\<close>

definition toUpperCase :: "string \<Rightarrow> nat list" where
  "toUpperCase s = concat (map toUpperUnits s)"

text \<open>
  The lower-case mapping on the code units below 256: the letters \<open>A\<close> to \<open>Z\<close> and the
  accented capitals from 192 to 222 (but the multiplication sign, 215) move up by 32.
\<close>

definition toLowerChar :: "char \<Rightarrow> char" where
  "toLowerChar c =
     (let n = (of_char c :: nat) in
      if (65 \<le> n \<and> n \<le> 90) \<or> (192 \<le> n \<and> n \<le> 214) \<or> (216 \<le> n \<and> n \<le> 222)
      then char_of (n + 32) else c)"

text \<open>\<^verbatim>\<open>String.prototype.toLowerCase\<close>.\<close>

definition toLowerCase :: "string \<Rightarrow> string" where
  "toLowerCase s = map toLowerChar s"

definition startsWith :: "string \<Rightarrow> string \<Rightarrow> bool" where
  "startsWith s p = (take (length p) s = p)"

definition endsWith :: "string \<Rightarrow> string \<Rightarrow> bool" where
  "endsWith s p = (length p \<le> length s \<and> drop (length s - length p) s = p)"

text \<open>\<^verbatim>\<open>s.slice(a)\<close> and \<^verbatim>\<open>s.slice(a, b)\<close> for non-negative indices.\<close>

definition slice_from :: "string \<Rightarrow> nat \<Rightarrow> string" where
  "slice_from s a = drop a s"

definition slice :: "string \<Rightarrow> nat \<Rightarrow> nat \<Rightarrow> string" where
  "slice s a b = take (b - a) (drop a s)"

text \<open>
  The value of a character as a digit of \<^verbatim>\<open>parseInt\<close>: \<open>0\<close> to \<open>9\<close>, then the
  letters of either case from ten on.
\<close>

definition digitValue :: "char \<Rightarrow> nat option" where
  "digitValue c =
     (let n = (of_char c :: nat) in
      if 48 \<le> n \<and> n \<le> 57 then Some (n - 48)
      else if 97 \<le> n \<and> n \<le> 122 then Some (n - 87)
      else if 65 \<le> n \<and> n \<le> 90 then Some (n - 55)
      else None)"

definition isRadixDigit :: "nat \<Rightarrow> char \<Rightarrow> bool" where
  "isRadixDigit radix c = (case digitValue c of None \<Rightarrow> False | Some d \<Rightarrow> d < radix)"

definition digitsValue :: "nat \<Rightarrow> string \<Rightarrow> nat" where
  "digitsValue radix Z = foldl (\<lambda>acc c. acc * radix + (case digitValue c of None \<Rightarrow> 0 | Some d \<Rightarrow> d)) 0 Z"

text \<open>
  \<^verbatim>\<open>parseInt(string, radix)\<close>; the radix 0 stands for an absent one. Leading white space
  is skipped and a sign is read; with radix 16 or none, a prefix \<^verbatim>\<open>0x\<close> is skipped and
  makes the radix 16; then the longest run of digits is read. \<open>None\<close> is \<open>NaN\<close> (no digit).
\<close>

definition parseInt :: "string \<Rightarrow> nat \<Rightarrow> int option" where
  "parseInt string radix =
     (let S = dropWhile isWhiteSpace string;
          sign = (if take 1 S = ''-'' then - 1 else 1 :: int);
          S1 = (if take 1 S = ''-'' \<or> take 1 S = ''+'' then drop 1 S else S);
          prefixed = ((radix = 0 \<or> radix = 16) \<and> (take 2 S1 = ''0x'' \<or> take 2 S1 = ''0X''));
          R = (if prefixed then 16 else if radix = 0 then 10 else radix);
          S2 = (if prefixed then drop 2 S1 else S1);
          Z = takeWhile (isRadixDigit R) S2
      in if Z = [] then None else Some (sign * int (digitsValue R Z)))"

definition digitChar :: "nat \<Rightarrow> char" where
  "digitChar d = char_of (48 + d)"

fun natToDigits :: "nat \<Rightarrow> string" where
  "natToDigits n = (if n < 10 then [digitChar n] else natToDigits (n div 10) @ [digitChar (n mod 10)])"

declare natToDigits.simps [simp del]

text \<open>\<^verbatim>\<open>Number.prototype.toString\<close> on an integer or on \<open>NaN\<close>.\<close>

definition numberToString :: "int option \<Rightarrow> string" where
  "numberToString x =
     (case x of
        None \<Rightarrow> ''NaN''
      | Some i \<Rightarrow> if i < 0 then ''-'' @ natToDigits (nat (- i)) else natToDigits (nat i))"

text \<open>\<^verbatim>\<open>String.prototype.padStart\<close>.\<close>

definition padStart :: "string \<Rightarrow> nat \<Rightarrow> string \<Rightarrow> string" where
  "padStart s targetLength padString =
     (if targetLength \<le> length s \<or> padString = [] then s
      else take (targetLength - length s) (concat (replicate (targetLength - length s) padString)) @ s)"

section \<open>Doubles\<close>

text \<open>A number of the language: \<open>NaN\<close>, a finite value, or an infinity.\<close>

datatype jsnumber = NaN | Finite rat | PosInfinity | NegInfinity

text \<open>The number of binary digits of a natural number.\<close>

fun bitLength :: "nat \<Rightarrow> nat" where
  "bitLength n = (if n = 0 then 0 else Suc (bitLength (n div 2)))"

declare bitLength.simps [simp del]

definition pow2 :: "int \<Rightarrow> rat" where
  "pow2 e = (if 0 \<le> e then 2 ^ nat e else 1 / 2 ^ nat (- e))"

text \<open>The binary exponent of a positive rational \<open>x\<close>: the \<open>e\<close> with \<open>2\<^sup>e \<le> x < 2\<^sup>e\<^sup>+\<^sup>1\<close>.\<close>

definition exponentOf :: "rat \<Rightarrow> int" where
  "exponentOf x =
     (if 1 \<le> x then int (bitLength (nat \<lfloor>x\<rfloor>)) - 1
      else - int (bitLength (nat (\<lceil>1 / x\<rceil> - 1))))"

text \<open>The nearest integer, the even one of two that are equally near.\<close>

definition roundHalfEven :: "rat \<Rightarrow> int" where
  "roundHalfEven x =
     (let f = \<lfloor>x\<rfloor>; d = x - of_int f
      in if d < 1 / 2 then f else if 1 / 2 < d then f + 1 else if even f then f else f + 1)"

text \<open>
  The exponent of the last binary digit that a double keeps of a positive \<open>x\<close>: 52 below
  the leading digit, and \<open>-1074\<close> for the subnormal values.
\<close>

definition ulpExponent :: "rat \<Rightarrow> int" where
  "ulpExponent x = max (exponentOf x - 52) (- 1074)"

definition roundMagnitude :: "rat \<Rightarrow> rat" where
  "roundMagnitude x = of_int (roundHalfEven (x / pow2 (ulpExponent x))) * pow2 (ulpExponent x)"

text \<open>
  The double that an exact result is rounded to: the nearest one, and an infinity when the
  rounded magnitude reaches \<open>2\<^sup>1\<^sup>0\<^sup>2\<^sup>4\<close>.
\<close>

definition roundToDouble :: "rat \<Rightarrow> jsnumber" where
  "roundToDouble x =
     (if x = 0 then Finite 0
      else
        (let r = roundMagnitude \<bar>x\<bar>
         in if 2 ^ 1024 \<le> r then (if 0 < x then PosInfinity else NegInfinity)
            else Finite (if 0 < x then r else - r)))"

text \<open>\<^verbatim>\<open>a + b\<close>.\<close>

fun numAdd :: "jsnumber \<Rightarrow> jsnumber \<Rightarrow> jsnumber" where
  "numAdd (Finite x) (Finite y) = roundToDouble (x + y)"
| "numAdd NaN b = NaN"
| "numAdd a NaN = NaN"
| "numAdd PosInfinity NegInfinity = NaN"
| "numAdd NegInfinity PosInfinity = NaN"
| "numAdd PosInfinity b = PosInfinity"
| "numAdd NegInfinity b = NegInfinity"
| "numAdd a PosInfinity = PosInfinity"
| "numAdd a NegInfinity = NegInfinity"

definition signedInfinity :: "bool \<Rightarrow> jsnumber" where
  "signedInfinity positive = (if positive then PosInfinity else NegInfinity)"

text \<open>\<^verbatim>\<open>a * b\<close>.\<close>

fun numMul :: "jsnumber \<Rightarrow> jsnumber \<Rightarrow> jsnumber" where
  "numMul (Finite x) (Finite y) = roundToDouble (x * y)"
| "numMul NaN b = NaN"
| "numMul a NaN = NaN"
| "numMul PosInfinity (Finite y) = (if y = 0 then NaN else signedInfinity (0 < y))"
| "numMul NegInfinity (Finite y) = (if y = 0 then NaN else signedInfinity (y < 0))"
| "numMul (Finite x) PosInfinity = (if x = 0 then NaN else signedInfinity (0 < x))"
| "numMul (Finite x) NegInfinity = (if x = 0 then NaN else signedInfinity (x < 0))"
| "numMul PosInfinity PosInfinity = PosInfinity"
| "numMul PosInfinity NegInfinity = NegInfinity"
| "numMul NegInfinity PosInfinity = NegInfinity"
| "numMul NegInfinity NegInfinity = PosInfinity"

text \<open>\<^verbatim>\<open>a / b\<close>; a zero divisor is the positive zero (the code divides by positive numbers).\<close>

fun numDiv :: "jsnumber \<Rightarrow> jsnumber \<Rightarrow> jsnumber" where
  "numDiv (Finite x) (Finite y) =
     (if y = 0 then (if x = 0 then NaN else signedInfinity (0 < x)) else roundToDouble (x / y))"
| "numDiv NaN b = NaN"
| "numDiv a NaN = NaN"
| "numDiv (Finite x) PosInfinity = Finite 0"
| "numDiv (Finite x) NegInfinity = Finite 0"
| "numDiv PosInfinity (Finite y) = signedInfinity (0 \<le> y)"
| "numDiv NegInfinity (Finite y) = signedInfinity (y < 0)"
| "numDiv PosInfinity b = NaN"
| "numDiv NegInfinity b = NaN"

text \<open>\<^verbatim>\<open>a < b\<close> and \<^verbatim>\<open>a === b\<close>: both are false when an operand is \<open>NaN\<close>.\<close>

fun numLess :: "jsnumber \<Rightarrow> jsnumber \<Rightarrow> bool" where
  "numLess (Finite x) (Finite y) = (x < y)"
| "numLess NaN b = False"
| "numLess a NaN = False"
| "numLess a NegInfinity = False"
| "numLess PosInfinity b = False"
| "numLess NegInfinity b = True"
| "numLess a PosInfinity = True"

fun numEq :: "jsnumber \<Rightarrow> jsnumber \<Rightarrow> bool" where
  "numEq NaN b = False"
| "numEq a NaN = False"
| "numEq a b = (a = b)"

text \<open>\<^verbatim>\<open>a <= b\<close>, \<^verbatim>\<open>a > b\<close> and \<^verbatim>\<open>a >= b\<close>.\<close>

definition numLe :: "jsnumber \<Rightarrow> jsnumber \<Rightarrow> bool" where
  "numLe a b = (numLess a b \<or> numEq a b)"

definition numGt :: "jsnumber \<Rightarrow> jsnumber \<Rightarrow> bool" where
  "numGt a b = numLess b a"

definition numGe :: "jsnumber \<Rightarrow> jsnumber \<Rightarrow> bool" where
  "numGe a b = numLe b a"

text \<open>\<^verbatim>\<open>!x\<close> on a number: zero and \<open>NaN\<close> are falsy.\<close>

definition numFalsy :: "jsnumber \<Rightarrow> bool" where
  "numFalsy a = (a = Finite 0 \<or> a = NaN)"

text \<open>
  The number that holds a count \<open>k\<close>. The counts of the code are lengths of arrays, which
  are below \<open>2\<^sup>3\<^sup>2\<close>, and counters that \<^verbatim>\<open>++\<close> raises from 0 once per element, which
  cannot pass \<open>2\<^sup>5\<^sup>3\<close>: there adding 1 is rounded away.
\<close>

definition countValue :: "nat \<Rightarrow> jsnumber" where
  "countValue k = Finite (of_nat (min k (2 ^ 53)))"

section \<open>Task codes (\<^verbatim>\<open>utils/contract.ts\<close>)\<close>

definition achievementNumberToTaskCode :: "string \<Rightarrow> int option" where
  "achievementNumberToTaskCode achievementNumber = parseInt achievementNumber 10"

text \<open>The source's default for \<open>padding\<close> is 4.\<close>

definition taskCodeToAchievementNumber :: "int option \<Rightarrow> nat \<Rightarrow> string" where
  "taskCodeToAchievementNumber taskCode padding = padStart (numberToString taskCode) padding ''0''"

section \<open>The achievement catalog\<close>

text \<open>The expected submission type of each achievement.\<close>

definition ACHIEVEMENT_TYPES :: "(string \<times> string) list" where
  "ACHIEVEMENT_TYPES =
     [(''0001'', ''quiz''), (''0002'', ''quiz''), (''0003'', ''quiz''), (''0004'', ''quiz''),
      (''0005'', ''transaction''),
      (''0021'', ''quiz''), (''0022'', ''quiz''), (''0023'', ''quiz''), (''0024'', ''quiz''),
      (''0025'', ''transaction''),
      (''0031'', ''quiz''), (''0032'', ''quiz''),
      (''0033'', ''transaction''),
      (''0041'', ''quiz''), (''0042'', ''quiz''),
      (''0043'', ''transaction''),
      (''0044'', ''quiz''), (''0045'', ''quiz''),
      (''0046'', ''contract''),
      (''0051'', ''quiz''), (''0052'', ''quiz''), (''0053'', ''quiz''), (''0054'', ''quiz''),
      (''1001'', ''secret''), (''1002'', ''secret''), (''1003'', ''secret''), (''1004'', ''secret''),
      (''1005'', ''secret''),
      (''1101'', ''secret'')]"

section \<open>Parsed JSON and the JavaScript operations on it\<close>

text \<open>
  A submitted interactive answer is a string that the graders hand to \<^verbatim>\<open>JSON.parse\<close>. The
  parsed value is untyped in the source, so it is a value of \<open>jsv\<close> here; an object is the
  association list of its own properties. \<open>JUndefined\<close> is not produced by parsing: it is
  what reading a missing property gives.
\<close>

datatype jsv =
    JUndefined
  | JNull
  | JBool bool
  | JNum rat
  | JStr string
  | JArr "jsv list"
  | JObj "(string \<times> jsv) list"

text \<open>
  What the code uses and does not define. \<open>JSON_parse\<close> is \<open>None\<close> where
  \<^verbatim>\<open>JSON.parse\<close> throws; \<open>ToNumber_object\<close> is \<^verbatim>\<open>ToNumber\<close> on strings, arrays and
  objects (\<open>None\<close> where it throws); \<open>getAddress\<close> is \<^verbatim>\<open>ethers.getAddress\<close>, the
  checksummed form of an address, \<open>None\<close> where it throws; \<open>memberText\<close> is the text
  that a template literal gives for the member of \<^verbatim>\<open>Object.prototype\<close> of a name, which
  depends on the engine.
\<close>

record externals =
  JSON_parse :: "string \<Rightarrow> jsv option"
  ToNumber_object :: "jsv \<Rightarrow> jsnumber option"
  getAddress :: "string \<Rightarrow> string option"
  memberText :: "string \<Rightarrow> string"

text \<open>
  \<^verbatim>\<open>v.k\<close> for the property names the graders read (none of them is inherited from a
  prototype, but \<^verbatim>\<open>length\<close> of arrays and strings); \<open>None\<close> is the \<^verbatim>\<open>TypeError\<close> of
  reading a property of \<^verbatim>\<open>undefined\<close> or \<^verbatim>\<open>null\<close>.
\<close>

fun getProp :: "jsv \<Rightarrow> string \<Rightarrow> jsv option" where
  "getProp JUndefined k = None"
| "getProp JNull k = None"
| "getProp (JBool b) k = Some JUndefined"
| "getProp (JNum r) k = Some JUndefined"
| "getProp (JStr s) k = Some (if k = ''length'' then JNum (of_nat (length s)) else JUndefined)"
| "getProp (JArr xs) k = Some (if k = ''length'' then JNum (of_nat (length xs)) else JUndefined)"
| "getProp (JObj kvs) k = Some (case map_of kvs k of None \<Rightarrow> JUndefined | Some v \<Rightarrow> v)"

text \<open>\<^verbatim>\<open>v?.k\<close>.\<close>

definition optChain :: "jsv \<Rightarrow> string \<Rightarrow> jsv" where
  "optChain v k = (case getProp v k of None \<Rightarrow> JUndefined | Some x \<Rightarrow> x)"

fun truthy :: "jsv \<Rightarrow> bool" where
  "truthy JUndefined = False"
| "truthy JNull = False"
| "truthy (JBool b) = b"
| "truthy (JNum r) = (r \<noteq> 0)"
| "truthy (JStr s) = (s \<noteq> [])"
| "truthy (JArr xs) = True"
| "truthy (JObj kvs) = True"

text \<open>\<^verbatim>\<open>parsed.userResponse?.field || []\<close>; \<open>None\<close> when \<open>parsed\<close> has no properties to read.\<close>

definition responseField :: "jsv \<Rightarrow> string \<Rightarrow> jsv option" where
  "responseField parsed field =
     (case getProp parsed ''userResponse'' of
        None \<Rightarrow> None
      | Some userResponse \<Rightarrow>
          Some (let v = optChain userResponse field in if truthy v then v else JArr []))"

text \<open>
  The values a \<^verbatim>\<open>for (const x of v)\<close> loop visits: the elements of an array, the
  characters of a string; \<open>None\<close> is the \<^verbatim>\<open>TypeError\<close> of a value that is not iterable.
\<close>

fun iterate :: "jsv \<Rightarrow> jsv list option" where
  "iterate (JArr xs) = Some xs"
| "iterate (JStr s) = Some (map (\<lambda>c. JStr [c]) s)"
| "iterate v = None"

text \<open>\<^verbatim>\<open>v[i]\<close> for a non-negative integer \<open>i\<close>.\<close>

fun indexAt :: "jsv \<Rightarrow> nat \<Rightarrow> jsv" where
  "indexAt (JArr xs) i = (if i < length xs then xs ! i else JUndefined)"
| "indexAt (JStr s) i = (if i < length s then JStr [s ! i] else JUndefined)"
| "indexAt (JObj kvs) i = (case map_of kvs (natToDigits i) of None \<Rightarrow> JUndefined | Some v \<Rightarrow> v)"
| "indexAt v i = JUndefined"

definition ToNumber :: "externals \<Rightarrow> jsv \<Rightarrow> jsnumber option" where
  "ToNumber ext v =
     (case v of
        JUndefined \<Rightarrow> Some NaN
      | JNull \<Rightarrow> Some (Finite 0)
      | JBool b \<Rightarrow> Some (Finite (if b then 1 else 0))
      | JNum r \<Rightarrow> Some (Finite r)
      | _ \<Rightarrow> ToNumber_object ext v)"

text \<open>
  The loop test \<^verbatim>\<open>i < Math.min(userSequence.length, correctSequence.length)\<close>, given the
  number that \<^verbatim>\<open>userSequence.length\<close> converts to and the length \<open>n\<close> of the expected
  sequence.
\<close>

fun lessMin :: "nat \<Rightarrow> jsnumber \<Rightarrow> nat \<Rightarrow> bool" where
  "lessMin i NaN n = False"
| "lessMin i (Finite r) n = (of_nat i < min r (of_nat n))"
| "lessMin i PosInfinity n = (i < n)"
| "lessMin i NegInfinity n = False"

text \<open>
  \<^verbatim>\<open>Math.min\<close> converts \<^verbatim>\<open>userSequence.length\<close> with \<^verbatim>\<open>ToNumber\<close>; \<open>None\<close> where that
  throws.
\<close>

definition lengthNumber :: "externals \<Rightarrow> jsv \<Rightarrow> jsnumber option" where
  "lengthNumber ext userSequence =
     (case getProp userSequence ''length'' of
        None \<Rightarrow> None
      | Some l \<Rightarrow> ToNumber ext l)"

section \<open>Quiz questions\<close>

datatype InteractiveType =
  word_jumble | concept_matching | timeline_builder | true_false_statements | drag_drop_puzzle

text \<open>
  The \<open>data\<close> of a configured interactive answer: a word; pairs \<open>(conceptId, definitionId)\<close>;
  a sequence; classifications \<open>(id, answer)\<close>; a sequence.
\<close>

datatype InteractiveData =
    WordJumbleAnswer string
  | ConceptMatchingAnswer "(string \<times> string) list"
  | TimelineBuilderAnswer "string list"
  | TrueFalseAnswer "(string \<times> bool) list"
  | DragDropPuzzleAnswer "string list"

record InteractiveElementCorrectAnswer =
  answer_type :: InteractiveType
  answer_data :: InteractiveData

text \<open>\<^verbatim>\<open>correctAnswer.data.word\<close> and its siblings; \<open>None\<close> is \<^verbatim>\<open>undefined\<close>.\<close>

fun data_word :: "InteractiveData \<Rightarrow> string option" where
  "data_word (WordJumbleAnswer w) = Some w"
| "data_word d = None"

fun data_pairs :: "InteractiveData \<Rightarrow> (string \<times> string) list option" where
  "data_pairs (ConceptMatchingAnswer ps) = Some ps"
| "data_pairs d = None"

fun data_sequence :: "InteractiveData \<Rightarrow> string list option" where
  "data_sequence (TimelineBuilderAnswer s) = Some s"
| "data_sequence (DragDropPuzzleAnswer s) = Some s"
| "data_sequence d = None"

fun data_classifications :: "InteractiveData \<Rightarrow> (string \<times> bool) list option" where
  "data_classifications (TrueFalseAnswer cs) = Some cs"
| "data_classifications d = None"

datatype CorrectAnswer = Plain string | Interactive InteractiveElementCorrectAnswer

text \<open>Of a question the validator reads the id, the correct answer and the points.\<close>

record QuizQuestion =
  question_id :: string
  question_correctAnswer :: CorrectAnswer
  question_points :: jsnumber

record QuizData =
  quiz_questions :: "QuizQuestion list"
  quiz_passingScore :: jsnumber

section \<open>Interactive element graders\<close>

definition isInteractiveAnswer :: "string \<Rightarrow> bool" where
  "isInteractiveAnswer answer =
     (if answer = [] then False
      else let trimmed = trim answer in startsWith trimmed ''{'' \<and> endsWith trimmed ''}'')"

text \<open>
  \<^verbatim>\<open>parsed.userResponse?.word?.toUpperCase() || ''\<close>: \<open>None\<close> when a property of
  \<^verbatim>\<open>undefined\<close> is read or \<^verbatim>\<open>toUpperCase\<close> is called on a value that is not a string.
\<close>

definition userWordOf :: "jsv \<Rightarrow> nat list option" where
  "userWordOf parsed =
     (case getProp parsed ''userResponse'' of
        None \<Rightarrow> None
      | Some userResponse \<Rightarrow>
          (case optChain userResponse ''word'' of
             JUndefined \<Rightarrow> Some []
           | JNull \<Rightarrow> Some []
           | JStr w \<Rightarrow> Some (toUpperCase w)
           | _ \<Rightarrow> None))"

definition gradeWordJumble :: "externals \<Rightarrow> string \<Rightarrow> InteractiveElementCorrectAnswer \<Rightarrow> jsnumber \<Rightarrow> jsnumber" where
  "gradeWordJumble ext userAnswer correctAnswer points =
     (case JSON_parse ext userAnswer of
        None \<Rightarrow> Finite 0
      | Some parsed \<Rightarrow>
          (case getProp parsed ''type'' of
             None \<Rightarrow> Finite 0
           | Some t \<Rightarrow>
               if t \<noteq> JStr ''word-jumble'' then Finite 0
               else
                 (case userWordOf parsed of
                    None \<Rightarrow> Finite 0
                  | Some userWord \<Rightarrow>
                      (case data_word (answer_data correctAnswer) of
                         None \<Rightarrow> Finite 0
                       | Some word \<Rightarrow>
                           if userWord = toUpperCase word then points else Finite 0))))"

text \<open>
  \<^verbatim>\<open>correctPairs.some(cp => cp.conceptId === userPair.conceptId && cp.definitionId === userPair.definitionId)\<close>;
  \<open>None\<close> when \<open>userPair\<close> is \<^verbatim>\<open>null\<close>.
\<close>

definition pairIsCorrect :: "(string \<times> string) list \<Rightarrow> jsv \<Rightarrow> bool option" where
  "pairIsCorrect correctPairs userPair =
     (if correctPairs = [] then Some False
      else
        (case getProp userPair ''conceptId'' of
           None \<Rightarrow> None
         | Some c \<Rightarrow>
             Some (\<exists>cp \<in> set correctPairs.
                     JStr (fst cp) = c \<and> Some (JStr (snd cp)) = getProp userPair ''definitionId'')))"

fun countCorrectPairs :: "(string \<times> string) list \<Rightarrow> jsv list \<Rightarrow> nat \<Rightarrow> nat option" where
  "countCorrectPairs correctPairs [] correctCount = Some correctCount"
| "countCorrectPairs correctPairs (userPair # rest) correctCount =
     (case pairIsCorrect correctPairs userPair of
        None \<Rightarrow> None
      | Some isCorrect \<Rightarrow>
          countCorrectPairs correctPairs rest (if isCorrect then correctCount + 1 else correctCount))"

definition gradeConceptMatching :: "externals \<Rightarrow> string \<Rightarrow> InteractiveElementCorrectAnswer \<Rightarrow> jsnumber \<Rightarrow> jsnumber" where
  "gradeConceptMatching ext userAnswer correctAnswer points =
     (case JSON_parse ext userAnswer of
        None \<Rightarrow> Finite 0
      | Some parsed \<Rightarrow>
          (case getProp parsed ''type'' of
             None \<Rightarrow> Finite 0
           | Some t \<Rightarrow>
               if t \<noteq> JStr ''concept-matching'' then Finite 0
               else
                 (case responseField parsed ''pairs'' of
                    None \<Rightarrow> Finite 0
                  | Some userPairs \<Rightarrow>
                      (case data_pairs (answer_data correctAnswer) of
                         None \<Rightarrow> Finite 0
                       | Some correctPairs \<Rightarrow>
                           if length correctPairs = 0 then Finite 0
                           else
                             (case iterate userPairs of
                                None \<Rightarrow> Finite 0
                              | Some elems \<Rightarrow>
                                  (case countCorrectPairs correctPairs elems 0 of
                                     None \<Rightarrow> Finite 0
                                   | Some correctCount \<Rightarrow>
                                       numMul (numDiv (countValue correctCount)
                                                 (countValue (length correctPairs)))
                                         points))))))"

text \<open>The loop of \<^verbatim>\<open>gradeTimelineBuilder\<close>, from index \<open>i\<close> with \<open>correctPositions\<close> so far.\<close>

function timelinePositions :: "jsv \<Rightarrow> jsnumber \<Rightarrow> string list \<Rightarrow> nat \<Rightarrow> nat \<Rightarrow> nat" where
  "timelinePositions userSequence len correctSequence i correctPositions =
     (if lessMin i len (length correctSequence)
      then timelinePositions userSequence len correctSequence (i + 1)
             (if indexAt userSequence i = JStr (correctSequence ! i)
              then correctPositions + 1 else correctPositions)
      else correctPositions)"
  by pat_completeness auto

lemma lessMin_less: "lessMin i len n \<Longrightarrow> i < n"
  by (cases len) auto

termination timelinePositions
  by (relation "measure (\<lambda>(userSequence, len, correctSequence, i, correctPositions).
        length correctSequence - i)") (auto dest: lessMin_less)

declare timelinePositions.simps [simp del]

definition gradeTimelineBuilder :: "externals \<Rightarrow> string \<Rightarrow> InteractiveElementCorrectAnswer \<Rightarrow> jsnumber \<Rightarrow> jsnumber" where
  "gradeTimelineBuilder ext userAnswer correctAnswer points =
     (case JSON_parse ext userAnswer of
        None \<Rightarrow> Finite 0
      | Some parsed \<Rightarrow>
          (case getProp parsed ''type'' of
             None \<Rightarrow> Finite 0
           | Some t \<Rightarrow>
               if t \<noteq> JStr ''timeline-builder'' then Finite 0
               else
                 (case responseField parsed ''sequence'' of
                    None \<Rightarrow> Finite 0
                  | Some userSequence \<Rightarrow>
                      (case data_sequence (answer_data correctAnswer) of
                         None \<Rightarrow> Finite 0
                       | Some correctSequence \<Rightarrow>
                           if length correctSequence = 0 then Finite 0
                           else
                             (case lengthNumber ext userSequence of
                                None \<Rightarrow> Finite 0
                              | Some len \<Rightarrow>
                                  numMul (numDiv (countValue (timelinePositions userSequence len correctSequence 0 0))
                                             (countValue (length correctSequence)))
                                     points)))))"

text \<open>
  \<^verbatim>\<open>correctClassifications.find(cc => cc.id === userClass.id)\<close> and the test
  \<^verbatim>\<open>correctClass && correctClass.answer === userClass.answer\<close>; \<open>None\<close> when
  \<open>userClass\<close> is \<^verbatim>\<open>null\<close>.
\<close>

definition classIsCorrect :: "(string \<times> bool) list \<Rightarrow> jsv \<Rightarrow> bool option" where
  "classIsCorrect correctClassifications userClass =
     (if correctClassifications = [] then Some False
      else
        (case getProp userClass ''id'' of
           None \<Rightarrow> None
         | Some i \<Rightarrow>
             (case find (\<lambda>cc. JStr (fst cc) = i) correctClassifications of
                None \<Rightarrow> Some False
              | Some correctClass \<Rightarrow>
                  Some (Some (JBool (snd correctClass)) = getProp userClass ''answer''))))"

fun countCorrectClasses :: "(string \<times> bool) list \<Rightarrow> jsv list \<Rightarrow> nat \<Rightarrow> nat option" where
  "countCorrectClasses correctClassifications [] correctCount = Some correctCount"
| "countCorrectClasses correctClassifications (userClass # rest) correctCount =
     (case classIsCorrect correctClassifications userClass of
        None \<Rightarrow> None
      | Some isCorrect \<Rightarrow>
          countCorrectClasses correctClassifications rest
            (if isCorrect then correctCount + 1 else correctCount))"

definition gradeTrueFalseStatements :: "externals \<Rightarrow> string \<Rightarrow> InteractiveElementCorrectAnswer \<Rightarrow> jsnumber \<Rightarrow> jsnumber" where
  "gradeTrueFalseStatements ext userAnswer correctAnswer points =
     (case JSON_parse ext userAnswer of
        None \<Rightarrow> Finite 0
      | Some parsed \<Rightarrow>
          (case getProp parsed ''type'' of
             None \<Rightarrow> Finite 0
           | Some t \<Rightarrow>
               if t \<noteq> JStr ''true-false-statements'' then Finite 0
               else
                 (case responseField parsed ''classifications'' of
                    None \<Rightarrow> Finite 0
                  | Some userClassifications \<Rightarrow>
                      (case data_classifications (answer_data correctAnswer) of
                         None \<Rightarrow> Finite 0
                       | Some correctClassifications \<Rightarrow>
                           if length correctClassifications = 0 then Finite 0
                           else
                             (case iterate userClassifications of
                                None \<Rightarrow> Finite 0
                              | Some elems \<Rightarrow>
                                  (case countCorrectClasses correctClassifications elems 0 of
                                     None \<Rightarrow> Finite 0
                                   | Some correctCount \<Rightarrow>
                                       numMul (numDiv (countValue correctCount)
                                                 (countValue (length correctClassifications)))
                                         points))))))"

text \<open>The loop of \<^verbatim>\<open>gradeDragDropPuzzle\<close>.\<close>

function dragDropPositions :: "jsv \<Rightarrow> jsnumber \<Rightarrow> string list \<Rightarrow> nat \<Rightarrow> nat \<Rightarrow> nat" where
  "dragDropPositions userSequence len correctSequence i correctPositions =
     (if lessMin i len (length correctSequence)
      then dragDropPositions userSequence len correctSequence (i + 1)
             (if indexAt userSequence i = JStr (correctSequence ! i)
              then correctPositions + 1 else correctPositions)
      else correctPositions)"
  by pat_completeness auto

termination dragDropPositions
  by (relation "measure (\<lambda>(userSequence, len, correctSequence, i, correctPositions).
        length correctSequence - i)") (auto dest: lessMin_less)

declare dragDropPositions.simps [simp del]

definition gradeDragDropPuzzle :: "externals \<Rightarrow> string \<Rightarrow> InteractiveElementCorrectAnswer \<Rightarrow> jsnumber \<Rightarrow> jsnumber" where
  "gradeDragDropPuzzle ext userAnswer correctAnswer points =
     (case JSON_parse ext userAnswer of
        None \<Rightarrow> Finite 0
      | Some parsed \<Rightarrow>
          (case getProp parsed ''type'' of
             None \<Rightarrow> Finite 0
           | Some t \<Rightarrow>
               if t \<noteq> JStr ''drag-drop-puzzle'' then Finite 0
               else
                 (case responseField parsed ''sequence'' of
                    None \<Rightarrow> Finite 0
                  | Some userSequence \<Rightarrow>
                      (case data_sequence (answer_data correctAnswer) of
                         None \<Rightarrow> Finite 0
                       | Some correctSequence \<Rightarrow>
                           if length correctSequence = 0 then Finite 0
                           else
                             (case lengthNumber ext userSequence of
                                None \<Rightarrow> Finite 0
                              | Some len \<Rightarrow>
                                  numMul (numDiv (countValue (dragDropPositions userSequence len correctSequence 0 0))
                                             (countValue (length correctSequence)))
                                     points)))))"

section \<open>Requests, results and the state of the worker\<close>

text \<open>
  The payload of a request, \<^verbatim>\<open>submissionData\<close>, is untyped in the source and cast to the
  shape of its kind. Here it is one record with every field the validators read, each
  optional and of its declared type: \<^verbatim>\<open>answers\<close> (quiz), \<^verbatim>\<open>transactionHash\<close>,
  \<^verbatim>\<open>chainId\<close>, \<^verbatim>\<open>claimantAddress\<close>, \<^verbatim>\<open>method\<close> (transaction), \<^verbatim>\<open>secretAnswer\<close>
  (secret) and \<^verbatim>\<open>contractAddress\<close> (contract).
\<close>

record SubmissionData =
  answers :: "(string \<Rightarrow> string option) option"
  transactionHash :: "string option"
  chainId :: "int option"
  claimantAddress :: "string option"
  creationMethod :: "string option"
  secretAnswer :: "string option"
  proxyAddress :: "string option"

record Metadata =
  timestamp :: string
  timeSpent :: "rat option"

record ValidationContext =
  achievementNumber :: string
  walletAddress :: string
  rpcUrl :: string
  submissionType :: string
  submissionData :: SubmissionData
  metadata :: "Metadata option"

text \<open>
  \<^verbatim>\<open>ValidationResult\<close> without its presentation texts (\<^verbatim>\<open>feedback\<close>, \<^verbatim>\<open>nextSteps\<close>)
  and \<^verbatim>\<open>debug\<close>. An absent field is \<open>None\<close>; \<open>blockNumber\<close> is a \<^verbatim>\<open>parseInt\<close> result
  when present; the two counts are natural numbers. The fields \<^verbatim>\<open>timeSpent\<close> and
  \<^verbatim>\<open>method\<close> of a result are \<open>resultTimeSpent\<close> and \<open>resultMethod\<close>.
\<close>

record ValidationResult =
  passed :: bool
  score :: "jsnumber option"
  maxScore :: "jsnumber option"
  passingScore :: "jsnumber option"
  totalQuestions :: "nat option"
  correctAnswers :: "nat option"
  resultTimeSpent :: "rat option"
  accuracy :: "jsnumber option"
  transactionValid :: "bool option"
  blockNumber :: "int option option"
  retryAllowed :: "bool option"
  tokenAddress :: "string option"
  tokenName :: "string option"
  tokenSymbol :: "string option"
  contractAddress :: "string option"
  resultMethod :: "string option"
  error :: "string option"

text \<open>The object literal \<^verbatim>\<open>{ passed }\<close>, to which the other fields are added.\<close>

definition resultOf :: "bool \<Rightarrow> ValidationResult" where
  "resultOf p =
     \<lparr>passed = p, score = None, maxScore = None, passingScore = None, totalQuestions = None,
      correctAnswers = None, resultTimeSpent = None, accuracy = None, transactionValid = None,
      blockNumber = None, retryAllowed = None, tokenAddress = None, tokenName = None,
      tokenSymbol = None, contractAddress = None, resultMethod = None, error = None\<rparr>"

text \<open>\<^verbatim>\<open>{ passed: false, error: e, retryAllowed: r }\<close>.\<close>

definition failure :: "string \<Rightarrow> bool \<Rightarrow> ValidationResult" where
  "failure e r = (resultOf False)\<lparr>error := Some e, retryAllowed := Some r\<rparr>"

text \<open>The environment bindings that the pipeline reads.\<close>

record Bindings =
  ISSUER_PRIVATE_KEY :: string
  CONTRACT_ADDRESS :: string
  CHAIN_ID :: string
  RPC_URL :: string
  RPC_URL_MAINNET :: "string option"
  RPC_URL_TESTNET :: "string option"
  NEXT_PUBLIC_FACTORY_ADDRESS_TESTNET :: "string option"
  NEXT_PUBLIC_FACTORY_ADDRESS_MAINNET :: "string option"
  QUIZ_DATA_URL :: "string option"
  SECRET_ANSWERS_URL :: "string option"

text \<open>A stored row of \<^verbatim>\<open>training_completions\<close>.\<close>

record TrainingCompletion =
  wallet_address :: string
  achievement_number :: string
  task_code :: "int option"
  submission_type :: string
  submission_data :: SubmissionData
  row_score :: "jsnumber option"
  max_score :: "jsnumber option"
  row_passed :: bool
  voucher_signature :: "string option"
  row_metadata :: "Metadata option"

text \<open>A request sent with \<^verbatim>\<open>fetch\<close>: a document read, or a JSON-RPC call.\<close>

datatype fetch_request =
    GetDocument string
  | EthGetTransactionByHash string string
  | EthGetTransactionReceipt string string
  | EthCall string string string
  | EthGetStorageAt string string string

text \<open>
  What persists between requests: the two tables, the module variables \<^verbatim>\<open>QUIZ_DATA\<close>,
  \<^verbatim>\<open>SECRET_ANSWERS\<close> and their caches (data and time stamp), and, as a record of the
  effects, the list of all requests sent so far, oldest first. Rows are in insertion order.
\<close>

record state =
  training_completions :: "TrainingCompletion list"
  wallet_data :: "string list"
  QUIZ_DATA :: "string \<Rightarrow> QuizData option"
  SECRET_ANSWERS :: "string \<Rightarrow> string option"
  quizDataCache :: "((string \<Rightarrow> QuizData option) \<times> int) option"
  secretAnswersCache :: "((string \<Rightarrow> string option) \<times> int) option"
  fetched :: "fetch_request list"

text \<open>
  The outcome of a \<^verbatim>\<open>fetch\<close> followed by \<^verbatim>\<open>response.json()\<close>: either of them throws
  (with a message), or there is \<^verbatim>\<open>response.ok\<close> and the parsed body.
\<close>

datatype 'a fetch_result = FetchError string | Response bool 'a

record RpcError =
  code :: int
  message :: string

record 'a RPCResponse =
  rpc_error :: "RpcError option"
  rpc_result :: "'a option"

record TransactionData =
  tx_from :: string
  tx_blockNumber :: "string option"

record Log =
  topics :: "string list option"

record Receipt =
  receipt_status :: "string option"
  receipt_to :: "string option"
  receipt_contractAddress :: "string option"
  receipt_logs :: "Log list option"

text \<open>
  What the outside gives to one request: the clock (milliseconds since the epoch), the
  reply to each \<^verbatim>\<open>fetch\<close> by the number of requests sent before it, typed as the source
  casts it, and the signature produced by the voucher signer (\<open>None\<close> where it throws).
\<close>

record io =
  now :: int
  quizDocument :: "nat \<Rightarrow> (string \<Rightarrow> QuizData option) fetch_result"
  secretDocument :: "nat \<Rightarrow> (string \<Rightarrow> string option) fetch_result"
  transactionReply :: "nat \<Rightarrow> TransactionData RPCResponse fetch_result"
  receiptReply :: "nat \<Rightarrow> Receipt RPCResponse fetch_result"
  callReply :: "nat \<Rightarrow> string RPCResponse fetch_result"
  signTypedData :: "int option \<Rightarrow> string \<Rightarrow> string option"

definition send :: "fetch_request \<Rightarrow> state \<Rightarrow> state" where
  "send r st = st\<lparr>fetched := fetched st @ [r]\<rparr>"

section \<open>External data loaders\<close>

definition CACHE_DURATION :: int where
  "CACHE_DURATION = 3600000"

text \<open>
  A loader returns whether it completed (\<open>False\<close>: it throws) and the state it leaves. The
  time stamp of a new cache entry is the same clock reading as the one of the expiry test.
\<close>

definition loadQuizData :: "Bindings \<Rightarrow> io \<Rightarrow> state \<Rightarrow> bool \<times> state" where
  "loadQuizData env w st =
     (case (case quizDataCache st of
              Some (cached, stamp) \<Rightarrow> if now w - stamp < CACHE_DURATION then Some cached else None
            | None \<Rightarrow> None) of
        Some cached \<Rightarrow> (True, st\<lparr>QUIZ_DATA := cached\<rparr>)
      | None \<Rightarrow>
          (case QUIZ_DATA_URL env of
             None \<Rightarrow> (True, st)
           | Some quizDataUrl \<Rightarrow>
               if quizDataUrl = [] then (True, st)
               else
                 (case quizDocument w (length (fetched st)) of
                    FetchError m \<Rightarrow> (False, send (GetDocument quizDataUrl) st)
                  | Response ok d \<Rightarrow>
                      if \<not> ok then (False, send (GetDocument quizDataUrl) st)
                      else (True, (send (GetDocument quizDataUrl) st)
                                    \<lparr>QUIZ_DATA := d, quizDataCache := Some (d, now w)\<rparr>))))"

definition loadSecretAnswers :: "Bindings \<Rightarrow> io \<Rightarrow> state \<Rightarrow> bool \<times> state" where
  "loadSecretAnswers env w st =
     (case (case secretAnswersCache st of
              Some (cached, stamp) \<Rightarrow> if now w - stamp < CACHE_DURATION then Some cached else None
            | None \<Rightarrow> None) of
        Some cached \<Rightarrow> (True, st\<lparr>SECRET_ANSWERS := cached\<rparr>)
      | None \<Rightarrow>
          (case SECRET_ANSWERS_URL env of
             None \<Rightarrow> (True, st)
           | Some secretAnswersUrl \<Rightarrow>
               if secretAnswersUrl = [] then (True, st)
               else
                 (case secretDocument w (length (fetched st)) of
                    FetchError m \<Rightarrow> (False, send (GetDocument secretAnswersUrl) st)
                  | Response ok d \<Rightarrow>
                      if \<not> ok then (False, send (GetDocument secretAnswersUrl) st)
                      else (True, (send (GetDocument secretAnswersUrl) st)
                                    \<lparr>SECRET_ANSWERS := d, secretAnswersCache := Some (d, now w)\<rparr>))))"

section \<open>Secret validator\<close>

text \<open>\<^verbatim>\<open>new Date('2025-11-14T23:00:00Z')\<close> in milliseconds since the epoch.\<close>

definition cutoffDate :: int where
  "cutoffDate = 1763161200000"

text \<open>
  A validator returns its result and the state it leaves; the result is \<open>None\<close> when an
  exception leaves the validator.
\<close>

definition validateSecretSubmission ::
  "SubmissionData \<Rightarrow> ValidationContext \<Rightarrow> Bindings option \<Rightarrow> io \<Rightarrow> state
     \<Rightarrow> ValidationResult option \<times> state" where
  "validateSecretSubmission sd context env w st =
     (case (case env of None \<Rightarrow> (True, st) | Some e \<Rightarrow> loadSecretAnswers e w st) of
        (False, st1) \<Rightarrow> (None, st1)
      | (True, st1) \<Rightarrow>
          (case SECRET_ANSWERS st1 (achievementNumber context) of
             None \<Rightarrow> (Some (failure ''Secret answer not configured for this achievement'' False), st1)
           | Some expectedAnswer \<Rightarrow>
               if expectedAnswer = [] then
                 (Some (failure ''Secret answer not configured for this achievement'' False), st1)
               else if achievementNumber context = ''1101'' \<and> now w > cutoffDate then
                 (Some (failure
                    ''This launch day achievement is no longer available. The promotion period has ended.''
                    False), st1)
               else
                 (case secretAnswer sd of
                    None \<Rightarrow> (Some (failure ''Secret answer is required'' True), st1)
                  | Some answer \<Rightarrow>
                      if answer = [] then (Some (failure ''Secret answer is required'' True), st1)
                      else
                        (let p = (trim answer = expectedAnswer)
                         in (Some ((resultOf p)\<lparr>retryAllowed := Some (\<not> p)\<rparr>), st1)))))"

section \<open>Quiz validator\<close>

text \<open>The \<^verbatim>\<open>switch\<close> on the type of the configured answer.\<close>

definition gradeInteractive ::
  "externals \<Rightarrow> string \<Rightarrow> InteractiveElementCorrectAnswer \<Rightarrow> jsnumber \<Rightarrow> jsnumber" where
  "gradeInteractive ext submittedAnswer ca pts =
     (case answer_type ca of
        word_jumble \<Rightarrow> gradeWordJumble ext submittedAnswer ca pts
      | concept_matching \<Rightarrow> gradeConceptMatching ext submittedAnswer ca pts
      | timeline_builder \<Rightarrow> gradeTimelineBuilder ext submittedAnswer ca pts
      | true_false_statements \<Rightarrow> gradeTrueFalseStatements ext submittedAnswer ca pts
      | drag_drop_puzzle \<Rightarrow> gradeDragDropPuzzle ext submittedAnswer ca pts)"

text \<open>
  One turn of the loop over the questions, on \<open>(correctCount, totalScore)\<close>, given the
  submitted answers. A question without an answer is skipped; for every other one the
  turn ends with \<^verbatim>\<open>totalScore += questionScore\<close>, where \<open>questionScore\<close> is still 0 when
  nothing was awarded.
\<close>

definition gradeQuestion ::
  "externals \<Rightarrow> (string \<Rightarrow> string option) \<Rightarrow> QuizQuestion \<Rightarrow> nat \<times> jsnumber
     \<Rightarrow> nat \<times> jsnumber" where
  "gradeQuestion ext submitted question acc =
     (case acc of (correctCount, totalScore) \<Rightarrow>
        (case submitted (question_id question) of
           None \<Rightarrow> (correctCount, totalScore)
         | Some submittedAnswer \<Rightarrow>
             if submittedAnswer = [] then (correctCount, totalScore)
             else if isInteractiveAnswer submittedAnswer then
               (case question_correctAnswer question of
                  Interactive ca \<Rightarrow>
                    (let questionScore = gradeInteractive ext submittedAnswer ca (question_points question)
                     in (if numEq questionScore (question_points question) then correctCount + 1
                         else correctCount,
                         numAdd totalScore questionScore))
                | Plain c \<Rightarrow> (correctCount, numAdd totalScore (Finite 0)))
             else
               (case question_correctAnswer question of
                  Plain c \<Rightarrow>
                    if toUpperCase submittedAnswer = toUpperCase c
                    then (correctCount + 1, numAdd totalScore (question_points question))
                    else (correctCount, numAdd totalScore (Finite 0))
                | Interactive ca \<Rightarrow> (correctCount, numAdd totalScore (Finite 0)))))"

fun gradeQuestions ::
  "externals \<Rightarrow> (string \<Rightarrow> string option) \<Rightarrow> QuizQuestion list \<Rightarrow> nat \<times> jsnumber
     \<Rightarrow> nat \<times> jsnumber" where
  "gradeQuestions ext submitted [] acc = acc"
| "gradeQuestions ext submitted (question # rest) acc =
     gradeQuestions ext submitted rest (gradeQuestion ext submitted question acc)"

text \<open>\<^verbatim>\<open>questions.reduce((sum, q) => sum + q.points, 0)\<close>.\<close>

definition sumPoints :: "QuizQuestion list \<Rightarrow> jsnumber" where
  "sumPoints qs = foldl (\<lambda>sum q. numAdd sum (question_points q)) (Finite 0) qs"

text \<open>
  The quiz validator. An exception leaves it when the quiz data fail to load, and when
  there are questions but the payload has no \<^verbatim>\<open>answers\<close> (a property of
  \<^verbatim>\<open>undefined\<close> is read in the first turn of the loop).
\<close>

definition validateQuizSubmission ::
  "externals \<Rightarrow> SubmissionData \<Rightarrow> ValidationContext \<Rightarrow> Bindings option \<Rightarrow> io \<Rightarrow> state
     \<Rightarrow> ValidationResult option \<times> state" where
  "validateQuizSubmission ext sd context env w st =
     (case (case env of None \<Rightarrow> (True, st) | Some e \<Rightarrow> loadQuizData e w st) of
        (False, st1) \<Rightarrow> (None, st1)
      | (True, st1) \<Rightarrow>
          (case QUIZ_DATA st1 (achievementNumber context) of
             None \<Rightarrow> (Some (failure ''Quiz data not found for this achievement'' False), st1)
           | Some quizData \<Rightarrow>
               (let qs = quiz_questions quizData;
                    threshold = quiz_passingScore quizData;
                    maxS = sumPoints qs
                in
                  (case (if qs = [] then Some (0, Finite 0)
                         else (case answers sd of
                                 None \<Rightarrow> None
                               | Some submitted \<Rightarrow>
                                   Some (gradeQuestions ext submitted qs (0, Finite 0)))) of
                     None \<Rightarrow> (None, st1)
                   | Some (correctCount, totalScore) \<Rightarrow>
                       (let acc = (if length qs > 0
                                   then numMul (numDiv (countValue correctCount)
                                                  (countValue (length qs))) (Finite 100)
                                   else Finite 0);
                            scorePercentage = (if numGt maxS (Finite 0)
                                               then numMul (numDiv totalScore maxS) (Finite 100)
                                               else Finite 0);
                            p = numGe scorePercentage threshold
                        in (Some ((resultOf p)
                              \<lparr>score := Some totalScore,
                               maxScore := Some maxS,
                               passingScore := Some threshold,
                               totalQuestions := Some (length qs),
                               correctAnswers := Some correctCount,
                               resultTimeSpent := (case metadata context of
                                                     None \<Rightarrow> None | Some m \<Rightarrow> timeSpent m),
                               accuracy := Some acc,
                               retryAllowed := Some (\<not> p)\<rparr>), st1))))))"

section \<open>Blockchain calls\<close>

text \<open>
  Each call appends its request to \<open>fetched\<close> and takes its reply from the outside, by the
  number of requests sent before it.
\<close>

definition getTransactionByHash ::
  "io \<Rightarrow> string \<Rightarrow> string \<Rightarrow> state \<Rightarrow> TransactionData RPCResponse fetch_result \<times> state" where
  "getTransactionByHash w url txId st =
     (transactionReply w (length (fetched st)), send (EthGetTransactionByHash url txId) st)"

definition getTransactionReceipt ::
  "io \<Rightarrow> string \<Rightarrow> string \<Rightarrow> state \<Rightarrow> Receipt RPCResponse fetch_result \<times> state" where
  "getTransactionReceipt w url txId st =
     (receiptReply w (length (fetched st)), send (EthGetTransactionReceipt url txId) st)"

definition ethCall ::
  "io \<Rightarrow> string \<Rightarrow> string \<Rightarrow> string \<Rightarrow> state \<Rightarrow> string RPCResponse fetch_result \<times> state" where
  "ethCall w url to calldata st =
     (callReply w (length (fetched st)), send (EthCall url to calldata) st)"

definition getStorageAt ::
  "io \<Rightarrow> string \<Rightarrow> string \<Rightarrow> string \<Rightarrow> state \<Rightarrow> string RPCResponse fetch_result \<times> state" where
  "getStorageAt w url address slot st =
     (callReply w (length (fetched st)), send (EthGetStorageAt url address slot) st)"

text \<open>\<^verbatim>\<open>data.error?.message || dflt\<close>.\<close>

definition errorMessageOr :: "('a, 'b) RPCResponse_scheme \<Rightarrow> string \<Rightarrow> string" where
  "errorMessageOr d dflt =
     (case rpc_error d of
        None \<Rightarrow> dflt
      | Some e \<Rightarrow> if message e = [] then dflt else message e)"

text \<open>\<^verbatim>\<open>!data.result || data.result === '0x'\<close> on a string result.\<close>

definition emptyResult :: "string option \<Rightarrow> bool" where
  "emptyResult r = (case r of None \<Rightarrow> True | Some x \<Rightarrow> x = [] \<or> x = ''0x'')"

text \<open>\<^verbatim>\<open>String.fromCharCode\<close> of a \<^verbatim>\<open>parseInt\<close> result (\<open>NaN\<close> gives the code unit 0).\<close>

definition fromCharCode :: "int option \<Rightarrow> char" where
  "fromCharCode x = (case x of None \<Rightarrow> char_of (0 :: nat) | Some c \<Rightarrow> char_of (nat (c mod 65536)))"

definition hexPairChar :: "string \<Rightarrow> string" where
  "hexPairChar hexPair =
     (let charCode = parseInt hexPair 16
      in if charCode \<noteq> Some 0 then [fromCharCode charCode] else [])"

fun hexToString :: "string \<Rightarrow> string" where
  "hexToString [] = []"
| "hexToString [a] = hexPairChar [a]"
| "hexToString (a # b # rest) = hexPairChar [a, b] @ hexToString rest"

text \<open>The decoding of the result of \<^verbatim>\<open>name()\<close> and \<^verbatim>\<open>symbol()\<close> in \<^verbatim>\<open>verifyERC20Token\<close>.\<close>

definition decodeTokenString :: "string \<Rightarrow> string" where
  "decodeTokenString r =
     (let hex = slice_from r 2 in
      if length hex \<ge> 128 then
        (let lengthHex = slice hex 64 128 in
         (case parseInt lengthHex 16 of
            None \<Rightarrow> ''''
          | Some l \<Rightarrow>
              if l > 0 \<and> l \<le> 100 then hexToString (slice hex 128 (128 + nat l * 2)) else ''''))
      else
        (let decoded = hexToString hex in if length decoded > 0 then decoded else ''''))"

record ERC20Results =
  results_name :: "string option"
  results_symbol :: "string option"
  results_decimals :: "string option"
  results_totalSupply :: "string option"

record TokenValidation =
  isValid :: bool
  validation_error :: "string option"
  token_name :: "string option"
  token_symbol :: "string option"
  token_totalSupply :: "string option"

definition invalid :: "string \<Rightarrow> TokenValidation" where
  "invalid e = \<lparr>isValid = False, validation_error = Some e, token_name = None,
                token_symbol = None, token_totalSupply = None\<rparr>"

text \<open>How a turn of a loop with an early \<^verbatim>\<open>return\<close> and a \<^verbatim>\<open>throw\<close> ends.\<close>

datatype ('r, 'a) turn = Throws string | Returns 'r | Continues 'a

definition erc20Functions :: "(string \<times> string) list" where
  "erc20Functions =
     [(''name'', ''0x06fdde03''), (''symbol'', ''0x95d89b41''),
      (''decimals'', ''0x313ce567''), (''totalSupply'', ''0x18160ddd'')]"

text \<open>The loop over \<open>functions\<close> in \<^verbatim>\<open>verifyERC20Token\<close>.\<close>

fun erc20Loop ::
  "io \<Rightarrow> string \<Rightarrow> string \<Rightarrow> (string \<times> string) list \<Rightarrow> ERC20Results \<Rightarrow> state
     \<Rightarrow> (TokenValidation, ERC20Results) turn \<times> state" where
  "erc20Loop w url address [] results st = (Continues results, st)"
| "erc20Loop w url address (func # rest) results st =
     (case ethCall w url address (snd func) st of
        (FetchError m, st1) \<Rightarrow> (Throws m, st1)
      | (Response ok d, st1) \<Rightarrow>
          if \<not> ok \<or> rpc_error d \<noteq> None then
            (Returns (invalid (''Failed to call '' @ fst func @ ''(): '' @ errorMessageOr d ''Network error'')), st1)
          else if emptyResult (rpc_result d) then
            (Returns (invalid (''Contract does not implement ERC-20 function: '' @ fst func)), st1)
          else
            (case rpc_result d of
               None \<Rightarrow> (Returns (invalid (''Contract does not implement ERC-20 function: '' @ fst func)), st1)
             | Some r \<Rightarrow>
                 erc20Loop w url address rest
                   (if fst func = ''name'' then results\<lparr>results_name := Some (decodeTokenString r)\<rparr>
                    else if fst func = ''symbol'' then results\<lparr>results_symbol := Some (decodeTokenString r)\<rparr>
                    else if fst func = ''totalSupply'' then results\<lparr>results_totalSupply := Some r\<rparr>
                    else if fst func = ''decimals'' then results\<lparr>results_decimals := Some r\<rparr>
                    else results)
                   st1))"

definition showOption :: "string option \<Rightarrow> string" where
  "showOption x = (case x of None \<Rightarrow> ''undefined'' | Some s \<Rightarrow> s)"

definition verifyERC20Token ::
  "io \<Rightarrow> string \<Rightarrow> string \<Rightarrow> string \<Rightarrow> state \<Rightarrow> TokenValidation \<times> state" where
  "verifyERC20Token w address url expectedCreator st =
     (case erc20Loop w url address erc20Functions
             \<lparr>results_name = None, results_symbol = None, results_decimals = None,
              results_totalSupply = None\<rparr> st of
        (Throws m, st1) \<Rightarrow> (invalid (''Failed to verify ERC-20 compliance: '' @ m), st1)
      | (Returns v, st1) \<Rightarrow> (v, st1)
      | (Continues results, st1) \<Rightarrow>
          if results_name results = None \<or> results_name results = Some ''''
             \<or> results_symbol results = None \<or> results_symbol results = Some '''' then
            (invalid (''Contract does not return valid token name ('' @ showOption (results_name results)
                        @ '') or symbol ('' @ showOption (results_symbol results) @ '')''), st1)
          else
            (\<lparr>isValid = True, validation_error = None, token_name = results_name results,
              token_symbol = results_symbol results,
              token_totalSupply = results_totalSupply results\<rparr>, st1))"

definition verifyClaimantField ::
  "io \<Rightarrow> string \<Rightarrow> string \<Rightarrow> string \<Rightarrow> state \<Rightarrow> TokenValidation \<times> state" where
  "verifyClaimantField w address url expectedClaimant st =
     (case ethCall w url address ''0xd28720af'' st of
        (FetchError m, st1) \<Rightarrow> (invalid (''Failed to verify claimant field: '' @ m), st1)
      | (Response ok d, st1) \<Rightarrow>
          if \<not> ok \<or> rpc_error d \<noteq> None then
            (invalid (''Failed to call claimant(): '' @ errorMessageOr d ''Network error''), st1)
          else if emptyResult (rpc_result d) then
            (invalid ''Contract does not have a claimant field - required for achievement verification'', st1)
          else
            (case rpc_result d of
               None \<Rightarrow>
                 (invalid ''Contract does not have a claimant field - required for achievement verification'', st1)
             | Some r \<Rightarrow>
                 (let claimant = ''0x'' @ slice_from r 26 in
                  if toLowerCase claimant \<noteq> toLowerCase expectedClaimant then
                    (invalid (''Contract claimant ('' @ claimant @ '') does not match connected wallet (''
                                @ expectedClaimant @ '')''), st1)
                  else
                    (\<lparr>isValid = True, validation_error = None, token_name = None,
                      token_symbol = None, token_totalSupply = None\<rparr>, st1))))"

section \<open>Transaction and contract validators\<close>

definition tokenCreatedEventSignature :: string where
  "tokenCreatedEventSignature = ''0xf7e8acecb8d3544fef71b7f97c2188587e324a3e2279d51915c3e067a640e88d''"

text \<open>\<^verbatim>\<open>log.topics?.[0] === tokenCreatedEventSignature\<close>.\<close>

definition isTokenCreated :: "Log \<Rightarrow> bool" where
  "isTokenCreated l =
     (case topics l of
        None \<Rightarrow> False
      | Some ts \<Rightarrow> (case ts of [] \<Rightarrow> False | t # rest \<Rightarrow> t = tokenCreatedEventSignature))"

text \<open>\<^verbatim>\<open>xs[i]\<close> on an array of strings; \<open>None\<close> is \<^verbatim>\<open>undefined\<close>.\<close>

definition nth_opt :: "'a list \<Rightarrow> nat \<Rightarrow> 'a option" where
  "nth_opt xs i = (if i < length xs then Some (xs ! i) else None)"

text \<open>
  The common beginning of the verifiers: the receipt is fetched and must exist. \<open>Throws\<close>
  is caught by the \<^verbatim>\<open>catch\<close> of each verifier.
\<close>

definition fetchReceipt ::
  "io \<Rightarrow> string \<Rightarrow> string \<Rightarrow> state \<Rightarrow> (ValidationResult, Receipt) turn \<times> state" where
  "fetchReceipt w url txId st =
     (case getTransactionReceipt w url txId st of
        (FetchError m, st1) \<Rightarrow> (Throws m, st1)
      | (Response ok d, st1) \<Rightarrow>
          (case rpc_result d of
             None \<Rightarrow>
               (Returns (failure (''Failed to get transaction receipt: ''
                                     @ errorMessageOr d ''Transaction not found'') True), st1)
           | Some receipt \<Rightarrow>
               if \<not> ok \<or> rpc_error d \<noteq> None then
                 (Returns (failure (''Failed to get transaction receipt: ''
                                       @ errorMessageOr d ''Transaction not found'') True), st1)
               else (Continues receipt, st1)))"

definition verifyFactoryTokenCreation ::
  "string \<Rightarrow> int \<Rightarrow> string \<Rightarrow> ValidationContext \<Rightarrow> Bindings \<Rightarrow> io \<Rightarrow> state
     \<Rightarrow> ValidationResult \<times> state" where
  "verifyFactoryTokenCreation txId chain expectedCreator context env w st =
     (case (if chain = 33101 then NEXT_PUBLIC_FACTORY_ADDRESS_TESTNET env
            else NEXT_PUBLIC_FACTORY_ADDRESS_MAINNET env) of
        None \<Rightarrow> (failure ''Token factory not deployed on this network'' False, st)
      | Some factoryAddress \<Rightarrow>
          if factoryAddress = [] then (failure ''Token factory not deployed on this network'' False, st)
          else
            (case fetchReceipt w (rpcUrl context) txId st of
               (Throws m, st1) \<Rightarrow> (failure ''Failed to verify factory token creation'' True, st1)
             | (Returns r, st1) \<Rightarrow> (r, st1)
             | (Continues receipt, st1) \<Rightarrow>
                 if receipt_status receipt \<noteq> Some ''0x1'' then
                   (failure ''Transaction failed on the blockchain'' True, st1)
                 else if map_option toLowerCase (receipt_to receipt) \<noteq> Some (toLowerCase factoryAddress) then
                   (failure ''Transaction did not call the Plunder Academy token factory'' True, st1)
                 else
                   (case (case receipt_logs receipt of None \<Rightarrow> None | Some ls \<Rightarrow> find isTokenCreated ls) of
                      None \<Rightarrow> (failure ''No TokenCreated event found in transaction'' True, st1)
                    | Some tokenCreatedLog \<Rightarrow>
                        (case (case topics tokenCreatedLog of
                                 None \<Rightarrow> None
                               | Some ts \<Rightarrow>
                                   (case (nth_opt ts 1, nth_opt ts 3) of
                                      (Some t1, Some t3) \<Rightarrow> Some (''0x'' @ slice_from t1 26, ''0x'' @ slice_from t3 26)
                                    | _ \<Rightarrow> None)) of
                           None \<Rightarrow> (failure ''Failed to verify factory token creation'' True, st1)
                         | Some (creator, token) \<Rightarrow>
                             if toLowerCase creator \<noteq> toLowerCase expectedCreator then
                               (failure ''Token creator does not match connected wallet'' True, st1)
                             else
                               (case verifyERC20Token w token (rpcUrl context) expectedCreator st1 of
                                  (tokenValidation, st2) \<Rightarrow>
                                    if \<not> isValid tokenValidation then
                                      (failure (''Token validation failed: ''
                                                  @ showOption (validation_error tokenValidation)) True, st2)
                                    else
                                      ((resultOf True)
                                         \<lparr>retryAllowed := Some False,
                                          tokenAddress := Some token,
                                          tokenName := token_name tokenValidation,
                                          tokenSymbol := token_symbol tokenValidation,
                                          resultMethod := Some ''factory''\<rparr>, st2))))))"

text \<open>
  \<^verbatim>\<open>!receipt.contractAddress\<close> holds for an absent and for an empty address; otherwise the
  address is returned.
\<close>

definition deployedAddress :: "Receipt \<Rightarrow> string option" where
  "deployedAddress receipt =
     (case receipt_contractAddress receipt of
        None \<Rightarrow> None
      | Some a \<Rightarrow> if a = [] then None else Some a)"

definition verifyManualTokenDeployment ::
  "string \<Rightarrow> int \<Rightarrow> string \<Rightarrow> ValidationContext \<Rightarrow> io \<Rightarrow> state \<Rightarrow> ValidationResult \<times> state" where
  "verifyManualTokenDeployment txId chain expectedClaimant context w st =
     (case fetchReceipt w (rpcUrl context) txId st of
        (Throws m, st1) \<Rightarrow> (failure ''Failed to verify manual token deployment'' True, st1)
      | (Returns r, st1) \<Rightarrow> (r, st1)
      | (Continues receipt, st1) \<Rightarrow>
          if receipt_status receipt \<noteq> Some ''0x1'' then
            (failure ''Transaction failed on the blockchain'' True, st1)
          else
            (case deployedAddress receipt of
               None \<Rightarrow> (failure ''Transaction did not deploy a contract'' True, st1)
             | Some address \<Rightarrow>
                 (case verifyERC20Token w address (rpcUrl context) expectedClaimant st1 of
                    (tokenValidation, st2) \<Rightarrow>
                      if \<not> isValid tokenValidation then
                        (failure (''Token validation failed: ''
                                    @ showOption (validation_error tokenValidation)) True, st2)
                      else
                        (case verifyClaimantField w address (rpcUrl context) expectedClaimant st2 of
                           (claimantValidation, st3) \<Rightarrow>
                             if \<not> isValid claimantValidation then
                               ((resultOf False)\<lparr>error := validation_error claimantValidation,
                                                 retryAllowed := Some True\<rparr>, st3)
                             else
                               ((resultOf True)
                                  \<lparr>retryAllowed := Some False,
                                   tokenAddress := Some address,
                                   tokenName := token_name tokenValidation,
                                   tokenSymbol := token_symbol tokenValidation,
                                   resultMethod := Some ''deployment''\<rparr>, st3)))))"

text \<open>
  The test of the two probes of the staking and NFT verifiers:
  \<^verbatim>\<open>!response.ok || data.error || !data.result || data.result === '0x'\<close>.
\<close>

definition probeFails :: "bool \<Rightarrow> string RPCResponse \<Rightarrow> bool" where
  "probeFails ok d = (\<not> ok \<or> rpc_error d \<noteq> None \<or> emptyResult (rpc_result d))"

definition verifyStakingContract ::
  "string \<Rightarrow> int \<Rightarrow> string \<Rightarrow> ValidationContext \<Rightarrow> io \<Rightarrow> state \<Rightarrow> ValidationResult \<times> state" where
  "verifyStakingContract txId chain expectedClaimant context w st =
     (case fetchReceipt w (rpcUrl context) txId st of
        (Throws m, st1) \<Rightarrow> (failure ''Failed to verify staking contract deployment'' True, st1)
      | (Returns r, st1) \<Rightarrow> (r, st1)
      | (Continues receipt, st1) \<Rightarrow>
          if receipt_status receipt \<noteq> Some ''0x1'' then
            (failure ''Transaction failed on the blockchain'' True, st1)
          else
            (case deployedAddress receipt of
               None \<Rightarrow> (failure ''Transaction did not deploy a contract'' True, st1)
             | Some address \<Rightarrow>
                 (case verifyClaimantField w address (rpcUrl context) expectedClaimant st1 of
                    (claimantValidation, st2) \<Rightarrow>
                      if \<not> isValid claimantValidation then
                        ((resultOf False)\<lparr>error := validation_error claimantValidation,
                                          retryAllowed := Some True\<rparr>, st2)
                      else
                        (case ethCall w (rpcUrl context) address ''0x72f702f3'' st2 of
                           (FetchError m, st3) \<Rightarrow>
                             (failure ''Failed to verify staking contract deployment'' True, st3)
                         | (Response ok1 stakingTokenData, st3) \<Rightarrow>
                             if probeFails ok1 stakingTokenData then
                               (failure ''Contract does not appear to be a staking contract (missing stakingToken)''
                                  True, st3)
                             else
                               (case ethCall w (rpcUrl context) address ''0x817b1cd2'' st3 of
                                  (FetchError m, st4) \<Rightarrow>
                                    (failure ''Failed to verify staking contract deployment'' True, st4)
                                | (Response ok2 totalStakedData, st4) \<Rightarrow>
                                    if probeFails ok2 totalStakedData then
                                      (failure
                                         ''Contract does not appear to be a staking contract (missing totalStaked)''
                                         True, st4)
                                    else
                                      ((resultOf True)
                                         \<lparr>retryAllowed := Some False,
                                          contractAddress := Some address,
                                          resultMethod := Some ''deployment''\<rparr>, st4))))))"

definition verifyNFTCollection ::
  "string \<Rightarrow> int \<Rightarrow> string \<Rightarrow> ValidationContext \<Rightarrow> io \<Rightarrow> state \<Rightarrow> ValidationResult \<times> state" where
  "verifyNFTCollection txId chain expectedClaimant context w st =
     (case fetchReceipt w (rpcUrl context) txId st of
        (Throws m, st1) \<Rightarrow> (failure ''Failed to verify NFT collection deployment'' True, st1)
      | (Returns r, st1) \<Rightarrow> (r, st1)
      | (Continues receipt, st1) \<Rightarrow>
          if receipt_status receipt \<noteq> Some ''0x1'' then
            (failure ''Transaction failed on the blockchain'' True, st1)
          else
            (case deployedAddress receipt of
               None \<Rightarrow> (failure ''Transaction did not deploy a contract'' True, st1)
             | Some address \<Rightarrow>
                 (case verifyClaimantField w address (rpcUrl context) expectedClaimant st1 of
                    (claimantValidation, st2) \<Rightarrow>
                      if \<not> isValid claimantValidation then
                        ((resultOf False)\<lparr>error := validation_error claimantValidation,
                                          retryAllowed := Some True\<rparr>, st2)
                      else
                        (case ethCall w (rpcUrl context) address ''0x32cb6b0c'' st2 of
                           (FetchError m, st3) \<Rightarrow>
                             (failure ''Failed to verify NFT collection deployment'' True, st3)
                         | (Response ok1 maxSupplyData, st3) \<Rightarrow>
                             if probeFails ok1 maxSupplyData then
                               (failure ''Contract does not appear to be an NFT collection (missing MAX_SUPPLY)''
                                  True, st3)
                             else
                               (case ethCall w (rpcUrl context) address ''0xa2309ff8'' st3 of
                                  (FetchError m, st4) \<Rightarrow>
                                    (failure ''Failed to verify NFT collection deployment'' True, st4)
                                | (Response ok2 totalMintedData, st4) \<Rightarrow>
                                    if probeFails ok2 totalMintedData then
                                      (failure
                                         ''Contract does not appear to be an NFT collection (missing totalMinted)''
                                         True, st4)
                                    else
                                      ((resultOf True)
                                         \<lparr>retryAllowed := Some False,
                                          contractAddress := Some address,
                                          resultMethod := Some ''deployment''\<rparr>, st4))))))"

text \<open>\<^verbatim>\<open>s.includes(sub)\<close>.\<close>

definition stringIncludes :: "string \<Rightarrow> string \<Rightarrow> bool" where
  "stringIncludes s sub = list_ex (\<lambda>i. take (length sub) (drop i s) = sub) [0..<Suc (length s)]"

text \<open>\<^verbatim>\<open>s.replace('0x', '')\<close>: the first occurrence is removed.\<close>

fun replace0x :: "string \<Rightarrow> string" where
  "replace0x [] = []"
| "replace0x (c # cs) = (if take 2 (c # cs) = ''0x'' then drop 1 cs else c # replace0x cs)"

definition verifyRandomNumberGenerator ::
  "string \<Rightarrow> int \<Rightarrow> string \<Rightarrow> ValidationContext \<Rightarrow> io \<Rightarrow> state \<Rightarrow> ValidationResult \<times> state" where
  "verifyRandomNumberGenerator txId chain expectedClaimant context w st =
     (case fetchReceipt w (rpcUrl context) txId st of
        (Throws m, st1) \<Rightarrow> (failure ''Failed to verify random number generator deployment'' True, st1)
      | (Returns r, st1) \<Rightarrow> (r, st1)
      | (Continues receipt, st1) \<Rightarrow>
          if receipt_status receipt \<noteq> Some ''0x1'' then
            (failure ''Transaction failed on the blockchain'' True, st1)
          else
            (case deployedAddress receipt of
               None \<Rightarrow> (failure ''Transaction did not deploy a contract'' True, st1)
             | Some address \<Rightarrow>
                 (case verifyClaimantField w address (rpcUrl context) expectedClaimant st1 of
                    (claimantValidation, st2) \<Rightarrow>
                      if \<not> isValid claimantValidation then
                        ((resultOf False)\<lparr>error := validation_error claimantValidation,
                                          retryAllowed := Some True\<rparr>, st2)
                      else
                        (case ethCall w (rpcUrl context) address ''0xa475b5dd'' st2 of
                           (FetchError m, st3) \<Rightarrow>
                             (failure ''Failed to verify random number generator deployment'' True, st3)
                         | (Response ok1 revealData, st3) \<Rightarrow>
                             if \<not> ok1 \<and> (case rpc_error revealData of
                                             None \<Rightarrow> False
                                           | Some e \<Rightarrow> stringIncludes (message e) ''does not exist'') then
                               (failure
                                  ''Contract does not appear to be a random number generator (missing reveal function)''
                                  True, st3)
                             else
                               (let dummyAddress = replace0x (toLowerCase expectedClaimant) in
                                (case ethCall w (rpcUrl context) address
                                        (''0xe8fcf723'' @ padStart dummyAddress 64 ''0'') st3 of
                                   (FetchError m, st4) \<Rightarrow>
                                     (failure ''Failed to verify random number generator deployment'' True, st4)
                                 | (Response ok2 commitmentsData, st4) \<Rightarrow>
                                     if \<not> ok2 \<or> rpc_error commitmentsData \<noteq> None then
                                       (failure
                                          ''Contract does not appear to be a random number generator (missing commitments mapping)''
                                          True, st4)
                                     else
                                       ((resultOf True)
                                          \<lparr>retryAllowed := Some False,
                                           contractAddress := Some address,
                                           resultMethod := Some ''deployment''\<rparr>, st4)))))))"

definition implementationSlot :: string where
  "implementationSlot = ''0x360894a13ba1a3210667c828492db98dca3e2076cc3735a920a3ca505d382bbc''"

definition zeroSlot :: string where
  "zeroSlot = ''0x0000000000000000000000000000000000000000000000000000000000000000''"

definition verifyUpgradeableContract ::
  "externals \<Rightarrow> string \<Rightarrow> int \<Rightarrow> string \<Rightarrow> ValidationContext \<Rightarrow> io \<Rightarrow> state
     \<Rightarrow> ValidationResult \<times> state" where
  "verifyUpgradeableContract ext proxy chain expectedClaimant context w st =
     (case getAddress ext proxy of
        None \<Rightarrow> (failure ''Failed to verify upgradeable contract proxy'' True, st)
      | Some address \<Rightarrow>
          (case verifyClaimantField w address (rpcUrl context) expectedClaimant st of
             (claimantValidation, st1) \<Rightarrow>
               if \<not> isValid claimantValidation then
                 ((resultOf False)\<lparr>error := validation_error claimantValidation,
                                   retryAllowed := Some True\<rparr>, st1)
               else
                 (case getStorageAt w (rpcUrl context) address implementationSlot st1 of
                    (FetchError m, st2) \<Rightarrow>
                      (failure ''Failed to verify upgradeable contract proxy'' True, st2)
                  | (Response ok storageData, st2) \<Rightarrow>
                      if \<not> ok \<or> rpc_error storageData \<noteq> None then
                        (failure ''Failed to read proxy storage slot'' True, st2)
                      else if emptyResult (rpc_result storageData)
                              \<or> rpc_result storageData = Some zeroSlot then
                        (failure
                           ''Contract does not appear to be an EIP-1967 proxy (implementation slot is empty)''
                           True, st2)
                      else
                        ((resultOf True)
                           \<lparr>retryAllowed := Some False,
                            contractAddress := Some address,
                            resultMethod := Some ''deployment''\<rparr>, st2))))"

text \<open>The test of \<^verbatim>\<open>/^0x[a-fA-F0-9]{64}$/\<close> on a string.\<close>

definition isHexDigit :: "char \<Rightarrow> bool" where
  "isHexDigit c = isRadixDigit 16 c"

definition txIdPattern_test :: "string \<Rightarrow> bool" where
  "txIdPattern_test s = (take 2 s = ''0x'' \<and> length (drop 2 s) = 64 \<and> list_all isHexDigit (drop 2 s))"

text \<open>
  \<^verbatim>\<open>!claimantAddress || claimantAddress.toLowerCase() !== context.walletAddress.toLowerCase()\<close>;
  when it fails, the claimant address is returned.
\<close>

definition claimantOfWallet :: "SubmissionData \<Rightarrow> ValidationContext \<Rightarrow> string option" where
  "claimantOfWallet sd context =
     (case claimantAddress sd of
        None \<Rightarrow> None
      | Some c \<Rightarrow>
          if c = [] \<or> toLowerCase c \<noteq> toLowerCase (walletAddress context) then None else Some c)"

text \<open>\<^verbatim>\<open>chainId || 33101\<close>.\<close>

definition chainIdOr :: "int option \<Rightarrow> int" where
  "chainIdOr c = (case c of None \<Rightarrow> 33101 | Some n \<Rightarrow> if n = 0 then 33101 else n)"

definition validateTransactionSubmission ::
  "externals \<Rightarrow> SubmissionData \<Rightarrow> ValidationContext \<Rightarrow> Bindings option \<Rightarrow> io \<Rightarrow> state
     \<Rightarrow> ValidationResult option \<times> state" where
  "validateTransactionSubmission ext sd context env w st =
     (let hash = (case transactionHash sd of None \<Rightarrow> ''undefined'' | Some h \<Rightarrow> h) in
      if \<not> txIdPattern_test hash then
        (Some (failure
           ''Invalid transaction ID format. Expected 64-character hex string starting with 0x'' True), st)
      else if achievementNumber context = ''0005'' then
        (case creationMethod sd of
           None \<Rightarrow>
             (Some (failure
                ''Token creation method is required for achievement 0005. Must be \"factory\" or \"deployment\"''
                True), st)
         | Some m \<Rightarrow>
             if m = [] then
               (Some (failure
                  ''Token creation method is required for achievement 0005. Must be \"factory\" or \"deployment\"''
                  True), st)
             else
               (case claimantOfWallet sd context of
                  None \<Rightarrow>
                    (Some (failure ''Claimant address must match the submitting wallet address'' True), st)
                | Some claimant \<Rightarrow>
                    if m = ''factory'' then
                      (case env of
                         None \<Rightarrow> (Some (failure ''Environment configuration not available'' True), st)
                       | Some e \<Rightarrow>
                           (case verifyFactoryTokenCreation hash (chainIdOr (chainId sd)) claimant context e w st of
                              (r, st1) \<Rightarrow> (Some r, st1)))
                    else if m = ''deployment'' then
                      (case verifyManualTokenDeployment hash (chainIdOr (chainId sd)) claimant context w st of
                         (r, st1) \<Rightarrow> (Some r, st1))
                    else
                      (Some (failure ''Invalid method. Must be \"factory\" or \"deployment\"'' True), st)))
      else if achievementNumber context = ''0025'' then
        (case claimantOfWallet sd context of
           None \<Rightarrow> (Some (failure ''Claimant address must match the submitting wallet address'' True), st)
         | Some claimant \<Rightarrow>
             (case verifyStakingContract hash (chainIdOr (chainId sd)) claimant context w st of
                (r, st1) \<Rightarrow> (Some r, st1)))
      else if achievementNumber context = ''0033'' then
        (case claimantOfWallet sd context of
           None \<Rightarrow> (Some (failure ''Claimant address must match the submitting wallet address'' True), st)
         | Some claimant \<Rightarrow>
             (case verifyNFTCollection hash (chainIdOr (chainId sd)) claimant context w st of
                (r, st1) \<Rightarrow> (Some r, st1)))
      else if achievementNumber context = ''0043'' then
        (case claimantOfWallet sd context of
           None \<Rightarrow> (Some (failure ''Claimant address must match the submitting wallet address'' True), st)
         | Some claimant \<Rightarrow>
             (case verifyRandomNumberGenerator hash (chainIdOr (chainId sd)) claimant context w st of
                (r, st1) \<Rightarrow> (Some r, st1)))
      else
        (case getTransactionByHash w (rpcUrl context) hash st of
           (FetchError m, st1) \<Rightarrow>
             (Some (failure ''Failed to validate transaction due to network error'' True), st1)
         | (Response ok d, st1) \<Rightarrow>
             if \<not> ok \<or> rpc_error d \<noteq> None then
               (Some (failure (''Failed to verify transaction: '' @ errorMessageOr d ''Network error'') True), st1)
             else
               (case rpc_result d of
                  None \<Rightarrow>
                    (Some (failure
                       ''Transaction not found on the blockchain. Make sure the transaction is confirmed.''
                       True), st1)
                | Some tx \<Rightarrow>
                    (case (getAddress ext (tx_from tx), getAddress ext (walletAddress context)) of
                       (Some normalizedTxFrom, Some normalizedWallet) \<Rightarrow>
                         if normalizedTxFrom \<noteq> normalizedWallet then
                           (Some (failure ''Transaction must be from the submitting wallet address'' True), st1)
                         else
                           (Some ((resultOf True)
                              \<lparr>transactionValid := Some True,
                               blockNumber := (case tx_blockNumber tx of
                                                 None \<Rightarrow> None
                                               | Some b \<Rightarrow> if b = [] then None else Some (parseInt b 16)),
                               retryAllowed := Some False\<rparr>), st1)
                     | _ \<Rightarrow>
                         (Some (failure ''Failed to validate transaction due to network error'' True), st1)))))"

section \<open>Dispatch\<close>

definition isValidEthereumAddress :: "externals \<Rightarrow> string \<Rightarrow> bool" where
  "isValidEthereumAddress ext address = (getAddress ext address \<noteq> None)"

definition validateSubmission ::
  "externals \<Rightarrow> ValidationContext \<Rightarrow> Bindings option \<Rightarrow> io \<Rightarrow> state
     \<Rightarrow> ValidationResult option \<times> state" where
  "validateSubmission ext context env w st =
     (if submissionType context = ''quiz'' then
        validateQuizSubmission ext (submissionData context) context env w st
      else if submissionType context = ''transaction'' then
        validateTransactionSubmission ext (submissionData context) context env w st
      else if submissionType context = ''secret'' then
        validateSecretSubmission (submissionData context) context env w st
      else if submissionType context = ''contract'' then
        (if achievementNumber context = ''0046'' then
           (case proxyAddress (submissionData context) of
              None \<Rightarrow>
                (Some (failure ''Valid contract address is required for achievement 0046'' True), st)
            | Some address \<Rightarrow>
                if address = [] \<or> \<not> isValidEthereumAddress ext address then
                  (Some (failure ''Valid contract address is required for achievement 0046'' True), st)
                else
                  (case verifyUpgradeableContract ext address
                          (chainIdOr (chainId (submissionData context)))
                          (walletAddress context) context w st of
                     (r, st1) \<Rightarrow> (Some r, st1)))
         else
           (Some (failure ''Contract validation not yet implemented for this achievement'' False), st))
      else if submissionType context = ''custom'' then
        (Some (failure ''Custom validation not yet implemented'' False), st)
      else
        (Some (failure ''Unknown submission type'' False), st))"

section \<open>The database service (\<^verbatim>\<open>utils/database.ts\<close>)\<close>

text \<open>\<^verbatim>\<open>INSERT OR IGNORE INTO wallet_data\<close>.\<close>

definition createWalletData :: "string \<Rightarrow> state \<Rightarrow> state" where
  "createWalletData wallet st =
     (if wallet \<in> set (wallet_data st) then st
      else st\<lparr>wallet_data := wallet_data st @ [wallet]\<rparr>)"

definition createTrainingCompletion :: "TrainingCompletion \<Rightarrow> state \<Rightarrow> state" where
  "createTrainingCompletion completion st =
     st\<lparr>training_completions := training_completions st @ [completion]\<rparr>"

text \<open>
  The most recent row of the wallet and achievement with \<^verbatim>\<open>passed = true\<close>, if there is
  one.
\<close>

definition getTrainingCompletion :: "string \<Rightarrow> string \<Rightarrow> state \<Rightarrow> TrainingCompletion option" where
  "getTrainingCompletion wallet number st =
     find (\<lambda>row. wallet_address row = wallet \<and> achievement_number row = number \<and> row_passed row)
       (rev (training_completions st))"

section \<open>The submit endpoint\<close>

text \<open>
  The body of a request after \<^verbatim>\<open>c.req.json()\<close>; an absent field is \<open>None\<close>. The
  fields are \<^verbatim>\<open>walletAddress\<close>, \<^verbatim>\<open>achievementNumber\<close>, \<^verbatim>\<open>submissionType\<close>,
  \<^verbatim>\<open>submissionData\<close> and \<^verbatim>\<open>metadata\<close>.
\<close>

record VoucherRequest =
  request_walletAddress :: "string option"
  request_achievementNumber :: "string option"
  request_submissionType :: "string option"
  request_submissionData :: "SubmissionData option"
  request_metadata :: "Metadata option"

record CompletionVoucher =
  taskCode :: "int option"
  wallet :: string

text \<open>The HTTP status and the JSON body of the reply.\<close>

record VoucherResponse =
  status :: nat
  success :: bool
  voucher :: "CompletionVoucher option"
  signature :: "string option"
  response_contractAddress :: "string option"
  response_chainId :: "int option option"
  results :: "ValidationResult option"
  response_error :: "string option"

text \<open>\<^verbatim>\<open>c.json({ success: false, error: e }, s)\<close>.\<close>

definition reject :: "nat \<Rightarrow> string \<Rightarrow> VoucherResponse" where
  "reject s e =
     \<lparr>status = s, success = False, voucher = None, signature = None,
      response_contractAddress = None, response_chainId = None, results = None,
      response_error = Some e\<rparr>"

text \<open>
  The names of the members of \<^verbatim>\<open>Object.prototype\<close>, which the catalog, an object literal,
  inherits. Each of them is a function or an object: truthy, and equal to no string.
\<close>

definition objectPrototypeNames :: "string list" where
  "objectPrototypeNames =
     [''constructor'', ''__defineGetter__'', ''__defineSetter__'', ''hasOwnProperty'',
      ''__lookupGetter__'', ''__lookupSetter__'', ''isPrototypeOf'', ''propertyIsEnumerable'',
      ''toString'', ''valueOf'', ''__proto__'', ''toLocaleString'']"

text \<open>
  \<^verbatim>\<open>ACHIEVEMENT_TYPES[achievementNumber]\<close>: the configured kind of an own entry (every one
  is a non-empty string), else the inherited member of that name, else \<^verbatim>\<open>undefined\<close>.
\<close>

datatype catalogValue = Configured string | Inherited string

definition expectedTypeOf :: "string \<Rightarrow> catalogValue option" where
  "expectedTypeOf number =
     (case map_of ACHIEVEMENT_TYPES number of
        Some kind \<Rightarrow> Some (Configured kind)
      | None \<Rightarrow> if number \<in> set objectPrototypeNames then Some (Inherited number) else None)"

definition submissionTypes :: "string list" where
  "submissionTypes = [''quiz'', ''transaction'', ''contract'', ''custom'', ''secret'']"

text \<open>\<^verbatim>\<open>a || b\<close> on an optional string.\<close>

definition orElse :: "string option \<Rightarrow> string \<Rightarrow> string" where
  "orElse a b = (case a of None \<Rightarrow> b | Some x \<Rightarrow> if x = [] then b else x)"

definition selectRpcUrl :: "Bindings \<Rightarrow> string \<Rightarrow> SubmissionData \<Rightarrow> string" where
  "selectRpcUrl env kind sd =
     (if kind = ''transaction'' \<or> kind = ''contract'' then
        (if chainId sd = Some 33101 then orElse (RPC_URL_TESTNET env) (RPC_URL env)
         else if chainId sd = Some 32769 then orElse (RPC_URL_MAINNET env) (RPC_URL env)
         else orElse (RPC_URL_TESTNET env) (RPC_URL env))
      else orElse (RPC_URL_MAINNET env) (RPC_URL env))"

text \<open>\<^verbatim>\<open>x || null\<close> on an optional number.\<close>

definition orNull :: "jsnumber option \<Rightarrow> jsnumber option" where
  "orNull x = (case x of None \<Rightarrow> None | Some v \<Rightarrow> if numFalsy v then None else Some v)"

definition responseChainId :: "Bindings \<Rightarrow> string \<Rightarrow> SubmissionData \<Rightarrow> int option" where
  "responseChainId env kind sd =
     (if kind = ''transaction'' \<or> kind = ''contract'' then
        (case chainId sd of
           None \<Rightarrow> parseInt (CHAIN_ID env) 0
         | Some c \<Rightarrow> if c = 0 then parseInt (CHAIN_ID env) 0 else Some c)
      else parseInt (CHAIN_ID env) 0)"

text \<open>
  What the handler of \<^verbatim>\<open>POST /submit\<close> holds when it has looked up the stored completion
  and goes on: the normalized wallet, the achievement number, the kind, the payload, the
  metadata and the task code.
\<close>

record Accepted =
  accepted_wallet :: string
  accepted_number :: string
  accepted_kind :: string
  accepted_data :: SubmissionData
  accepted_metadata :: "Metadata option"
  accepted_code :: "int option"

text \<open>
  The first part of the handler: the checks of the request and the lookup of a passed
  completion (\<^verbatim>\<open>await db.getTrainingCompletion\<close>). It reads the state and either replies
  or goes on. The request is \<open>None\<close> when its body cannot be read. Every exception is
  caught and answered with status 500.
\<close>

definition submitLookup ::
  "externals \<Rightarrow> VoucherRequest option \<Rightarrow> state \<Rightarrow> VoucherResponse + Accepted" where
  "submitLookup ext request st =
     (case request of
        None \<Rightarrow> Inl (reject 500 ''Failed to process achievement submission'')
      | Some body \<Rightarrow>
          (case request_walletAddress body of
             None \<Rightarrow> Inl (reject 400 ''Invalid wallet address'')
           | Some address \<Rightarrow>
               if address = [] \<or> \<not> isValidEthereumAddress ext address then
                 Inl (reject 400 ''Invalid wallet address'')
               else
          (case request_achievementNumber body of
             None \<Rightarrow> Inl (reject 400 ''Invalid achievement number'')
           | Some number \<Rightarrow>
               if number = [] then Inl (reject 400 ''Invalid achievement number'')
               else
          (case request_submissionType body of
             None \<Rightarrow>
               Inl (reject 400
                  ''Invalid submission type. Must be one of: quiz, transaction, contract, custom, secret'')
           | Some kind \<Rightarrow>
               if kind \<notin> set submissionTypes then
                 Inl (reject 400
                    ''Invalid submission type. Must be one of: quiz, transaction, contract, custom, secret'')
               else
          (case request_submissionData body of
             None \<Rightarrow> Inl (reject 400 ''Submission data is required'')
           | Some sd \<Rightarrow>
          (case expectedTypeOf number of
             None \<Rightarrow> Inl (reject 400 ''Invalid achievement number - achievement does not exist'')
           | Some (Inherited member) \<Rightarrow>
               Inl (reject 400 (''Invalid submission type for achievement '' @ number @ ''. Expected: ''
                                  @ memberText ext member))
           | Some (Configured expectedType) \<Rightarrow>
               if kind \<noteq> expectedType then
                 Inl (reject 400 (''Invalid submission type for achievement '' @ number @ ''. Expected: ''
                                    @ expectedType))
               else
          (let code = achievementNumberToTaskCode number in
           if (case code of None \<Rightarrow> False | Some n \<Rightarrow> n \<le> 0) then
             Inl (reject 400 ''Invalid achievement number format'')
           else
          (case getAddress ext address of
             None \<Rightarrow> Inl (reject 500 ''Failed to process achievement submission'')
           | Some normalizedWallet \<Rightarrow>
          (case getTrainingCompletion normalizedWallet number st of
             Some existingCompletion \<Rightarrow> Inl (reject 409 ''Achievement already completed successfully'')
           | None \<Rightarrow>
               Inr \<lparr>accepted_wallet = normalizedWallet, accepted_number = number,
                    accepted_kind = kind, accepted_data = sd,
                    accepted_metadata = request_metadata body, accepted_code = code\<rparr>)))))))))"

text \<open>
  The second part of the handler: the validation, the signature of the voucher for a
  passed result, and the insertion of the row. The statements of the database service do
  not fail.
\<close>

definition submitValidate ::
  "externals \<Rightarrow> Bindings \<Rightarrow> io \<Rightarrow> Accepted \<Rightarrow> state \<Rightarrow> VoucherResponse \<times> state" where
  "submitValidate ext env w accepted st =
     (let normalizedWallet = accepted_wallet accepted;
          number = accepted_number accepted;
          kind = accepted_kind accepted;
          sd = accepted_data accepted;
          code = accepted_code accepted;
          context =
            \<lparr>achievementNumber = number, walletAddress = normalizedWallet,
             rpcUrl = selectRpcUrl env kind sd, submissionType = kind,
             submissionData = sd, metadata = accepted_metadata accepted\<rparr>
      in
        (case validateSubmission ext context (Some env) w st of
           (None, st1) \<Rightarrow> (reject 500 ''Failed to process achievement submission'', st1)
         | (Some validationResult, st1) \<Rightarrow>
        (let st2 = createWalletData normalizedWallet st1 in
        (case (if passed validationResult
               then (case signTypedData w code normalizedWallet of
                       None \<Rightarrow> None
                     | Some sig \<Rightarrow>
                         Some (Some \<lparr>taskCode = code, wallet = normalizedWallet\<rparr>, Some sig))
               else Some (None, None)) of
           None \<Rightarrow> (reject 500 ''Failed to process achievement submission'', st2)
         | Some (v, sig) \<Rightarrow>
             (\<lparr>status = 200,
               success = passed validationResult,
               voucher = v,
               signature = sig,
               response_contractAddress = Some (CONTRACT_ADDRESS env),
               response_chainId = Some (responseChainId env kind sd),
               results = Some validationResult,
               response_error = (if passed validationResult then None else error validationResult)\<rparr>,
              createTrainingCompletion
                \<lparr>wallet_address = normalizedWallet,
                 achievement_number = number,
                 task_code = code,
                 submission_type = kind,
                 submission_data = sd,
                 row_score = orNull (score validationResult),
                 max_score = orNull (maxScore validationResult),
                 row_passed = passed validationResult,
                 voucher_signature = (case sig of None \<Rightarrow> None
                                      | Some s \<Rightarrow> if s = [] then None else Some s),
                 row_metadata = accepted_metadata accepted\<rparr>
                st2)))))"

text \<open>The handler of one request that runs from its start to its end: the reply and the state.\<close>

definition submit ::
  "externals \<Rightarrow> Bindings \<Rightarrow> io \<Rightarrow> VoucherRequest option \<Rightarrow> state \<Rightarrow> VoucherResponse \<times> state" where
  "submit ext env w request st =
     (case submitLookup ext request st of
        Inl response \<Rightarrow> (response, st)
      | Inr accepted \<Rightarrow> submitValidate ext env w accepted st)"

text \<open>A sequence of requests, each with what the outside gives to it, handled one after the other.\<close>

fun submitAll ::
  "externals \<Rightarrow> Bindings \<Rightarrow> (io \<times> VoucherRequest option) list \<Rightarrow> state \<Rightarrow> state" where
  "submitAll ext env [] st = st"
| "submitAll ext env ((w, request) # rest) st = submitAll ext env rest (snd (submit ext env w request st))"

text \<open>
  Two requests whose handlers overlap. A handler gives way at each \<^verbatim>\<open>await\<close>, the lookup
  of the stored completion among them, and the table has no uniqueness constraint since the
  second migration. Here both handlers look up the completion in the state \<open>st\<close> before
  either goes on; then the first runs to its end, and the second after it.
\<close>

definition submitOverlapping ::
  "externals \<Rightarrow> Bindings \<Rightarrow> io \<times> VoucherRequest option \<Rightarrow> io \<times> VoucherRequest option \<Rightarrow> state
     \<Rightarrow> state" where
  "submitOverlapping ext env first second st =
     (let lookup1 = submitLookup ext (snd first) st;
          lookup2 = submitLookup ext (snd second) st;
          st1 = (case lookup1 of
                   Inl response \<Rightarrow> st
                 | Inr accepted \<Rightarrow> snd (submitValidate ext env (fst first) accepted st))
      in (case lookup2 of
            Inl response \<Rightarrow> st1
          | Inr accepted \<Rightarrow> snd (submitValidate ext env (fst second) accepted st1)))"

section \<open>Notions of the specification\<close>

text \<open>
  The spec's words: the number of indices where the submitted sequence equals the expected
  sequence, and the partial credit by position.
\<close>

definition matchingPositions :: "jsv list \<Rightarrow> string list \<Rightarrow> nat" where
  "matchingPositions submitted expected =
     length (filter (\<lambda>i. submitted ! i = JStr (expected ! i))
               [0..<min (length submitted) (length expected)])"

definition positionCredit :: "jsv list \<Rightarrow> string list \<Rightarrow> jsnumber \<Rightarrow> jsnumber" where
  "positionCredit submitted expected maxPoints =
     (if expected = [] then Finite 0
      else numMul (numDiv (countValue (matchingPositions submitted expected))
                     (countValue (length expected)))
             maxPoints)"

text \<open>
  Two answer texts that parse, carry the same type tag, and whose
  \<^verbatim>\<open>userResponse.field\<close> are \<open>v\<close> and \<open>v'\<close>: the graders read nothing else of an answer.
\<close>

definition differOnly :: "externals \<Rightarrow> string \<Rightarrow> string \<Rightarrow> string \<Rightarrow> jsv \<Rightarrow> jsv \<Rightarrow> bool" where
  "differOnly ext a a' field v v' =
     (case (JSON_parse ext a, JSON_parse ext a') of
        (Some p, Some p') \<Rightarrow>
          getProp p ''type'' = getProp p' ''type''
          \<and> responseField p field = Some v \<and> responseField p' field = Some v'
      | _ \<Rightarrow> False)"

text \<open>The points for a count of correct parts out of \<open>n\<close>; no points when the count failed.\<close>

definition credit :: "nat option \<Rightarrow> nat \<Rightarrow> jsnumber \<Rightarrow> jsnumber" where
  "credit c n pts =
     (case c of None \<Rightarrow> Finite 0 | Some k \<Rightarrow> numMul (numDiv (countValue k) (countValue n)) pts)"

text \<open>Whether the call of the loader in \<^verbatim>\<open>validateSecretSubmission\<close> completes.\<close>

definition secretAnswersLoad :: "Bindings option \<Rightarrow> io \<Rightarrow> state \<Rightarrow> bool" where
  "secretAnswersLoad env w st = (case env of None \<Rightarrow> True | Some e \<Rightarrow> fst (loadSecretAnswers e w st))"

text \<open>A result that passed does not allow a retry.\<close>

definition terminal :: "ValidationResult \<Rightarrow> bool" where
  "terminal r = (passed r \<longrightarrow> retryAllowed r = Some False)"

text \<open>
  The points awarded for one question: none (\<open>None\<close>) for a missing or empty answer, which
  the validator skips; for an answer that looks like JSON the grade of the configured
  interactive element; otherwise the points of the question when the answer equals the
  configured option up to case; and 0 in every other case.
\<close>

definition awardedPoints ::
  "externals \<Rightarrow> (string \<Rightarrow> string option) \<Rightarrow> QuizQuestion \<Rightarrow> jsnumber option" where
  "awardedPoints ext submitted q =
     (case submitted (question_id q) of
        None \<Rightarrow> None
      | Some a \<Rightarrow>
          if a = [] then None
          else if isInteractiveAnswer a then
            (case question_correctAnswer q of
               Interactive ca \<Rightarrow> Some (gradeInteractive ext a ca (question_points q))
             | Plain c \<Rightarrow> Some (Finite 0))
          else
            (case question_correctAnswer q of
               Plain c \<Rightarrow> Some (if toUpperCase a = toUpperCase c then question_points q else Finite 0)
             | Interactive ca \<Rightarrow> Some (Finite 0)))"

text \<open>The sum of numbers, added one after the other to 0.\<close>

definition numSum :: "jsnumber list \<Rightarrow> jsnumber" where
  "numSum xs = foldl numAdd (Finite 0) xs"

text \<open>The sum of the points awarded for the answered questions, in the order of the bank.\<close>

definition totalAwarded :: "externals \<Rightarrow> (string \<Rightarrow> string option) \<Rightarrow> QuizQuestion list \<Rightarrow> jsnumber" where
  "totalAwarded ext submitted qs = numSum (List.map_filter (awardedPoints ext submitted) qs)"

text \<open>The sum of the configured points.\<close>

definition maxPoints :: "QuizQuestion list \<Rightarrow> jsnumber" where
  "maxPoints qs = numSum (map question_points qs)"

text \<open>
  The percentage of a score: \<^verbatim>\<open>score / maxScore * 100\<close>, and 0 unless the maximum is
  positive.
\<close>

definition percentage :: "jsnumber \<Rightarrow> jsnumber \<Rightarrow> jsnumber" where
  "percentage totalScore maxS =
     (if numGt maxS (Finite 0) then numMul (numDiv totalScore maxS) (Finite 100) else Finite 0)"

text \<open>Whether the call of the loader in \<^verbatim>\<open>validateQuizSubmission\<close> completes, and the state then.\<close>

definition quizDataLoad :: "Bindings option \<Rightarrow> io \<Rightarrow> state \<Rightarrow> bool \<times> state" where
  "quizDataLoad env w st = (case env of None \<Rightarrow> (True, st) | Some e \<Rightarrow> loadQuizData e w st)"

text \<open>The tables of the database.\<close>

definition tables :: "state \<Rightarrow> TrainingCompletion list \<times> string list" where
  "tables st = (training_completions st, wallet_data st)"

text \<open>The stored rows of a wallet and an achievement that have \<open>passed = true\<close>.\<close>

definition passedRows :: "string \<Rightarrow> string \<Rightarrow> state \<Rightarrow> TrainingCompletion list" where
  "passedRows W A st =
     filter (\<lambda>row. wallet_address row = W \<and> achievement_number row = A \<and> row_passed row)
       (training_completions st)"

text \<open>The idempotence invariant of the completions table.\<close>

definition atMostOnePassed :: "state \<Rightarrow> bool" where
  "atMostOnePassed st = (\<forall>W A. length (passedRows W A st) \<le> 1)"

text \<open>The error of a declared kind that is not the configured one.\<close>

definition mismatchMessage :: "string \<Rightarrow> string \<Rightarrow> string" where
  "mismatchMessage number expectedType =
     ''Invalid submission type for achievement '' @ number @ ''. Expected: '' @ expectedType"

text \<open>
  The checks of the handler that precede the lookup in the catalog: a valid wallet address,
  a non-empty achievement number, one of the five kinds, a payload.
\<close>

definition shapeChecksPass :: "externals \<Rightarrow> VoucherRequest \<Rightarrow> bool" where
  "shapeChecksPass ext body =
     ((case request_walletAddress body of
         None \<Rightarrow> False
       | Some address \<Rightarrow> address \<noteq> [] \<and> isValidEthereumAddress ext address)
      \<and> (case request_achievementNumber body of None \<Rightarrow> False | Some number \<Rightarrow> number \<noteq> [])
      \<and> (case request_submissionType body of None \<Rightarrow> False | Some kind \<Rightarrow> kind \<in> set submissionTypes)
      \<and> request_submissionData body \<noteq> None)"

text \<open>The error of the first of these checks that fails, if one does.\<close>

definition shapeError :: "externals \<Rightarrow> VoucherRequest \<Rightarrow> string option" where
  "shapeError ext body =
     (if (case request_walletAddress body of
            None \<Rightarrow> True
          | Some address \<Rightarrow> address = [] \<or> \<not> isValidEthereumAddress ext address)
      then Some ''Invalid wallet address''
      else if (case request_achievementNumber body of None \<Rightarrow> True | Some number \<Rightarrow> number = [])
      then Some ''Invalid achievement number''
      else if (case request_submissionType body of
                 None \<Rightarrow> True
               | Some kind \<Rightarrow> kind \<notin> set submissionTypes)
      then Some ''Invalid submission type. Must be one of: quiz, transaction, contract, custom, secret''
      else if request_submissionData body = None then Some ''Submission data is required''
      else None)"

section \<open>Example inputs\<close>

text \<open>
  Concrete inputs for the instances below. \<open>exampleParse\<close> agrees with \<^verbatim>\<open>JSON.parse\<close> on
  the answer texts of \<open>exampleAnswers\<close> and stands for a syntax error elsewhere; the
  conversion of objects to numbers is not reached on these inputs.
\<close>

definition envelope :: "string \<Rightarrow> string \<Rightarrow> jsv \<Rightarrow> jsv" where
  "envelope tag field v = JObj [(''type'', JStr tag), (''userResponse'', JObj [(field, v)])]"

definition timelineText :: string where
  "timelineText = ''{\"type\":\"timeline-builder\",\"userResponse\":{\"sequence\":[\"a\",\"b\"]}}''"

definition timelineWrongText :: string where
  "timelineWrongText = ''{\"type\":\"timeline-builder\",\"userResponse\":{\"sequence\":[\"a\",\"x\"]}}''"

definition dragDropText :: string where
  "dragDropText = ''{\"type\":\"drag-drop-puzzle\",\"userResponse\":{\"sequence\":[\"a\",\"b\"]}}''"

definition dragDropWrongText :: string where
  "dragDropWrongText = ''{\"type\":\"drag-drop-puzzle\",\"userResponse\":{\"sequence\":[\"a\",\"x\"]}}''"

text \<open>A sequence of ten elements with the first seven in place.\<close>

definition sevenOfTenText :: string where
  "sevenOfTenText =
     ''{\"type\":\"timeline-builder\",\"userResponse\":{\"sequence\":[\"a\",\"b\",\"c\",\"d\",\"e\",\"f\",\"g\",\"x\",\"y\",\"z\"]}}''"

definition sevenOfTen :: "jsv list" where
  "sevenOfTen =
     [JStr ''a'', JStr ''b'', JStr ''c'', JStr ''d'', JStr ''e'', JStr ''f'', JStr ''g'',
      JStr ''x'', JStr ''y'', JStr ''z'']"

definition pairC1D1 :: jsv where
  "pairC1D1 = JObj [(''conceptId'', JStr ''c1''), (''definitionId'', JStr ''d1'')]"

definition pairC2D2 :: jsv where
  "pairC2D2 = JObj [(''conceptId'', JStr ''c2''), (''definitionId'', JStr ''d2'')]"

definition onePairText :: string where
  "onePairText =
     ''{\"type\":\"concept-matching\",\"userResponse\":{\"pairs\":[{\"conceptId\":\"c1\",\"definitionId\":\"d1\"}]}}''"

definition bothPairsText :: string where
  "bothPairsText =
     ''{\"type\":\"concept-matching\",\"userResponse\":{\"pairs\":[{\"conceptId\":\"c1\",\"definitionId\":\"d1\"},{\"conceptId\":\"c2\",\"definitionId\":\"d2\"}]}}''"

definition threePairsText :: string where
  "threePairsText =
     ''{\"type\":\"concept-matching\",\"userResponse\":{\"pairs\":[{\"conceptId\":\"c1\",\"definitionId\":\"d1\"},{\"conceptId\":\"c1\",\"definitionId\":\"d1\"},{\"conceptId\":\"c1\",\"definitionId\":\"d1\"}]}}''"

definition classS1 :: jsv where
  "classS1 = JObj [(''id'', JStr ''s1''), (''answer'', JBool True)]"

definition classS2 :: jsv where
  "classS2 = JObj [(''id'', JStr ''s2''), (''answer'', JBool False)]"

definition oneClassText :: string where
  "oneClassText =
     ''{\"type\":\"true-false-statements\",\"userResponse\":{\"classifications\":[{\"id\":\"s1\",\"answer\":true}]}}''"

definition bothClassesText :: string where
  "bothClassesText =
     ''{\"type\":\"true-false-statements\",\"userResponse\":{\"classifications\":[{\"id\":\"s1\",\"answer\":true},{\"id\":\"s2\",\"answer\":false}]}}''"

definition exampleAnswers :: "(string \<times> jsv) list" where
  "exampleAnswers =
     [(timelineText, envelope ''timeline-builder'' ''sequence'' (JArr [JStr ''a'', JStr ''b''])),
      (timelineWrongText, envelope ''timeline-builder'' ''sequence'' (JArr [JStr ''a'', JStr ''x''])),
      (dragDropText, envelope ''drag-drop-puzzle'' ''sequence'' (JArr [JStr ''a'', JStr ''b''])),
      (dragDropWrongText, envelope ''drag-drop-puzzle'' ''sequence'' (JArr [JStr ''a'', JStr ''x''])),
      (onePairText, envelope ''concept-matching'' ''pairs'' (JArr [pairC1D1])),
      (bothPairsText, envelope ''concept-matching'' ''pairs'' (JArr [pairC1D1, pairC2D2])),
      (threePairsText, envelope ''concept-matching'' ''pairs'' (JArr [pairC1D1, pairC1D1, pairC1D1])),
      (oneClassText, envelope ''true-false-statements'' ''classifications'' (JArr [classS1])),
      (bothClassesText, envelope ''true-false-statements'' ''classifications'' (JArr [classS1, classS2])),
      (sevenOfTenText, envelope ''timeline-builder'' ''sequence'' (JArr sevenOfTen))]"

definition exampleParse :: "string \<Rightarrow> jsv option" where
  "exampleParse s = map_of exampleAnswers s"

definition exampleWallet :: string where
  "exampleWallet = ''0x742d35Cc6634C0532925a3b844Bc454e4438f44e''"

text \<open>\<open>exampleWallet\<close> is in checksummed form already.\<close>

definition exampleExternals :: externals where
  "exampleExternals =
     \<lparr>JSON_parse = exampleParse,
      ToNumber_object = (\<lambda>v. Some NaN),
      getAddress = (\<lambda>a. if a = exampleWallet then Some a else None),
      memberText = (\<lambda>name. ''[object Object]'')\<rparr>"

definition timelineAB :: InteractiveElementCorrectAnswer where
  "timelineAB = \<lparr>answer_type = timeline_builder, answer_data = TimelineBuilderAnswer [''a'', ''b'']\<rparr>"

definition timelineTen :: InteractiveElementCorrectAnswer where
  "timelineTen =
     \<lparr>answer_type = timeline_builder,
      answer_data = TimelineBuilderAnswer
        [''a'', ''b'', ''c'', ''d'', ''e'', ''f'', ''g'', ''h'', ''i'', ''j'']\<rparr>"

definition dragDropAB :: InteractiveElementCorrectAnswer where
  "dragDropAB = \<lparr>answer_type = drag_drop_puzzle, answer_data = DragDropPuzzleAnswer [''a'', ''b'']\<rparr>"

definition twoPairs :: InteractiveElementCorrectAnswer where
  "twoPairs = \<lparr>answer_type = concept_matching,
               answer_data = ConceptMatchingAnswer [(''c1'', ''d1''), (''c2'', ''d2'')]\<rparr>"

definition twoStatements :: InteractiveElementCorrectAnswer where
  "twoStatements = \<lparr>answer_type = true_false_statements,
                    answer_data = TrueFalseAnswer [(''s1'', True), (''s2'', False)]\<rparr>"

text \<open>The state of a worker that has handled no request yet, on an empty database.\<close>

definition initialState :: state where
  "initialState =
     \<lparr>training_completions = [], wallet_data = [], QUIZ_DATA = (\<lambda>k. None),
      SECRET_ANSWERS = (\<lambda>k. None), quizDataCache = None, secretAnswersCache = None,
      fetched = []\<rparr>"

definition exampleEnv :: Bindings where
  "exampleEnv =
     \<lparr>ISSUER_PRIVATE_KEY = ''key'', CONTRACT_ADDRESS = ''0xRegistry'', CHAIN_ID = ''32769'',
      RPC_URL = ''https://rpc'', RPC_URL_MAINNET = None, RPC_URL_TESTNET = None,
      NEXT_PUBLIC_FACTORY_ADDRESS_TESTNET = None, NEXT_PUBLIC_FACTORY_ADDRESS_MAINNET = None,
      QUIZ_DATA_URL = Some ''https://data/quiz.json'',
      SECRET_ANSWERS_URL = Some ''https://data/secrets.json''\<rparr>"

definition exampleSecrets :: "string \<Rightarrow> string option" where
  "exampleSecrets k = (if k = ''1101'' then Some ''LAUNCH'' else if k = ''1001'' then Some ''FIRSTSECRET'' else None)"

text \<open>
  Two banks: \<^verbatim>\<open>0002\<close> with one concept-matching question of two pairs, worth 10 points,
  and 80 to pass; \<^verbatim>\<open>0003\<close> with one timeline question of ten elements, worth 6 points, and
  70 to pass.
\<close>

definition exampleQuiz :: "string \<Rightarrow> QuizData option" where
  "exampleQuiz k =
     (if k = ''0002'' then
        Some \<lparr>quiz_questions =
                 [\<lparr>question_id = ''q1'', question_correctAnswer = Interactive twoPairs,
                   question_points = Finite 10\<rparr>],
              quiz_passingScore = Finite 80\<rparr>
      else if k = ''0003'' then
        Some \<lparr>quiz_questions =
                 [\<lparr>question_id = ''q1'', question_correctAnswer = Interactive timelineTen,
                   question_points = Finite 6\<rparr>],
              quiz_passingScore = Finite 70\<rparr>
      else None)"

text \<open>
  The outside at time \<open>t\<close>: both documents are served, every blockchain call fails, and the
  signer signs.
\<close>

definition exampleIo :: "int \<Rightarrow> io" where
  "exampleIo t =
     \<lparr>now = t,
      quizDocument = (\<lambda>n. Response True exampleQuiz),
      secretDocument = (\<lambda>n. Response True exampleSecrets),
      transactionReply = (\<lambda>n. FetchError ''offline''),
      receiptReply = (\<lambda>n. FetchError ''offline''),
      callReply = (\<lambda>n. FetchError ''offline''),
      signTypedData = (\<lambda>c a. Some ''0xsignature'')\<rparr>"

definition noData :: SubmissionData where
  "noData =
     \<lparr>answers = None, transactionHash = None, chainId = None, claimantAddress = None,
      creationMethod = None, secretAnswer = None, proxyAddress = None\<rparr>"

definition exampleContext :: "string \<Rightarrow> string \<Rightarrow> SubmissionData \<Rightarrow> ValidationContext" where
  "exampleContext number kind sd =
     \<lparr>achievementNumber = number, walletAddress = exampleWallet, rpcUrl = ''https://rpc'',
      submissionType = kind, submissionData = sd, metadata = None\<rparr>"

text \<open>The questions of the two banks.\<close>

definition timelineQuestions :: "QuizQuestion list" where
  "timelineQuestions =
     [\<lparr>question_id = ''q1'', question_correctAnswer = Interactive timelineTen,
       question_points = Finite 6\<rparr>]"

definition exampleQuestions :: "QuizQuestion list" where
  "exampleQuestions =
     [\<lparr>question_id = ''q1'', question_correctAnswer = Interactive twoPairs,
       question_points = Finite 10\<rparr>]"

text \<open>
  A request for the secret achievement \<^verbatim>\<open>1001\<close> with the right secret, the row that it
  stores, and the state after it on a fresh worker.
\<close>

definition secretRequest :: VoucherRequest where
  "secretRequest =
     \<lparr>request_walletAddress = Some exampleWallet,
      request_achievementNumber = Some ''1001'',
      request_submissionType = Some ''secret'',
      request_submissionData = Some (noData\<lparr>secretAnswer := Some ''FIRSTSECRET''\<rparr>),
      request_metadata = None\<rparr>"

definition passedSecretRow :: TrainingCompletion where
  "passedSecretRow =
     \<lparr>wallet_address = exampleWallet, achievement_number = ''1001'', task_code = Some 1001,
      submission_type = ''secret'',
      submission_data = noData\<lparr>secretAnswer := Some ''FIRSTSECRET''\<rparr>,
      row_score = None, max_score = None, row_passed = True,
      voucher_signature = Some ''0xsignature'', row_metadata = None\<rparr>"

definition afterSecret :: state where
  "afterSecret =
     initialState\<lparr>training_completions := [passedSecretRow], wallet_data := [exampleWallet],
                   SECRET_ANSWERS := exampleSecrets,
                   secretAnswersCache := Some (exampleSecrets, 0),
                   fetched := [GetDocument ''https://data/secrets.json'']\<rparr>"

text \<open>What the handler of that request holds after the lookup, and its reply.\<close>

definition secretAccepted :: Accepted where
  "secretAccepted =
     \<lparr>accepted_wallet = exampleWallet, accepted_number = ''1001'', accepted_kind = ''secret'',
      accepted_data = noData\<lparr>secretAnswer := Some ''FIRSTSECRET''\<rparr>,
      accepted_metadata = None, accepted_code = Some 1001\<rparr>"

definition secretReply :: VoucherResponse where
  "secretReply =
     \<lparr>status = 200, success = True,
      voucher = Some \<lparr>taskCode = Some 1001, wallet = exampleWallet\<rparr>,
      signature = Some ''0xsignature'',
      response_contractAddress = Some ''0xRegistry'',
      response_chainId = Some (Some 32769),
      results = Some ((resultOf True)\<lparr>retryAllowed := Some False\<rparr>),
      response_error = None\<rparr>"

text \<open>The state after the same request was handled twice by overlapping handlers.\<close>

definition afterBoth :: state where
  "afterBoth = afterSecret\<lparr>training_completions := [passedSecretRow, passedSecretRow]\<rparr>"

text \<open>A request that declares the kind \<^verbatim>\<open>secret\<close> for the quiz \<^verbatim>\<open>0001\<close>.\<close>

definition mismatchedRequest :: "string \<Rightarrow> VoucherRequest" where
  "mismatchedRequest address =
     \<lparr>request_walletAddress = Some address,
      request_achievementNumber = Some ''0001'',
      request_submissionType = Some ''secret'',
      request_submissionData = Some (noData\<lparr>secretAnswer := Some ''FIRSTSECRET''\<rparr>),
      request_metadata = None\<rparr>"

section \<open>Rounding to doubles\<close>

lemma floor_rat_numeral: "\<lfloor>numeral a / numeral b :: rat\<rfloor> = numeral a div numeral b"
  using floor_divide_of_int_eq[of "numeral a" "numeral b", where ?'a = rat] by simp

lemma ceiling_rat_numeral: "\<lceil>numeral a / numeral b :: rat\<rceil> = - (- numeral a div numeral b)"
  using floor_divide_of_int_eq[of "- numeral a" "numeral b", where ?'a = rat]
  by (simp add: ceiling_def)

lemma bitLength_numeral:
  "bitLength 0 = 0"
  "bitLength (Suc 0) = Suc 0"
  "bitLength (numeral (Num.Bit0 k)) = Suc (bitLength (numeral k))"
  "bitLength (numeral (Num.Bit1 k)) = Suc (bitLength (numeral k))"
  by (simp_all add: bitLength.simps[of 0] bitLength.simps[of "Suc 0"]
      bitLength.simps[of "numeral (Num.Bit0 k)"] bitLength.simps[of "numeral (Num.Bit1 k)"])

lemma bitLength_step: "0 < n \<Longrightarrow> bitLength n = Suc (bitLength (n div 2))"
  by (simp add: bitLength.simps[of n])

lemma bitLength_bounds:
  "0 < n \<Longrightarrow> 2 ^ (bitLength n - 1) \<le> n \<and> n < 2 ^ bitLength n"
proof (induction n rule: bitLength.induct)
  case (1 n)
  show ?case
  proof (cases "n div 2 = 0")
    case True
    with 1(2) have "n = 1" by (simp add: div_eq_0_iff) 
    then show ?thesis by (simp add: bitLength_numeral)
  next
    case False
    then have h: "0 < n div 2" by simp
    from 1(2) have n0: "n \<noteq> 0" by simp
    from 1(1)[OF n0 h]
    have IH: "2 ^ (bitLength (n div 2) - 1) \<le> n div 2" "n div 2 < 2 ^ bitLength (n div 2)"
      by simp_all
    have bl: "bitLength n = Suc (bitLength (n div 2))" using 1(2) by (rule bitLength_step)
    obtain j where j: "bitLength (n div 2) = Suc j"
      using bitLength_step[OF h] by simp
    have "2 ^ (bitLength n - 1) = 2 * (2::nat) ^ j" by (simp add: bl j)
    also have "\<dots> \<le> 2 * (n div 2)" using IH(1) by (simp add: j)
    also have "\<dots> \<le> n" by simp
    finally have lower: "2 ^ (bitLength n - 1) \<le> n" .
    have "n < 2 * (n div 2 + 1)" by simp
    also have "\<dots> \<le> 2 * 2 ^ bitLength (n div 2)" using IH(2) by simp
    also have "\<dots> = 2 ^ bitLength n" by (simp add: bl)
    finally show ?thesis using lower by simp
  qed
qed

lemma pow2_powi: "pow2 e = 2 powi e"
  by (simp add: pow2_def power_int_def field_simps)

lemma pow2_pos: "0 < pow2 e"
  by (simp add: pow2_powi)

lemma pow2_add: "pow2 (a + b) = pow2 a * pow2 b"
  by (simp add: pow2_powi power_int_add)

lemma pow2_mono: "a \<le> b \<Longrightarrow> pow2 a \<le> pow2 b"
  by (simp add: pow2_powi power_int_increasing)

lemma pow2_nat: "pow2 (int n) = 2 ^ n"
  by (simp add: pow2_def)

lemma pow2_neg_nat: "pow2 (- int n) = 1 / 2 ^ n"
  by (simp add: pow2_def)

lemma pow2_of_int: "0 \<le> e \<Longrightarrow> pow2 e = of_int (2 ^ nat e)"
  by (simp add: pow2_def)

lemma exponentOf_bounds:
  assumes "0 < x"
  shows "pow2 (exponentOf x) \<le> x \<and> x < pow2 (exponentOf x + 1)"
proof (cases "1 \<le> x")
  case True
  let ?n = "nat \<lfloor>x\<rfloor>"
  from True have fl: "1 \<le> \<lfloor>x\<rfloor>" by simp
  then have n: "0 < ?n" by simp
  from bitLength_bounds[OF n] have b: "2 ^ (bitLength ?n - 1) \<le> ?n" "?n < 2 ^ bitLength ?n"
    by simp_all
  obtain j where j: "bitLength ?n = Suc j" using bitLength_step[OF n] by simp
  have e: "exponentOf x = int j" using True by (simp add: exponentOf_def j)
  have nx: "of_nat ?n \<le> x" using fl by (simp add: of_nat_nat)
  have xn: "x < of_nat ?n + 1" using fl floor_correct[of x] by (simp add: of_nat_nat)
  from b(1) have "2 ^ j \<le> ?n" by (simp add: j)
  then have "(of_nat (2 ^ j) :: rat) \<le> of_nat ?n" by (simp only: of_nat_le_iff)
  then have r: "(2::rat) ^ j \<le> of_nat ?n" by simp
  from order_trans[OF r nx] have lower: "pow2 (exponentOf x) \<le> x" by (simp add: e pow2_nat)
  from b(2) have "?n + 1 \<le> 2 ^ Suc j" by (simp add: j)
  then have "(of_nat (?n + 1) :: rat) \<le> of_nat (2 ^ Suc j)" by (simp only: of_nat_le_iff)
  then have r2: "of_nat ?n + 1 \<le> (2::rat) ^ Suc j" by simp
  from less_le_trans[OF xn r2] have "x < 2 ^ Suc j" .
  moreover have "pow2 (exponentOf x + 1) = 2 ^ Suc j"
    using pow2_nat[of "Suc j"] by (simp add: e add.commute)
  ultimately show ?thesis using lower by simp
next
  case False
  with assms have x1: "x < 1" by simp
  let ?y = "1 / x"
  let ?m = "\<lceil>?y\<rceil>"
  let ?n = "nat (?m - 1)"
  from assms x1 have y1: "1 < ?y" by simp
  then have "1 < ?m" by (simp only: less_ceiling_iff of_int_1)
  then have m2: "2 \<le> ?m" by linarith
  then have n: "0 < ?n" by (simp only: zero_less_nat_eq)
  from bitLength_bounds[OF n] have b: "2 ^ (bitLength ?n - 1) \<le> ?n" "?n < 2 ^ bitLength ?n"
    by simp_all
  obtain j where j: "bitLength ?n = Suc j" using bitLength_step[OF n] by simp
  have e: "exponentOf x = - int (Suc j)" using False by (simp add: exponentOf_def j)
  have ym: "?y \<le> of_int ?m" by (rule le_of_int_ceiling)
  have my: "of_int ?m - 1 < ?y" using ceiling_correct[of ?y] by simp
  from m2 have "0 \<le> ?m - 1" by linarith
  then have nm: "int ?n = ?m - 1" by (simp only: int_nat_eq if_True)
  from b(2) have "?n + 1 \<le> 2 ^ Suc j" by (simp add: j)
  then have "int (?n + 1) \<le> int (2 ^ Suc j)" by (simp only: of_nat_le_iff)
  then have "?m \<le> 2 ^ Suc j" using nm by simp
  then have mu: "(of_int ?m :: rat) \<le> of_int (2 ^ Suc j)" by (simp only: of_int_le_iff)
  from order_trans[OF ym mu] have yu: "?y \<le> 2 ^ Suc j" by (simp only: of_int_power of_int_numeral)
  from b(1) have "2 ^ j \<le> ?n" by (simp add: j)
  then have "int (2 ^ j) \<le> int ?n" by (simp only: of_nat_le_iff)
  then have "(2::int) ^ j \<le> ?m - 1" using nm by simp
  then have "(of_int (2 ^ j) :: rat) \<le> of_int (?m - 1)" by (simp only: of_int_le_iff)
  then have ml: "(of_int (2 ^ j) :: rat) \<le> of_int ?m - 1" by (simp only: of_int_diff of_int_1)
  from le_less_trans[OF ml my] have yl: "2 ^ j < ?y" by (simp only: of_int_power of_int_numeral)
  have p1: "pow2 (exponentOf x) = 1 / 2 ^ Suc j" by (simp only: e pow2_neg_nat)
  have "exponentOf x + 1 = - int j" by (simp add: e)
  then have p2: "pow2 (exponentOf x + 1) = 1 / 2 ^ j" by (simp only: pow2_neg_nat)
  from yu assms have "1 \<le> 2 ^ Suc j * x" by (simp only: pos_divide_le_eq)
  then have "1 \<le> x * 2 ^ Suc j" by (simp only: mult.commute)
  then have lower: "1 / 2 ^ Suc j \<le> x" by (simp only: pos_divide_le_eq zero_less_power zero_less_numeral)
  from yl assms have "2 ^ j * x < 1" by (simp only: pos_less_divide_eq)
  then have "x * 2 ^ j < 1" by (simp only: mult.commute)
  then have "x < 1 / 2 ^ j" by (simp only: pos_less_divide_eq zero_less_power zero_less_numeral)
  with lower show ?thesis by (simp only: p1 p2)
qed

lemma exponentOf_unique:
  assumes "0 < x" "pow2 k \<le> x" "x < pow2 (k + 1)"
  shows "exponentOf x = k"
proof (rule ccontr)
  assume ne: "exponentOf x \<noteq> k"
  from exponentOf_bounds[OF assms(1)]
  have b: "pow2 (exponentOf x) \<le> x" "x < pow2 (exponentOf x + 1)" by simp_all
  show False
  proof (cases "exponentOf x < k")
    case True
    then have "pow2 (exponentOf x + 1) \<le> pow2 k" by (intro pow2_mono) simp
    with b(2) assms(2) show False by simp
  next
    case False
    with ne have "k + 1 \<le> exponentOf x" by simp
    then have "pow2 (k + 1) \<le> pow2 (exponentOf x)" by (rule pow2_mono)
    with b(1) assms(3) show False by simp
  qed
qed

lemma exponentOf_mono:
  assumes "0 < x" "x \<le> y"
  shows "exponentOf x \<le> exponentOf y"
proof (rule ccontr)
  assume "\<not> exponentOf x \<le> exponentOf y"
  then have "exponentOf y + 1 \<le> exponentOf x" by simp
  then have "pow2 (exponentOf y + 1) \<le> pow2 (exponentOf x)" by (rule pow2_mono)
  moreover from assms have y: "0 < y" by simp
  from exponentOf_bounds[OF assms(1)] exponentOf_bounds[OF y]
  have "pow2 (exponentOf x) \<le> x" "y < pow2 (exponentOf y + 1)" by simp_all
  ultimately show False using assms(2) by simp
qed

lemma roundHalfEven_of_int: "roundHalfEven (of_int z) = z"
  by (simp add: roundHalfEven_def)

lemma roundHalfEven_floor: "\<lfloor>x\<rfloor> \<le> roundHalfEven x \<and> roundHalfEven x \<le> \<lfloor>x\<rfloor> + 1"
  by (simp add: roundHalfEven_def Let_def)

lemma roundHalfEven_mono:
  assumes "x \<le> y"
  shows "roundHalfEven x \<le> roundHalfEven y"
proof (cases "\<lfloor>x\<rfloor> = \<lfloor>y\<rfloor>")
  case True
  with assms have "x - of_int \<lfloor>x\<rfloor> \<le> y - of_int \<lfloor>y\<rfloor>" by simp
  then show ?thesis using True by (auto simp: roundHalfEven_def Let_def)
next
  case False
  moreover from assms have "\<lfloor>x\<rfloor> \<le> \<lfloor>y\<rfloor>" by (rule floor_mono)
  ultimately have "\<lfloor>x\<rfloor> + 1 \<le> \<lfloor>y\<rfloor>" by simp
  with roundHalfEven_floor[of x] roundHalfEven_floor[of y] show ?thesis by linarith
qed

lemma ulpExponent_mono: "0 < x \<Longrightarrow> x \<le> y \<Longrightarrow> ulpExponent x \<le> ulpExponent y"
  using exponentOf_mono[of x y] by (simp add: ulpExponent_def)

lemma pow2_quotient: "pow2 a / pow2 b = pow2 (a - b)"
proof -
  have "pow2 a = pow2 (a - b) * pow2 b" using pow2_add[of "a - b" b] by simp
  then show ?thesis using pow2_pos[of b] by simp
qed

lemma roundMagnitude_mono:
  assumes "0 < x" "x \<le> y"
  shows "roundMagnitude x \<le> roundMagnitude y"
proof -
  from assms have y: "0 < y" by simp
  let ?ex = "ulpExponent x" and ?ey = "ulpExponent y"
  have le: "?ex \<le> ?ey" using assms by (rule ulpExponent_mono)
  show ?thesis
  proof (cases "?ex = ?ey")
    case True
    have "x / pow2 ?ey \<le> y / pow2 ?ey"
      using assms(2) pow2_pos[of ?ey] by (simp add: divide_right_mono)
    then have "roundHalfEven (x / pow2 ?ey) \<le> roundHalfEven (y / pow2 ?ey)"
      by (rule roundHalfEven_mono)
    then have "(of_int (roundHalfEven (x / pow2 ?ey)) :: rat) \<le> of_int (roundHalfEven (y / pow2 ?ey))"
      by simp
    then show ?thesis
      using pow2_pos[of ?ey] by (simp add: roundMagnitude_def True mult_right_mono)
  next
    case False
    with le have lt: "?ex < ?ey" by simp
    then have ey: "?ey = exponentOf y - 52" and low: "- 1074 \<le> ?ex"
      by (simp_all add: ulpExponent_def max_def split: if_splits)
    from lt have exy: "exponentOf x < exponentOf y"
      by (simp add: ulpExponent_def max_def split: if_splits)
    let ?B = "pow2 (exponentOf y)"
    from exponentOf_bounds[OF assms(1)] exponentOf_bounds[OF y]
    have xb: "x < pow2 (exponentOf x + 1)" and yB: "?B \<le> y" by simp_all
    from exy have "pow2 (exponentOf x + 1) \<le> ?B" by (intro pow2_mono) simp
    with xb have xB: "x \<le> ?B" by simp
    have "exponentOf y - ?ey = 52" using ey by simp
    then have "?B / pow2 ?ey = pow2 52" by (simp only: pow2_quotient)
    then have qy: "?B / pow2 ?ey = of_int (2 ^ 52)" by (simp add: pow2_def)
    have "?B / pow2 ?ey \<le> y / pow2 ?ey"
      using yB pow2_pos[of ?ey] by (simp add: divide_right_mono)
    then have "roundHalfEven (?B / pow2 ?ey) \<le> roundHalfEven (y / pow2 ?ey)"
      by (rule roundHalfEven_mono)
    then have "(of_int (roundHalfEven (?B / pow2 ?ey)) :: rat) \<le> of_int (roundHalfEven (y / pow2 ?ey))"
      by (simp only: of_int_le_iff)
    then have "of_int (roundHalfEven (?B / pow2 ?ey)) * pow2 ?ey \<le> roundMagnitude y"
      using pow2_pos[of ?ey] by (simp add: roundMagnitude_def mult_right_mono)
    moreover have "of_int (roundHalfEven (?B / pow2 ?ey)) * pow2 ?ey = ?B"
      using pow2_pos[of ?ey] qy by (simp only: roundHalfEven_of_int) (simp add: field_simps)
    ultimately have up: "?B \<le> roundMagnitude y" by simp
    have d: "0 \<le> exponentOf y - ?ex" using lt ey by simp
    have qx: "?B / pow2 ?ex = of_int (2 ^ nat (exponentOf y - ?ex))"
      using pow2_of_int[OF d] by (simp add: pow2_quotient)
    have "x / pow2 ?ex \<le> ?B / pow2 ?ex"
      using xB pow2_pos[of ?ex] by (simp add: divide_right_mono)
    then have "roundHalfEven (x / pow2 ?ex) \<le> roundHalfEven (?B / pow2 ?ex)"
      by (rule roundHalfEven_mono)
    then have "(of_int (roundHalfEven (x / pow2 ?ex)) :: rat) \<le> of_int (roundHalfEven (?B / pow2 ?ex))"
      by (simp only: of_int_le_iff)
    then have "roundMagnitude x \<le> of_int (roundHalfEven (?B / pow2 ?ex)) * pow2 ?ex"
      using pow2_pos[of ?ex] by (simp add: roundMagnitude_def mult_right_mono)
    moreover have "of_int (roundHalfEven (?B / pow2 ?ex)) * pow2 ?ex = ?B"
      using pow2_pos[of ?ex] qx by (simp only: roundHalfEven_of_int) (simp add: field_simps)
    ultimately have "roundMagnitude x \<le> ?B" by simp
    with up show ?thesis by simp
  qed
qed

lemma roundHalfEven_nonneg: "0 \<le> x \<Longrightarrow> 0 \<le> roundHalfEven x"
  using roundHalfEven_mono[of 0 x] roundHalfEven_of_int[of 0] by simp

lemma roundMagnitude_nonneg: "0 \<le> x \<Longrightarrow> 0 \<le> roundMagnitude x"
  using roundHalfEven_nonneg[of "x / pow2 (ulpExponent x)"] pow2_pos[of "ulpExponent x"]
  by (simp add: roundMagnitude_def)

lemma roundToDouble_positive:
  "0 < x \<Longrightarrow> roundToDouble x =
     (if 2 ^ 1024 \<le> roundMagnitude x then PosInfinity else Finite (roundMagnitude x))"
  by (simp add: roundToDouble_def Let_def)

lemma roundToDouble_negative:
  "x < 0 \<Longrightarrow> roundToDouble x =
     (if 2 ^ 1024 \<le> roundMagnitude (- x) then NegInfinity else Finite (- roundMagnitude (- x)))"
  by (simp add: roundToDouble_def Let_def abs_if)

lemma roundToDouble_zero: "roundToDouble 0 = Finite 0"
  by (simp add: roundToDouble_def)

lemma roundToDouble_mono:
  assumes "x \<le> y"
  shows "numLe (roundToDouble x) (roundToDouble y)"
proof -
  consider (neg) "y < 0" | (zero_y) "x < 0" "y = 0" | (mixed) "x < 0" "0 < y"
    | (zero_x) "x = 0" "y = 0" | (zero_pos) "x = 0" "0 < y" | (pos) "0 < x"
    using assms by linarith
  then show ?thesis
  proof cases
    case neg
    with assms have x: "x < 0" by simp
    from neg assms have "roundMagnitude (- y) \<le> roundMagnitude (- x)"
      by (intro roundMagnitude_mono) simp_all
    then show ?thesis
      by (auto simp: roundToDouble_negative[OF neg] roundToDouble_negative[OF x] numLe_def)
  next
    case zero_y
    from roundMagnitude_nonneg[of "- x"] zero_y(1) have "0 \<le> roundMagnitude (- x)" by simp
    then show ?thesis
      by (auto simp: roundToDouble_negative[OF zero_y(1)] zero_y(2) roundToDouble_zero numLe_def)
  next
    case mixed
    from roundMagnitude_nonneg[of "- x"] mixed(1) have "0 \<le> roundMagnitude (- x)" by simp
    moreover from roundMagnitude_nonneg[of y] mixed(2) have "0 \<le> roundMagnitude y" by simp
    ultimately show ?thesis
      by (auto simp: roundToDouble_negative[OF mixed(1)] roundToDouble_positive[OF mixed(2)] numLe_def)
  next
    case zero_x
    then show ?thesis by (simp add: roundToDouble_zero numLe_def)
  next
    case zero_pos
    from roundMagnitude_nonneg[of y] zero_pos(2) have "0 \<le> roundMagnitude y" by simp
    then show ?thesis
      by (auto simp: roundToDouble_positive[OF zero_pos(2)] zero_pos(1) roundToDouble_zero numLe_def)
  next
    case pos
    with assms have y: "0 < y" by simp
    from pos assms have "roundMagnitude x \<le> roundMagnitude y" by (rule roundMagnitude_mono)
    then show ?thesis
      by (auto simp: roundToDouble_positive[OF pos] roundToDouble_positive[OF y] numLe_def)
  qed
qed

lemma roundMagnitude_exact:
  assumes "x / pow2 (ulpExponent x) = of_int z"
  shows "roundMagnitude x = x"
proof -
  have "roundMagnitude x = of_int z * pow2 (ulpExponent x)"
    by (simp only: roundMagnitude_def assms roundHalfEven_of_int)
  also have "\<dots> = x / pow2 (ulpExponent x) * pow2 (ulpExponent x)" by (simp only: assms)
  also have "\<dots> = x" using pow2_pos[of "ulpExponent x"] by simp
  finally show ?thesis .
qed

lemma pow2_Suc: "pow2 (k + 1) = 2 * pow2 k"
  by (simp add: pow2_add pow2_def[of 1])

lemma pow2_inverse: "1 / pow2 a = pow2 (- a)"
  using pow2_quotient[of 0 a] by (simp add: pow2_def[of 0])

lemma exponentOf_pow2: "exponentOf (pow2 k) = k"
  using pow2_pos[of k] by (intro exponentOf_unique) (simp_all add: pow2_Suc)

lemma roundMagnitude_nat:
  assumes "0 < m" "m \<le> 2 ^ 53"
  shows "roundMagnitude (of_nat m) = of_nat m"
proof -
  let ?x = "of_nat m :: rat"
  have x: "0 < ?x" using assms(1) by simp
  have "pow2 0 \<le> ?x" using assms(1) by (simp add: pow2_def)
  then have "exponentOf (pow2 0) \<le> exponentOf ?x" by (intro exponentOf_mono pow2_pos)
  then have k0: "0 \<le> exponentOf ?x" by (simp only: exponentOf_pow2)
  have "?x \<le> of_nat (2 ^ 53)" using assms(2) by (simp only: of_nat_le_iff)
  then have x53: "?x \<le> pow2 53" by (simp add: pow2_def)
  from x53 have "exponentOf ?x \<le> exponentOf (pow2 53)" by (intro exponentOf_mono x)
  then have k53: "exponentOf ?x \<le> 53" by (simp only: exponentOf_pow2)
  show ?thesis
  proof (cases "exponentOf ?x \<le> 52")
    case True
    then have u: "ulpExponent ?x = exponentOf ?x - 52" using k0 by (simp add: ulpExponent_def)
    have d: "0 \<le> 52 - exponentOf ?x" using True by simp
    have "?x / pow2 (ulpExponent ?x) = ?x * (1 / pow2 (exponentOf ?x - 52))" by (simp add: u)
    also have "\<dots> = ?x * pow2 (52 - exponentOf ?x)" by (simp only: pow2_inverse) simp
    also have "\<dots> = of_int (int m * 2 ^ nat (52 - exponentOf ?x))"
      by (simp add: pow2_of_int[OF d])
    finally show ?thesis by (rule roundMagnitude_exact)
  next
    case False
    with k53 have k: "exponentOf ?x = 53" by simp
    then have u: "ulpExponent ?x = 1" by (simp add: ulpExponent_def)
    from exponentOf_bounds[OF x] have "pow2 53 \<le> ?x" by (simp add: k)
    with x53 have e: "?x = pow2 53" by simp
    have "?x / pow2 (ulpExponent ?x) = ?x / pow2 1" by (simp only: u)
    also have "\<dots> = pow2 53 / pow2 1" by (simp only: e)
    also have "\<dots> = of_int (2 ^ 52)" by (simp add: pow2_def)
    finally show ?thesis by (rule roundMagnitude_exact)
  qed
qed

lemma roundToDouble_nat:
  assumes "m \<le> 2 ^ 53"
  shows "roundToDouble (of_nat m) = Finite (of_nat m)"
proof (cases "m = 0")
  case True
  then show ?thesis by (simp add: roundToDouble_zero)
next
  case False
  then have m: "0 < m" by simp
  then have x: "(0::rat) < of_nat m" by simp
  have "(of_nat m :: rat) \<le> of_nat (2 ^ 53)" using assms by (simp only: of_nat_le_iff)
  also have "\<dots> < 2 ^ 1024" by simp
  finally show ?thesis
    by (simp add: roundToDouble_positive[OF x] roundMagnitude_nat[OF m assms])
qed

lemma roundToDouble_pos:
  assumes "0 < x" "exponentOf x = k" "roundHalfEven (x / pow2 (max (k - 52) (- 1074))) = m"
    "of_int m * pow2 (max (k - 52) (- 1074)) = r" "r < 2 ^ 1024"
  shows "roundToDouble x = Finite r"
  using assms by (simp add: roundToDouble_def roundMagnitude_def ulpExponent_def Let_def)

lemma roundToDouble_bounded:
  assumes "0 \<le> x" "x \<le> 2 ^ 53"
  shows "\<exists>r. roundToDouble x = Finite r \<and> 0 \<le> r \<and> r \<le> 2 ^ 53"
proof -
  have top: "roundToDouble 9007199254740992 = Finite 9007199254740992"
    using roundToDouble_nat[of "2 ^ 53"] by simp
  from assms(2) have "x \<le> 9007199254740992" by simp
  from roundToDouble_mono[OF assms(1)] roundToDouble_mono[OF this]
  show ?thesis
    by (cases "roundToDouble x") (auto simp: roundToDouble_zero top numLe_def)
qed


lemma roundToDouble_numeral:
  "numeral n \<le> (2::nat) ^ 53 \<Longrightarrow> roundToDouble (numeral n) = Finite (numeral n)"
  using roundToDouble_nat[of "numeral n"] by simp

lemma roundToDouble_one: "roundToDouble 1 = Finite 1"
  using roundToDouble_nat[of 1] by simp

lemma countValue_exact: "k \<le> 2 ^ 53 \<Longrightarrow> countValue k = Finite (of_nat k)"
  by (simp add: countValue_def min_def)

lemma countValue_bounds: "\<exists>r. countValue k = Finite r \<and> 0 \<le> r \<and> r \<le> 2 ^ 53 \<and> (0 < k \<longrightarrow> 1 \<le> r)"
proof -
  have "min k (2 ^ 53) \<le> 2 ^ 53" by simp
  then have "(of_nat (min k (2 ^ 53)) :: rat) \<le> of_nat (2 ^ 53)" by (simp only: of_nat_le_iff)
  moreover have "0 < k \<Longrightarrow> (1 :: rat) \<le> of_nat (min k (2 ^ 53))"
    by simp
  ultimately show ?thesis by (simp add: countValue_def)
qed

lemma countValue_mono: "k \<le> k' \<Longrightarrow> \<exists>r r'. countValue k = Finite r \<and> countValue k' = Finite r' \<and> r \<le> r'"
  by (simp add: countValue_def min_def)

text \<open>
  The counter of a grader: \<^verbatim>\<open>correctCount++\<close>, once for each of \<open>k\<close> elements and from 0,
  leaves the number \<open>countValue k\<close>.
\<close>

lemma roundToDouble_past_53: "roundToDouble (2 ^ 53 + 1) = Finite (2 ^ 53)"
proof -
  have e: "exponentOf (2 ^ 53 + 1) = 53"
    by (rule exponentOf_unique) (simp_all add: pow2_def)
  have "roundToDouble (2 ^ 53 + 1) = Finite 9007199254740992"
  proof (rule roundToDouble_pos[OF _ e])
    show "(0::rat) < 2 ^ 53 + 1" by simp
    show "roundHalfEven ((2 ^ 53 + 1) / pow2 (max (53 - 52) (- 1074))) = 4503599627370496"
      by (simp add: pow2_def roundHalfEven_def floor_rat_numeral Let_def)
    show "of_int 4503599627370496 * pow2 (max (53 - 52) (- 1074)) = 9007199254740992"
      by (simp add: pow2_def)
    show "(9007199254740992 :: rat) < 2 ^ 1024" by simp
  qed
  then show ?thesis by simp
qed

lemma countValue_increment: "numAdd (countValue k) (Finite 1) = countValue (Suc k)"
proof (cases "k < 2 ^ 53")
  case True
  then have "Suc k \<le> 2 ^ 53" by simp
  from roundToDouble_nat[OF this] True show ?thesis
    by (simp add: countValue_def min_def add.commute)
next
  case False
  then show ?thesis
    using roundToDouble_past_53 by (simp add: countValue_def min_def)
qed

lemma countValue_counter: "((\<lambda>c. numAdd c (Finite 1)) ^^ k) (Finite 0) = countValue k"
proof (induction k)
  case 0
  show ?case by (simp add: countValue_def)
next
  case (Suc k)
  then show ?case by (simp add: countValue_increment)
qed

lemma roundToDouble_half: "roundToDouble (1 / 2) = Finite (1 / 2)"
proof (rule roundToDouble_pos)
  show "(0::rat) < 1 / 2" by simp
  show "exponentOf (1 / 2) = - 1"
    by (simp add: exponentOf_def floor_rat_numeral ceiling_rat_numeral bitLength_numeral)
  show "roundHalfEven (1 / 2 / pow2 (max (- 1 - 52) (- 1074))) = 4503599627370496"
    by (simp add: pow2_def roundHalfEven_def floor_rat_numeral Let_def)
  show "of_int 4503599627370496 * pow2 (max (- 1 - 52) (- 1074)) = 1 / 2"
    by (simp add: pow2_def)
  show "(1 / 2 :: rat) < 2 ^ 1024" by simp
qed

lemmas double_eval =
  countValue_exact roundToDouble_zero roundToDouble_one roundToDouble_numeral roundToDouble_half

section \<open>Task codes and achievement numbers\<close>

lemma digit_not_space: "isRadixDigit 10 c \<Longrightarrow> \<not> isWhiteSpace c"
  by (auto simp: isRadixDigit_def digitValue_def isWhiteSpace_def Let_def split: option.splits if_splits)

lemma digit_not_sign: "isRadixDigit 10 c \<Longrightarrow> c \<noteq> CHR ''-'' \<and> c \<noteq> CHR ''+''"
  by (auto simp: isRadixDigit_def digitValue_def Let_def split: option.splits if_splits)

lemma parseInt_digits:
  assumes "s \<noteq> []" "list_all (isRadixDigit 10) s"
  shows "parseInt s 10 = Some (int (digitsValue 10 s))"
proof -
  obtain c cs where s: "s = c # cs" using assms(1) by (cases s) auto
  have c: "isRadixDigit 10 c" using assms(2) s by simp
  have tw: "takeWhile (isRadixDigit 10) s = s"
    using assms(2) by (simp add: takeWhile_eq_all_conv list_all_iff)
  show ?thesis
    using digit_not_space[OF c] digit_not_sign[OF c] tw s
    by (simp add: parseInt_def Let_def)
qed

lemma digitChar_digitValue:
  "isRadixDigit 10 c \<Longrightarrow> digitValue c = Some d \<Longrightarrow> digitChar d = c \<and> d < 10"
  by (auto simp: isRadixDigit_def digitValue_def digitChar_def Let_def split: if_splits)

lemma digitsValue_snoc:
  "digitsValue r (s @ [c]) = digitsValue r s * r + (case digitValue c of None \<Rightarrow> 0 | Some d \<Rightarrow> d)"
  by (simp add: digitsValue_def)

lemma natToDigits_step:
  "d < 10 \<Longrightarrow> natToDigits (m * 10 + d) = (if m = 0 then [digitChar d] else natToDigits m @ [digitChar d])"
  by (subst natToDigits.simps) auto

lemma natToDigits_small: "d < 10 \<Longrightarrow> natToDigits d = [digitChar d]"
  by (simp add: natToDigits.simps)

lemma digitChar_0: "digitChar 0 = CHR ''0''"
  by (simp add: digitChar_def) code_simp

lemma natToDigits_zero: "natToDigits 0 = ''0''"
  by (simp add: digitChar_0 natToDigits.simps)

lemma padStart_zero: "padStart x n ''0'' = replicate (n - length x) (CHR ''0'') @ x"
  by (auto simp: padStart_def)

text \<open>
  Writing the value of a string of decimal digits and padding it to the length of the
  string gives the string back.
\<close>

lemma pad_digits:
  "s \<noteq> [] \<Longrightarrow> list_all (isRadixDigit 10) s \<Longrightarrow>
   replicate (length s - length (natToDigits (digitsValue 10 s))) (CHR ''0'')
     @ natToDigits (digitsValue 10 s) = s"
proof (induction s rule: rev_induct)
  case Nil
  then show ?case by simp
next
  case (snoc c s)
  from snoc.prems have c: "isRadixDigit 10 c" and all: "list_all (isRadixDigit 10) s" by simp_all
  then obtain d where d: "digitValue c = Some d"
    by (auto simp: isRadixDigit_def split: option.splits)
  from digitChar_digitValue[OF c d] have dc: "digitChar d = c" and d10: "d < 10" by simp_all
  let ?m = "digitsValue 10 s"
  have val: "digitsValue 10 (s @ [c]) = ?m * 10 + d" by (simp add: digitsValue_snoc d)
  show ?case
  proof (cases "s = []")
    case True
    then have "?m = 0" by (simp add: digitsValue_def)
    with val have "digitsValue 10 (s @ [c]) = d" by simp
    moreover have "natToDigits d = [c]" using d10 dc by (simp add: natToDigits_small)
    ultimately show ?thesis using True by simp
  next
    case False
    with snoc.IH all
    have IH: "replicate (length s - length (natToDigits ?m)) (CHR ''0'') @ natToDigits ?m = s"
      by simp
    show ?thesis
    proof (cases "?m = 0")
      case True
      with IH have zs: "replicate (length s - 1) (CHR ''0'') @ ''0'' = s"
        by (simp add: natToDigits_zero)
      have len: "length s = Suc (length s - 1)" using False by (cases s) auto
      have "replicate (length s) (CHR ''0'') = replicate (Suc (length s - 1)) (CHR ''0'')"
        using len by simp
      also have "\<dots> = replicate (length s - 1) (CHR ''0'') @ ''0''"
        by (simp add: replicate_append_same)
      finally have all0: "replicate (length s) (CHR ''0'') = s" using zs by simp
      from True val have v: "digitsValue 10 (s @ [c]) = d" by simp
      have nd: "natToDigits d = [c]" using d10 dc by (simp add: natToDigits_small)
      have "replicate (length (s @ [c]) - length [c]) (CHR ''0'') @ [c] = s @ [c]"
        using all0 by simp
      then show ?thesis unfolding v nd .
    next
      case nz: False
      have le: "length (natToDigits ?m) \<le> length s"
        by (metis IH le_add2 length_append)
      have nd: "natToDigits (?m * 10 + d) = natToDigits ?m @ [c]"
        using nz d10 dc by (simp add: natToDigits_step)
      have "replicate (length (s @ [c]) - length (natToDigits ?m @ [c])) (CHR ''0'')
              @ (natToDigits ?m @ [c]) = s @ [c]"
        using IH le by simp
      then show ?thesis unfolding val nd .
    qed
  qed
qed

lemma round_trip_digits:
  assumes "s \<noteq> []" "list_all (isRadixDigit 10) s"
  shows "taskCodeToAchievementNumber (achievementNumberToTaskCode s) (length s) = s"
  using pad_digits[OF assms] parseInt_digits[OF assms]
  by (simp add: taskCodeToAchievementNumber_def achievementNumberToTaskCode_def
      numberToString_def padStart_zero)

lemma catalog_shape:
  "\<forall>a \<in> set (map fst ACHIEVEMENT_TYPES). length a = 4 \<and> list_all (isRadixDigit 10) a"
  by (simp add: ACHIEVEMENT_TYPES_def isRadixDigit_def digitValue_def)

text \<open>
  C10. For every achievement number of the catalog, converting it to a task code and the
  task code back with the default padding of 4 gives the achievement number again.
\<close>

theorem C10_task_code_round_trip:
  "a \<in> set (map fst ACHIEVEMENT_TYPES) \<Longrightarrow>
   taskCodeToAchievementNumber (achievementNumberToTaskCode a) 4 = a"
proof -
  assume a: "a \<in> set (map fst ACHIEVEMENT_TYPES)"
  with catalog_shape have len: "length a = 4" and digits: "list_all (isRadixDigit 10) a"
    by blast+
  from len have "a \<noteq> []" by auto
  from round_trip_digits[OF this digits] len show ?thesis by simp
qed

theorem C10_task_code_round_trip_witness:
  "''1101'' \<in> set (map fst ACHIEVEMENT_TYPES)
   \<and> achievementNumberToTaskCode ''1101'' = Some 1101
   \<and> taskCodeToAchievementNumber (Some 1101) 4 = ''1101''"
proof -
  have m: "''1101'' \<in> set (map fst ACHIEVEMENT_TYPES)"
    by (simp add: ACHIEVEMENT_TYPES_def)
  have p: "achievementNumberToTaskCode ''1101'' = Some 1101"
    by (simp add: achievementNumberToTaskCode_def parseInt_def isWhiteSpace_def isRadixDigit_def
        digitValue_def digitsValue_def Let_def)
  from C10_task_code_round_trip[OF m] m p show ?thesis by simp
qed
section \<open>Timeline builder and drag-and-drop puzzle\<close>

lemma positions_same:
  "dragDropPositions u len cs i acc = timelinePositions u len cs i acc"
proof (induction u len cs i acc rule: timelinePositions.induct)
  case (1 u len cs i acc)
  show ?case
  proof (cases "lessMin i len (length cs)")
    case True
    from 1[OF True] True show ?thesis
      by (subst dragDropPositions.simps, subst timelinePositions.simps) simp
  next
    case False
    then show ?thesis
      by (subst dragDropPositions.simps, subst timelinePositions.simps) simp
  qed
qed

lemma lessMin_of_nat: "lessMin i (Finite (of_nat n)) m = (i < min n m)"
  by (simp add: min_def)

lemma timelinePositions_array:
  "timelinePositions (JArr us) (Finite (of_nat (length us))) cs i acc =
     acc + length (filter (\<lambda>k. us ! k = JStr (cs ! k)) [i..<min (length us) (length cs)])"
proof (induction "JArr us" "Finite (of_nat (length us))" cs i acc rule: timelinePositions.induct)
  case (1 cs i acc)
  show ?case
  proof (cases "i < min (length us) (length cs)")
    case True
    then have up: "[i..<min (length us) (length cs)] = i # [i + 1..<min (length us) (length cs)]"
      by (simp add: upt_conv_Cons)
    from True have iu: "i < length us" by simp
    have lm: "lessMin i (Finite (of_nat (length us))) (length cs)"
      using True by (simp add: lessMin_of_nat)
    show ?thesis
      using 1[OF lm] True iu by (subst timelinePositions.simps) (simp add: up lessMin_of_nat)
  next
    case False
    then have "min (length us) (length cs) \<le> i" by linarith
    then have "[i..<min (length us) (length cs)] = []" by simp
    moreover have "\<not> lessMin i (Finite (of_nat (length us))) (length cs)"
      using False by (simp add: lessMin_of_nat)
    ultimately show ?thesis
      by (subst timelinePositions.simps) (simp only: if_False add_0_right list.size filter.simps)
  qed
qed

lemma lengthNumber_array: "lengthNumber ext (JArr us) = Some (Finite (of_nat (length us)))"
  by (simp add: lengthNumber_def ToNumber_def)

lemma responseField_same:
  "getProp p ''userResponse'' = getProp q ''userResponse'' \<Longrightarrow> responseField p f = responseField q f"
  by (simp add: responseField_def)

lemma gradeTimelineBuilder_tagged:
  assumes "JSON_parse ext a = Some p" "getProp p ''type'' = Some (JStr ''timeline-builder'')"
  shows "gradeTimelineBuilder ext a ca pts =
     (case responseField p ''sequence'' of
        None \<Rightarrow> Finite 0
      | Some userSequence \<Rightarrow>
          (case data_sequence (answer_data ca) of
             None \<Rightarrow> Finite 0
           | Some correctSequence \<Rightarrow>
               if correctSequence = [] then Finite 0
               else
                 (case lengthNumber ext userSequence of
                    None \<Rightarrow> Finite 0
                  | Some len \<Rightarrow>
                      numMul (numDiv (countValue (timelinePositions userSequence len correctSequence 0 0))
                                (countValue (length correctSequence)))
                        pts)))"
  using assms by (simp add: gradeTimelineBuilder_def split: option.splits)

lemma gradeDragDropPuzzle_tagged:
  assumes "JSON_parse ext a = Some p" "getProp p ''type'' = Some (JStr ''drag-drop-puzzle'')"
  shows "gradeDragDropPuzzle ext a ca pts =
     (case responseField p ''sequence'' of
        None \<Rightarrow> Finite 0
      | Some userSequence \<Rightarrow>
          (case data_sequence (answer_data ca) of
             None \<Rightarrow> Finite 0
           | Some correctSequence \<Rightarrow>
               if correctSequence = [] then Finite 0
               else
                 (case lengthNumber ext userSequence of
                    None \<Rightarrow> Finite 0
                  | Some len \<Rightarrow>
                      numMul (numDiv (countValue (timelinePositions userSequence len correctSequence 0 0))
                                (countValue (length correctSequence)))
                        pts)))"
  using assms by (simp add: gradeDragDropPuzzle_def positions_same split: option.splits)

lemma gradeTimelineBuilder_other_tag:
  "JSON_parse ext a = Some p \<Longrightarrow> getProp p ''type'' \<noteq> Some (JStr ''timeline-builder'')
   \<Longrightarrow> gradeTimelineBuilder ext a ca pts = Finite 0"
  by (auto simp: gradeTimelineBuilder_def split: option.splits)

lemma gradeDragDropPuzzle_other_tag:
  "JSON_parse ext a = Some p \<Longrightarrow> getProp p ''type'' \<noteq> Some (JStr ''drag-drop-puzzle'')
   \<Longrightarrow> gradeDragDropPuzzle ext a ca pts = Finite 0"
  by (auto simp: gradeDragDropPuzzle_def split: option.splits)

lemma timeline_credit:
  assumes "JSON_parse ext a = Some p" "getProp p ''type'' = Some (JStr ''timeline-builder'')"
    "responseField p ''sequence'' = Some (JArr submitted)"
    "data_sequence (answer_data ca) = Some expected"
  shows "gradeTimelineBuilder ext a ca pts = positionCredit submitted expected pts"
  using assms(3,4)
  by (simp add: gradeTimelineBuilder_tagged[OF assms(1,2)] lengthNumber_array
      timelinePositions_array positionCredit_def matchingPositions_def)

text \<open>
  C7, as the code has it. Each of the two graders first tests the type tag of the parsed
  answer, the timeline grader for \<^verbatim>\<open>timeline-builder\<close> and the drag-and-drop grader for
  \<^verbatim>\<open>drag-drop-puzzle\<close>, and awards 0 to an answer with another tag. On two answers that
  differ in the tag only, each carrying the tag of its grader, the two graders award the
  same score, for every configured answer and every point value; when the submitted sequence
  is an array and the configured answer has a sequence, that score is the number of indices
  at which the submitted and the expected element agree, divided by the expected length,
  times the points, each operation rounded as the language does (0 for an empty expected
  sequence).
\<close>

theorem C7_drag_drop_as_timeline:
  assumes "JSON_parse ext tlAnswer = Some tlParsed"
    and "getProp tlParsed ''type'' = Some (JStr ''timeline-builder'')"
    and "JSON_parse ext ddAnswer = Some ddParsed"
    and "getProp ddParsed ''type'' = Some (JStr ''drag-drop-puzzle'')"
    and "getProp ddParsed ''userResponse'' = getProp tlParsed ''userResponse''"
  shows "gradeDragDropPuzzle ext ddAnswer ca pts = gradeTimelineBuilder ext tlAnswer ca pts
    \<and> gradeDragDropPuzzle ext tlAnswer ca pts = Finite 0
    \<and> gradeTimelineBuilder ext ddAnswer ca pts = Finite 0
    \<and> (responseField tlParsed ''sequence'' = Some (JArr submitted)
        \<and> data_sequence (answer_data ca) = Some expected
        \<longrightarrow> gradeTimelineBuilder ext tlAnswer ca pts = positionCredit submitted expected pts)"
proof -
  have same: "gradeDragDropPuzzle ext ddAnswer ca pts = gradeTimelineBuilder ext tlAnswer ca pts"
    by (simp add: gradeTimelineBuilder_tagged[OF assms(1,2)] gradeDragDropPuzzle_tagged[OF assms(3,4)]
        responseField_same[OF assms(5)])
  have dd0: "gradeDragDropPuzzle ext tlAnswer ca pts = Finite 0"
    using assms(2) by (intro gradeDragDropPuzzle_other_tag[OF assms(1)]) simp
  have tl0: "gradeTimelineBuilder ext ddAnswer ca pts = Finite 0"
    using assms(4) by (intro gradeTimelineBuilder_other_tag[OF assms(3)]) simp
  show ?thesis
    using same dd0 tl0 timeline_credit[OF assms(1,2)] by blast
qed

lemma example_timeline_parsed:
  "JSON_parse exampleExternals timelineText
     = Some (envelope ''timeline-builder'' ''sequence'' (JArr [JStr ''a'', JStr ''b'']))"
  by (simp add: exampleExternals_def exampleParse_def exampleAnswers_def)

lemma example_dragDrop_parsed:
  "JSON_parse exampleExternals dragDropText
     = Some (envelope ''drag-drop-puzzle'' ''sequence'' (JArr [JStr ''a'', JStr ''b'']))"
  by (simp add: exampleExternals_def exampleParse_def exampleAnswers_def timelineText_def
      timelineWrongText_def dragDropText_def)

lemma envelope_props:
  "getProp (envelope tag field v) ''type'' = Some (JStr tag)"
  "getProp (envelope tag field v) ''userResponse'' = Some (JObj [(field, v)])"
  by (simp_all add: envelope_def)

theorem C7_drag_drop_as_timeline_witness:
  "JSON_parse exampleExternals timelineText
     = Some (envelope ''timeline-builder'' ''sequence'' (JArr [JStr ''a'', JStr ''b'']))
   \<and> JSON_parse exampleExternals dragDropText
     = Some (envelope ''drag-drop-puzzle'' ''sequence'' (JArr [JStr ''a'', JStr ''b'']))
   \<and> gradeDragDropPuzzle exampleExternals dragDropText timelineAB (Finite 6)
     = gradeTimelineBuilder exampleExternals timelineText timelineAB (Finite 6)
   \<and> gradeTimelineBuilder exampleExternals timelineText timelineAB (Finite 6)
     = positionCredit [JStr ''a'', JStr ''b''] [''a'', ''b''] (Finite 6)
   \<and> positionCredit [JStr ''a'', JStr ''b''] [''a'', ''b''] (Finite 6) = Finite 6"
proof -
  have rf: "responseField (envelope ''timeline-builder'' ''sequence'' (JArr [JStr ''a'', JStr ''b'']))
              ''sequence'' = Some (JArr [JStr ''a'', JStr ''b''])"
    by (simp add: responseField_def envelope_def optChain_def)
  have ds: "data_sequence (answer_data timelineAB) = Some [''a'', ''b'']"
    by (simp add: timelineAB_def)
  have pc: "positionCredit [JStr ''a'', JStr ''b''] [''a'', ''b''] (Finite 6) = Finite 6"
    by (simp add: positionCredit_def matchingPositions_def upt_rec countValue_exact
        roundToDouble_one roundToDouble_numeral)
  have ur: "getProp (envelope ''drag-drop-puzzle'' ''sequence'' (JArr [JStr ''a'', JStr ''b''])) ''userResponse''
      = getProp (envelope ''timeline-builder'' ''sequence'' (JArr [JStr ''a'', JStr ''b''])) ''userResponse''"
    by (simp add: envelope_props)
  from C7_drag_drop_as_timeline[OF example_timeline_parsed envelope_props(1)
      example_dragDrop_parsed envelope_props(1) ur, of timelineAB "Finite 6" "[JStr ''a'', JStr ''b'']" "[''a'', ''b'']"]
    rf ds pc example_timeline_parsed example_dragDrop_parsed
  show ?thesis by simp
qed

text \<open>
  The claim as stated fails: on one and the same answer text, tagged \<^verbatim>\<open>timeline-builder\<close>
  and fully correct, the timeline grader awards the 6 points and the drag-and-drop grader
  awards 0.
\<close>

theorem C7_same_input_counterexample:
  "gradeTimelineBuilder exampleExternals timelineText timelineAB (Finite 6) = Finite 6
   \<and> gradeDragDropPuzzle exampleExternals timelineText timelineAB (Finite 6) = Finite 0"
proof -
  have rf: "responseField (envelope ''timeline-builder'' ''sequence'' (JArr [JStr ''a'', JStr ''b'']))
              ''sequence'' = Some (JArr [JStr ''a'', JStr ''b''])"
    by (simp add: responseField_def envelope_def optChain_def)
  have ds: "data_sequence (answer_data timelineAB) = Some [''a'', ''b'']"
    by (simp add: timelineAB_def)
  have pc: "positionCredit [JStr ''a'', JStr ''b''] [''a'', ''b''] (Finite 6) = Finite 6"
    by (simp add: positionCredit_def matchingPositions_def upt_rec countValue_exact
        roundToDouble_one roundToDouble_numeral)
  have "gradeTimelineBuilder exampleExternals timelineText timelineAB (Finite 6) = Finite 6"
    using timeline_credit[OF example_timeline_parsed envelope_props(1) rf ds] pc by simp
  moreover have "gradeDragDropPuzzle exampleExternals timelineText timelineAB (Finite 6) = Finite 0"
    by (rule gradeDragDropPuzzle_other_tag[OF example_timeline_parsed]) (simp add: envelope_props)
  ultimately show ?thesis by simp
qed
section \<open>Monotonicity of the partial-credit graders\<close>

lemma differOnlyE:
  assumes "differOnly ext a a' field v v'"
  obtains p p' where "JSON_parse ext a = Some p" "JSON_parse ext a' = Some p'"
    "getProp p ''type'' = getProp p' ''type''"
    "responseField p field = Some v" "responseField p' field = Some v'"
  using assms by (auto simp: differOnly_def split: option.splits)

lemma numLe_finite: "numLe (Finite x) (Finite y) = (x \<le> y)"
  by (auto simp: numLe_def)

lemma quotient_mono:
  assumes "0 < n" "k \<le> k'"
  shows "\<exists>q q'. numDiv (countValue k) (countValue n) = Finite q
           \<and> numDiv (countValue k') (countValue n) = Finite q' \<and> 0 \<le> q \<and> q \<le> q'"
proof -
  from countValue_mono[OF assms(2)] obtain r r' where
    r: "countValue k = Finite r" "countValue k' = Finite r'" "r \<le> r'" by blast
  from countValue_bounds[of k] r(1) have r0: "0 \<le> r" by auto
  from countValue_bounds[of k'] r(2) have r'53: "r' \<le> 2 ^ 53" by auto
  from countValue_bounds[of n] assms(1) obtain d where d: "countValue n = Finite d" "1 \<le> d" by auto
  have lo: "0 \<le> r / d" using r0 d(2) by simp
  have le: "r / d \<le> r' / d" using r(3) d(2) by (simp add: divide_right_mono)
  have "r' / d \<le> r' / 1" using d(2) r0 r(3) by (intro divide_left_mono) simp_all
  with r'53 have hi': "r' / d \<le> 2 ^ 53" by simp
  with le have hi: "r / d \<le> 2 ^ 53" by simp
  from lo le have lo': "0 \<le> r' / d" by simp
  from roundToDouble_bounded[OF lo hi] obtain q where q: "roundToDouble (r / d) = Finite q" "0 \<le> q"
    by blast
  from roundToDouble_bounded[OF lo' hi'] obtain q' where q': "roundToDouble (r' / d) = Finite q'"
    by blast
  from roundToDouble_mono[OF le] have "q \<le> q'" by (simp add: q q' numLe_finite)
  with q q' r d show ?thesis by auto
qed

lemma product_mono:
  "0 \<le> pts \<Longrightarrow> q \<le> q' \<Longrightarrow> numLe (numMul (Finite q) (Finite pts)) (numMul (Finite q') (Finite pts))"
  by (simp add: roundToDouble_mono mult_right_mono)

lemma product_nonneg:
  "0 \<le> pts \<Longrightarrow> 0 \<le> q \<Longrightarrow> numLe (Finite 0) (numMul (Finite q) (Finite pts))"
  using roundToDouble_mono[of 0 "q * pts"] by (simp add: roundToDouble_zero)

lemma credit_mono:
  assumes "0 \<le> pts" "0 < n" "\<And>k. c = Some k \<Longrightarrow> \<exists>k'. c' = Some k' \<and> k \<le> k'"
  shows "numLe (credit c n (Finite pts)) (credit c' n (Finite pts))"
proof (cases c)
  case None
  show ?thesis
  proof (cases c')
    case None
    with \<open>c = None\<close> show ?thesis by (simp add: credit_def numLe_finite)
  next
    case (Some k')
    from quotient_mono[OF assms(2) order_refl, of k'] obtain q where
      "numDiv (countValue k') (countValue n) = Finite q" "0 \<le> q" by blast
    with product_nonneg[OF assms(1)] Some \<open>c = None\<close> show ?thesis by (simp add: credit_def)
  qed
next
  case (Some k)
  with assms(3) obtain k' where k': "c' = Some k'" "k \<le> k'" by blast
  from quotient_mono[OF assms(2) k'(2)] obtain q q' where
    "numDiv (countValue k) (countValue n) = Finite q"
    "numDiv (countValue k') (countValue n) = Finite q'" "q \<le> q'" by blast
  with product_mono[OF assms(1)] Some k' show ?thesis by (simp add: credit_def)
qed

subsection \<open>Concept matching\<close>

lemma countCorrectPairs_Suc:
  "countCorrectPairs cps xs (Suc n) = map_option Suc (countCorrectPairs cps xs n)"
  by (induction xs arbitrary: n) (auto split: option.splits)

lemma countCorrectPairs_append:
  "countCorrectPairs cps (xs @ ys) n =
     (case countCorrectPairs cps xs n of None \<Rightarrow> None | Some m \<Rightarrow> countCorrectPairs cps ys m)"
  by (induction xs arbitrary: n) (auto split: option.splits)

lemma countCorrectPairs_insert:
  assumes "pairIsCorrect cps p = Some True" "countCorrectPairs cps (xs @ ys) 0 = Some k"
  shows "countCorrectPairs cps (xs @ p # ys) 0 = Some (Suc k)"
  using assms by (auto simp: countCorrectPairs_append countCorrectPairs_Suc split: option.splits)

lemma countCorrectPairs_replace:
  assumes "pairIsCorrect cps p = Some True" "countCorrectPairs cps (xs @ w # ys) 0 = Some k"
  shows "\<exists>k'. countCorrectPairs cps (xs @ p # ys) 0 = Some k' \<and> k \<le> k'"
  using assms
  by (auto simp: countCorrectPairs_append countCorrectPairs_Suc split: option.splits if_splits)

lemma gradeConceptMatching_parsed:
  assumes "JSON_parse ext a = Some p" "responseField p ''pairs'' = Some (JArr us)"
    "data_pairs (answer_data ca) = Some cps"
  shows "gradeConceptMatching ext a ca pts =
     (if getProp p ''type'' = Some (JStr ''concept-matching'') \<and> cps \<noteq> []
      then credit (countCorrectPairs cps us 0) (length cps) pts else Finite 0)"
  using assms by (auto simp: gradeConceptMatching_def credit_def split: option.splits)

lemma concept_insert_mono:
  assumes "0 \<le> pts" "differOnly ext a a' ''pairs'' (JArr (xs @ ys)) (JArr (xs @ p # ys))"
    "data_pairs (answer_data ca) = Some cps" "pairIsCorrect cps p = Some True"
  shows "numLe (gradeConceptMatching ext a ca (Finite pts))
           (gradeConceptMatching ext a' ca (Finite pts))"
proof -
  from assms(2) obtain q q' where q: "JSON_parse ext a = Some q" "JSON_parse ext a' = Some q'"
    "getProp q ''type'' = getProp q' ''type''"
    "responseField q ''pairs'' = Some (JArr (xs @ ys))"
    "responseField q' ''pairs'' = Some (JArr (xs @ p # ys))"
    by (rule differOnlyE)
  have "cps \<noteq> [] \<Longrightarrow>
        numLe (credit (countCorrectPairs cps (xs @ ys) 0) (length cps) (Finite pts))
          (credit (countCorrectPairs cps (xs @ p # ys) 0) (length cps) (Finite pts))"
    using countCorrectPairs_insert[OF assms(4)] by (intro credit_mono[OF assms(1)]) auto
  then show ?thesis
    by (simp add: gradeConceptMatching_parsed[OF q(1) q(4) assms(3)]
        gradeConceptMatching_parsed[OF q(2) q(5) assms(3)] q(3) numLe_finite)
qed

lemma concept_replace_mono:
  assumes "0 \<le> pts" "differOnly ext a a' ''pairs'' (JArr (xs @ w # ys)) (JArr (xs @ p # ys))"
    "data_pairs (answer_data ca) = Some cps" "pairIsCorrect cps p = Some True"
  shows "numLe (gradeConceptMatching ext a ca (Finite pts))
           (gradeConceptMatching ext a' ca (Finite pts))"
proof -
  from assms(2) obtain q q' where q: "JSON_parse ext a = Some q" "JSON_parse ext a' = Some q'"
    "getProp q ''type'' = getProp q' ''type''"
    "responseField q ''pairs'' = Some (JArr (xs @ w # ys))"
    "responseField q' ''pairs'' = Some (JArr (xs @ p # ys))"
    by (rule differOnlyE)
  have "cps \<noteq> [] \<Longrightarrow>
        numLe (credit (countCorrectPairs cps (xs @ w # ys) 0) (length cps) (Finite pts))
          (credit (countCorrectPairs cps (xs @ p # ys) 0) (length cps) (Finite pts))"
    using countCorrectPairs_replace[OF assms(4)] by (intro credit_mono[OF assms(1)]) auto
  then show ?thesis
    by (simp add: gradeConceptMatching_parsed[OF q(1) q(4) assms(3)]
        gradeConceptMatching_parsed[OF q(2) q(5) assms(3)] q(3) numLe_finite)
qed

subsection \<open>True/false statements\<close>

lemma countCorrectClasses_Suc:
  "countCorrectClasses ccs xs (Suc n) = map_option Suc (countCorrectClasses ccs xs n)"
  by (induction xs arbitrary: n) (auto split: option.splits)

lemma countCorrectClasses_append:
  "countCorrectClasses ccs (xs @ ys) n =
     (case countCorrectClasses ccs xs n of None \<Rightarrow> None | Some m \<Rightarrow> countCorrectClasses ccs ys m)"
  by (induction xs arbitrary: n) (auto split: option.splits)

lemma countCorrectClasses_insert:
  assumes "classIsCorrect ccs c = Some True" "countCorrectClasses ccs (xs @ ys) 0 = Some k"
  shows "countCorrectClasses ccs (xs @ c # ys) 0 = Some (Suc k)"
  using assms by (auto simp: countCorrectClasses_append countCorrectClasses_Suc split: option.splits)

lemma countCorrectClasses_replace:
  assumes "classIsCorrect ccs c = Some True" "countCorrectClasses ccs (xs @ w # ys) 0 = Some k"
  shows "\<exists>k'. countCorrectClasses ccs (xs @ c # ys) 0 = Some k' \<and> k \<le> k'"
  using assms
  by (auto simp: countCorrectClasses_append countCorrectClasses_Suc split: option.splits if_splits)

lemma gradeTrueFalseStatements_parsed:
  assumes "JSON_parse ext a = Some p" "responseField p ''classifications'' = Some (JArr us)"
    "data_classifications (answer_data ca) = Some ccs"
  shows "gradeTrueFalseStatements ext a ca pts =
     (if getProp p ''type'' = Some (JStr ''true-false-statements'') \<and> ccs \<noteq> []
      then credit (countCorrectClasses ccs us 0) (length ccs) pts else Finite 0)"
  using assms by (auto simp: gradeTrueFalseStatements_def credit_def split: option.splits)

lemma trueFalse_insert_mono:
  assumes "0 \<le> pts"
    "differOnly ext a a' ''classifications'' (JArr (xs @ ys)) (JArr (xs @ c # ys))"
    "data_classifications (answer_data ca) = Some ccs" "classIsCorrect ccs c = Some True"
  shows "numLe (gradeTrueFalseStatements ext a ca (Finite pts))
           (gradeTrueFalseStatements ext a' ca (Finite pts))"
proof -
  from assms(2) obtain q q' where q: "JSON_parse ext a = Some q" "JSON_parse ext a' = Some q'"
    "getProp q ''type'' = getProp q' ''type''"
    "responseField q ''classifications'' = Some (JArr (xs @ ys))"
    "responseField q' ''classifications'' = Some (JArr (xs @ c # ys))"
    by (rule differOnlyE)
  have "ccs \<noteq> [] \<Longrightarrow>
        numLe (credit (countCorrectClasses ccs (xs @ ys) 0) (length ccs) (Finite pts))
          (credit (countCorrectClasses ccs (xs @ c # ys) 0) (length ccs) (Finite pts))"
    using countCorrectClasses_insert[OF assms(4)] by (intro credit_mono[OF assms(1)]) auto
  then show ?thesis
    by (simp add: gradeTrueFalseStatements_parsed[OF q(1) q(4) assms(3)]
        gradeTrueFalseStatements_parsed[OF q(2) q(5) assms(3)] q(3) numLe_finite)
qed

lemma trueFalse_replace_mono:
  assumes "0 \<le> pts"
    "differOnly ext a a' ''classifications'' (JArr (xs @ w # ys)) (JArr (xs @ c # ys))"
    "data_classifications (answer_data ca) = Some ccs" "classIsCorrect ccs c = Some True"
  shows "numLe (gradeTrueFalseStatements ext a ca (Finite pts))
           (gradeTrueFalseStatements ext a' ca (Finite pts))"
proof -
  from assms(2) obtain q q' where q: "JSON_parse ext a = Some q" "JSON_parse ext a' = Some q'"
    "getProp q ''type'' = getProp q' ''type''"
    "responseField q ''classifications'' = Some (JArr (xs @ w # ys))"
    "responseField q' ''classifications'' = Some (JArr (xs @ c # ys))"
    by (rule differOnlyE)
  have "ccs \<noteq> [] \<Longrightarrow>
        numLe (credit (countCorrectClasses ccs (xs @ w # ys) 0) (length ccs) (Finite pts))
          (credit (countCorrectClasses ccs (xs @ c # ys) 0) (length ccs) (Finite pts))"
    using countCorrectClasses_replace[OF assms(4)] by (intro credit_mono[OF assms(1)]) auto
  then show ?thesis
    by (simp add: gradeTrueFalseStatements_parsed[OF q(1) q(4) assms(3)]
        gradeTrueFalseStatements_parsed[OF q(2) q(5) assms(3)] q(3) numLe_finite)
qed

subsection \<open>Timeline builder and drag-and-drop puzzle\<close>

lemma length_filter_mono:
  "(\<And>x. x \<in> set xs \<Longrightarrow> P x \<Longrightarrow> Q x) \<Longrightarrow> length (filter P xs) \<le> length (filter Q xs)"
  by (induction xs) auto

lemma matchingPositions_update:
  "matchingPositions us cs \<le> matchingPositions (us[i := JStr (cs ! i)]) cs"
  unfolding matchingPositions_def length_list_update
proof (rule length_filter_mono)
  fix x
  assume "x \<in> set [0..<min (length us) (length cs)]" and eq: "us ! x = JStr (cs ! x)"
  then have "x < length us" by simp
  then show "us[i := JStr (cs ! i)] ! x = JStr (cs ! x)"
    using eq by (cases "x = i") (simp_all add: nth_list_update)
qed

lemma matchingPositions_snoc:
  "matchingPositions us cs \<le> matchingPositions (us @ [x]) cs"
proof -
  let ?m = "min (length us) (length cs)" and ?m' = "min (length (us @ [x])) (length cs)"
  have "?m \<le> ?m'" by simp
  then have split: "[0..<?m'] = [0..<?m] @ [?m..<?m']"
    by (metis le0 upt_add_eq_append le_add_diff_inverse)
  have "filter (\<lambda>i. us ! i = JStr (cs ! i)) [0..<?m]
        = filter (\<lambda>i. (us @ [x]) ! i = JStr (cs ! i)) [0..<?m]"
    by (rule filter_cong) (auto simp: nth_append)
  then show ?thesis
    unfolding matchingPositions_def split by simp
qed

lemma gradeTimelineBuilder_parsed:
  assumes "JSON_parse ext a = Some p" "responseField p ''sequence'' = Some (JArr us)"
    "data_sequence (answer_data ca) = Some cs"
  shows "gradeTimelineBuilder ext a ca pts =
     (if getProp p ''type'' = Some (JStr ''timeline-builder'') \<and> cs \<noteq> []
      then credit (Some (matchingPositions us cs)) (length cs) pts else Finite 0)"
  using assms
  by (auto simp: gradeTimelineBuilder_def credit_def lengthNumber_array timelinePositions_array
      matchingPositions_def split: option.splits)

lemma gradeDragDropPuzzle_parsed:
  assumes "JSON_parse ext a = Some p" "responseField p ''sequence'' = Some (JArr us)"
    "data_sequence (answer_data ca) = Some cs"
  shows "gradeDragDropPuzzle ext a ca pts =
     (if getProp p ''type'' = Some (JStr ''drag-drop-puzzle'') \<and> cs \<noteq> []
      then credit (Some (matchingPositions us cs)) (length cs) pts else Finite 0)"
  using assms
  by (auto simp: gradeDragDropPuzzle_def credit_def lengthNumber_array positions_same
      timelinePositions_array matchingPositions_def split: option.splits)

lemma timeline_mono:
  assumes "0 \<le> pts" "differOnly ext a a' ''sequence'' (JArr us) (JArr us')"
    "data_sequence (answer_data ca) = Some cs"
    "matchingPositions us cs \<le> matchingPositions us' cs"
  shows "numLe (gradeTimelineBuilder ext a ca (Finite pts))
           (gradeTimelineBuilder ext a' ca (Finite pts))"
proof -
  from assms(2) obtain q q' where q: "JSON_parse ext a = Some q" "JSON_parse ext a' = Some q'"
    "getProp q ''type'' = getProp q' ''type''"
    "responseField q ''sequence'' = Some (JArr us)"
    "responseField q' ''sequence'' = Some (JArr us')"
    by (rule differOnlyE)
  have "cs \<noteq> [] \<Longrightarrow>
        numLe (credit (Some (matchingPositions us cs)) (length cs) (Finite pts))
          (credit (Some (matchingPositions us' cs)) (length cs) (Finite pts))"
    using assms(4) by (intro credit_mono[OF assms(1)]) auto
  then show ?thesis
    by (simp add: gradeTimelineBuilder_parsed[OF q(1) q(4) assms(3)]
        gradeTimelineBuilder_parsed[OF q(2) q(5) assms(3)] q(3) numLe_finite)
qed

lemma dragDrop_mono:
  assumes "0 \<le> pts" "differOnly ext a a' ''sequence'' (JArr us) (JArr us')"
    "data_sequence (answer_data ca) = Some cs"
    "matchingPositions us cs \<le> matchingPositions us' cs"
  shows "numLe (gradeDragDropPuzzle ext a ca (Finite pts))
           (gradeDragDropPuzzle ext a' ca (Finite pts))"
proof -
  from assms(2) obtain q q' where q: "JSON_parse ext a = Some q" "JSON_parse ext a' = Some q'"
    "getProp q ''type'' = getProp q' ''type''"
    "responseField q ''sequence'' = Some (JArr us)"
    "responseField q' ''sequence'' = Some (JArr us')"
    by (rule differOnlyE)
  have "cs \<noteq> [] \<Longrightarrow>
        numLe (credit (Some (matchingPositions us cs)) (length cs) (Finite pts))
          (credit (Some (matchingPositions us' cs)) (length cs) (Finite pts))"
    using assms(4) by (intro credit_mono[OF assms(1)]) auto
  then show ?thesis
    by (simp add: gradeDragDropPuzzle_parsed[OF q(1) q(4) assms(3)]
        gradeDragDropPuzzle_parsed[OF q(2) q(5) assms(3)] q(3) numLe_finite)
qed

text \<open>
  C8. For finite non-negative points, the concept-matching, true/false, timeline and drag-and-drop
  graders never award less when, in an otherwise identical answer, one more correct pair
  or classification is added, one pair or classification is replaced by a correct one, the
  element at one position of the sequence is replaced by the expected one, or the expected
  next element is appended to the sequence.
\<close>

theorem C8_graders_monotonic:
  assumes "0 \<le> pts"
  shows
    "(data_pairs (answer_data ca) = Some cps \<and> pairIsCorrect cps p = Some True \<longrightarrow>
        (differOnly ext a a' ''pairs'' (JArr (xs @ ys)) (JArr (xs @ p # ys)) \<longrightarrow>
           numLe (gradeConceptMatching ext a ca (Finite pts))
             (gradeConceptMatching ext a' ca (Finite pts)))
      \<and> (differOnly ext a a' ''pairs'' (JArr (xs @ w # ys)) (JArr (xs @ p # ys)) \<longrightarrow>
           numLe (gradeConceptMatching ext a ca (Finite pts))
             (gradeConceptMatching ext a' ca (Finite pts))))
   \<and> (data_classifications (answer_data ca) = Some ccs \<and> classIsCorrect ccs c = Some True \<longrightarrow>
        (differOnly ext a a' ''classifications'' (JArr (xs @ ys)) (JArr (xs @ c # ys)) \<longrightarrow>
           numLe (gradeTrueFalseStatements ext a ca (Finite pts))
             (gradeTrueFalseStatements ext a' ca (Finite pts)))
      \<and> (differOnly ext a a' ''classifications'' (JArr (xs @ w # ys)) (JArr (xs @ c # ys)) \<longrightarrow>
           numLe (gradeTrueFalseStatements ext a ca (Finite pts))
             (gradeTrueFalseStatements ext a' ca (Finite pts))))
   \<and> (data_sequence (answer_data ca) = Some cs \<longrightarrow>
        (i < length us \<and> i < length cs
         \<and> differOnly ext a a' ''sequence'' (JArr us) (JArr (us[i := JStr (cs ! i)])) \<longrightarrow>
           numLe (gradeTimelineBuilder ext a ca (Finite pts))
             (gradeTimelineBuilder ext a' ca (Finite pts))
           \<and> numLe (gradeDragDropPuzzle ext a ca (Finite pts))
                    (gradeDragDropPuzzle ext a' ca (Finite pts)))
      \<and> (length us < length cs
         \<and> differOnly ext a a' ''sequence'' (JArr us) (JArr (us @ [JStr (cs ! length us)])) \<longrightarrow>
           numLe (gradeTimelineBuilder ext a ca (Finite pts))
             (gradeTimelineBuilder ext a' ca (Finite pts))
           \<and> numLe (gradeDragDropPuzzle ext a ca (Finite pts))
                    (gradeDragDropPuzzle ext a' ca (Finite pts))))"
proof (intro conjI impI)
  assume "data_pairs (answer_data ca) = Some cps \<and> pairIsCorrect cps p = Some True"
  then have h: "data_pairs (answer_data ca) = Some cps" "pairIsCorrect cps p = Some True" by simp_all
  {
    assume "differOnly ext a a' ''pairs'' (JArr (xs @ ys)) (JArr (xs @ p # ys))"
    from concept_insert_mono[OF assms this h]
    show "numLe (gradeConceptMatching ext a ca (Finite pts))
            (gradeConceptMatching ext a' ca (Finite pts))" .
  }
  {
    assume "differOnly ext a a' ''pairs'' (JArr (xs @ w # ys)) (JArr (xs @ p # ys))"
    from concept_replace_mono[OF assms this h]
    show "numLe (gradeConceptMatching ext a ca (Finite pts))
            (gradeConceptMatching ext a' ca (Finite pts))" .
  }
next
  assume "data_classifications (answer_data ca) = Some ccs \<and> classIsCorrect ccs c = Some True"
  then have h: "data_classifications (answer_data ca) = Some ccs" "classIsCorrect ccs c = Some True"
    by simp_all
  {
    assume "differOnly ext a a' ''classifications'' (JArr (xs @ ys)) (JArr (xs @ c # ys))"
    from trueFalse_insert_mono[OF assms this h]
    show "numLe (gradeTrueFalseStatements ext a ca (Finite pts))
            (gradeTrueFalseStatements ext a' ca (Finite pts))" .
  }
  {
    assume "differOnly ext a a' ''classifications'' (JArr (xs @ w # ys)) (JArr (xs @ c # ys))"
    from trueFalse_replace_mono[OF assms this h]
    show "numLe (gradeTrueFalseStatements ext a ca (Finite pts))
            (gradeTrueFalseStatements ext a' ca (Finite pts))" .
  }
next
  assume cs: "data_sequence (answer_data ca) = Some cs"
  {
    assume "i < length us \<and> i < length cs
      \<and> differOnly ext a a' ''sequence'' (JArr us) (JArr (us[i := JStr (cs ! i)]))"
    then have d: "differOnly ext a a' ''sequence'' (JArr us) (JArr (us[i := JStr (cs ! i)]))" by simp
    from timeline_mono[OF assms d cs matchingPositions_update]
    show "numLe (gradeTimelineBuilder ext a ca (Finite pts))
            (gradeTimelineBuilder ext a' ca (Finite pts))" .
    from dragDrop_mono[OF assms d cs matchingPositions_update]
    show "numLe (gradeDragDropPuzzle ext a ca (Finite pts))
            (gradeDragDropPuzzle ext a' ca (Finite pts))" .
  }
  {
    assume "length us < length cs
      \<and> differOnly ext a a' ''sequence'' (JArr us) (JArr (us @ [JStr (cs ! length us)]))"
    then have d: "differOnly ext a a' ''sequence'' (JArr us) (JArr (us @ [JStr (cs ! length us)]))"
      by simp
    from timeline_mono[OF assms d cs matchingPositions_snoc]
    show "numLe (gradeTimelineBuilder ext a ca (Finite pts))
            (gradeTimelineBuilder ext a' ca (Finite pts))" .
    from dragDrop_mono[OF assms d cs matchingPositions_snoc]
    show "numLe (gradeDragDropPuzzle ext a ca (Finite pts))
            (gradeDragDropPuzzle ext a' ca (Finite pts))" .
  }
qed
lemmas example_texts =
  timelineText_def timelineWrongText_def dragDropText_def dragDropWrongText_def onePairText_def
  bothPairsText_def threePairsText_def oneClassText_def bothClassesText_def

lemma example_parses:
  "JSON_parse exampleExternals timelineWrongText
     = Some (envelope ''timeline-builder'' ''sequence'' (JArr [JStr ''a'', JStr ''x'']))"
  "JSON_parse exampleExternals dragDropWrongText
     = Some (envelope ''drag-drop-puzzle'' ''sequence'' (JArr [JStr ''a'', JStr ''x'']))"
  "JSON_parse exampleExternals onePairText
     = Some (envelope ''concept-matching'' ''pairs'' (JArr [pairC1D1]))"
  "JSON_parse exampleExternals bothPairsText
     = Some (envelope ''concept-matching'' ''pairs'' (JArr [pairC1D1, pairC2D2]))"
  "JSON_parse exampleExternals threePairsText
     = Some (envelope ''concept-matching'' ''pairs'' (JArr [pairC1D1, pairC1D1, pairC1D1]))"
  "JSON_parse exampleExternals oneClassText
     = Some (envelope ''true-false-statements'' ''classifications'' (JArr [classS1]))"
  "JSON_parse exampleExternals bothClassesText
     = Some (envelope ''true-false-statements'' ''classifications'' (JArr [classS1, classS2]))"
  by (simp_all add: exampleExternals_def exampleParse_def exampleAnswers_def example_texts)

lemma envelope_field: "responseField (envelope tag field (JArr xs)) field = Some (JArr xs)"
  by (simp add: responseField_def envelope_def optChain_def)

lemma differOnly_envelopes:
  "JSON_parse ext a = Some (envelope tag field (JArr xs)) \<Longrightarrow>
   JSON_parse ext a' = Some (envelope tag field (JArr xs')) \<Longrightarrow>
   differOnly ext a a' field (JArr xs) (JArr xs')"
  by (simp add: differOnly_def envelope_field envelope_props)

lemma example_pair_correct:
  "pairIsCorrect [(''c1'', ''d1''), (''c2'', ''d2'')] pairC1D1 = Some True"
  "pairIsCorrect [(''c1'', ''d1''), (''c2'', ''d2'')] pairC2D2 = Some True"
  by (simp_all add: pairIsCorrect_def pairC1D1_def pairC2D2_def)

lemma example_class_correct:
  "classIsCorrect [(''s1'', True), (''s2'', False)] classS1 = Some True"
  "classIsCorrect [(''s1'', True), (''s2'', False)] classS2 = Some True"
  by (simp_all add: classIsCorrect_def classS1_def classS2_def)

theorem C8_graders_monotonic_witness:
  "(0 :: rat) \<le> 10
   \<and> differOnly exampleExternals onePairText bothPairsText ''pairs''
        (JArr ([pairC1D1] @ [])) (JArr ([pairC1D1] @ pairC2D2 # []))
   \<and> numLe (gradeConceptMatching exampleExternals onePairText twoPairs (Finite 10))
          (gradeConceptMatching exampleExternals bothPairsText twoPairs (Finite 10))
   \<and> gradeConceptMatching exampleExternals onePairText twoPairs (Finite 10) = Finite 5
   \<and> gradeConceptMatching exampleExternals bothPairsText twoPairs (Finite 10) = Finite 10
   \<and> differOnly exampleExternals oneClassText bothClassesText ''classifications''
        (JArr ([classS1] @ [])) (JArr ([classS1] @ classS2 # []))
   \<and> numLe (gradeTrueFalseStatements exampleExternals oneClassText twoStatements (Finite 10))
          (gradeTrueFalseStatements exampleExternals bothClassesText twoStatements (Finite 10))
   \<and> differOnly exampleExternals timelineWrongText timelineText ''sequence''
        (JArr [JStr ''a'', JStr ''x'']) (JArr ([JStr ''a'', JStr ''x''][1 := JStr ([''a'', ''b''] ! 1)]))
   \<and> numLe (gradeTimelineBuilder exampleExternals timelineWrongText timelineAB (Finite 10))
          (gradeTimelineBuilder exampleExternals timelineText timelineAB (Finite 10))
   \<and> differOnly exampleExternals dragDropWrongText dragDropText ''sequence''
        (JArr [JStr ''a'', JStr ''x'']) (JArr ([JStr ''a'', JStr ''x''][1 := JStr ([''a'', ''b''] ! 1)]))
   \<and> numLe (gradeDragDropPuzzle exampleExternals dragDropWrongText dragDropAB (Finite 10))
          (gradeDragDropPuzzle exampleExternals dragDropText dragDropAB (Finite 10))"
proof -
  have pts: "(0 :: rat) \<le> 10" by simp
  have cps: "data_pairs (answer_data twoPairs) = Some [(''c1'', ''d1''), (''c2'', ''d2'')]"
    by (simp add: twoPairs_def)
  have ccs: "data_classifications (answer_data twoStatements) = Some [(''s1'', True), (''s2'', False)]"
    by (simp add: twoStatements_def)
  have tl: "data_sequence (answer_data timelineAB) = Some [''a'', ''b'']"
    by (simp add: timelineAB_def)
  have dd: "data_sequence (answer_data dragDropAB) = Some [''a'', ''b'']"
    by (simp add: dragDropAB_def)
  have d1: "differOnly exampleExternals onePairText bothPairsText ''pairs''
        (JArr ([pairC1D1] @ [])) (JArr ([pairC1D1] @ pairC2D2 # []))"
    using differOnly_envelopes[OF example_parses(3) example_parses(4)] by simp
  have d2: "differOnly exampleExternals oneClassText bothClassesText ''classifications''
        (JArr ([classS1] @ [])) (JArr ([classS1] @ classS2 # []))"
    using differOnly_envelopes[OF example_parses(6) example_parses(7)] by simp
  have d3: "differOnly exampleExternals timelineWrongText timelineText ''sequence''
        (JArr [JStr ''a'', JStr ''x'']) (JArr ([JStr ''a'', JStr ''x''][1 := JStr ([''a'', ''b''] ! 1)]))"
    using differOnly_envelopes[OF example_parses(1) example_timeline_parsed] by simp
  have d4: "differOnly exampleExternals dragDropWrongText dragDropText ''sequence''
        (JArr [JStr ''a'', JStr ''x'']) (JArr ([JStr ''a'', JStr ''x''][1 := JStr ([''a'', ''b''] ! 1)]))"
    using differOnly_envelopes[OF example_parses(2) example_dragDrop_parsed] by simp
  have v1: "gradeConceptMatching exampleExternals onePairText twoPairs (Finite 10) = Finite 5"
    by (simp add: gradeConceptMatching_parsed[OF example_parses(3) envelope_field cps]
        envelope_props credit_def example_pair_correct double_eval)
  have v2: "gradeConceptMatching exampleExternals bothPairsText twoPairs (Finite 10) = Finite 10"
    by (simp add: gradeConceptMatching_parsed[OF example_parses(4) envelope_field cps]
        envelope_props credit_def example_pair_correct double_eval)
  note m1 = C8_graders_monotonic[OF pts, where ca = twoPairs and ext = exampleExternals
      and cps = "[(''c1'', ''d1''), (''c2'', ''d2'')]" and p = pairC2D2
      and a = onePairText and a' = bothPairsText and xs = "[pairC1D1]" and ys = "[]"]
  note m2 = C8_graders_monotonic[OF pts, where ca = twoStatements and ext = exampleExternals
      and ccs = "[(''s1'', True), (''s2'', False)]" and c = classS2
      and a = oneClassText and a' = bothClassesText and xs = "[classS1]" and ys = "[]"]
  note m3 = C8_graders_monotonic[OF pts, where ca = timelineAB and ext = exampleExternals
      and cs = "[''a'', ''b'']" and us = "[JStr ''a'', JStr ''x'']" and i = 1
      and a = timelineWrongText and a' = timelineText]
  note m4 = C8_graders_monotonic[OF pts, where ca = dragDropAB and ext = exampleExternals
      and cs = "[''a'', ''b'']" and us = "[JStr ''a'', JStr ''x'']" and i = 1
      and a = dragDropWrongText and a' = dragDropText]
  have i1: "numLe (gradeConceptMatching exampleExternals onePairText twoPairs (Finite 10))
          (gradeConceptMatching exampleExternals bothPairsText twoPairs (Finite 10))"
    using m1 cps example_pair_correct(2) d1 by blast
  have i2: "numLe (gradeTrueFalseStatements exampleExternals oneClassText twoStatements (Finite 10))
          (gradeTrueFalseStatements exampleExternals bothClassesText twoStatements (Finite 10))"
    using m2 ccs example_class_correct(2) d2 by blast
  have i3: "numLe (gradeTimelineBuilder exampleExternals timelineWrongText timelineAB (Finite 10))
          (gradeTimelineBuilder exampleExternals timelineText timelineAB (Finite 10))"
    using m3 tl d3 by simp
  have i4: "numLe (gradeDragDropPuzzle exampleExternals dragDropWrongText dragDropAB (Finite 10))
          (gradeDragDropPuzzle exampleExternals dragDropText dragDropAB (Finite 10))"
    using m4 dd d4 by simp
  show ?thesis
    using pts d1 d2 d3 d4 v1 v2 i1 i2 i3 i4 by blast
qed
section \<open>The launch secret and the format of the transaction hash\<close>

lemma failure_fields:
  "passed (failure e r) = False" "retryAllowed (failure e r) = Some r" "error (failure e r) = Some e"
  by (simp_all add: failure_def resultOf_def)

text \<open>
  C9. For achievement \<^verbatim>\<open>1101\<close> and a clock after the cutoff, the secret validator returns a
  result exactly when the secret answers load, and that result has \<open>passed = false\<close> and
  \<open>retryAllowed = false\<close>, whatever the submitted secret and whatever the configured
  answers are. When the loader throws, the exception leaves the validator and there is no
  result.
\<close>

theorem C9_launch_secret_after_cutoff:
  assumes "achievementNumber context = ''1101''" and "now w > cutoffDate"
  shows "(secretAnswersLoad env w st \<longrightarrow>
           (\<exists>r. fst (validateSecretSubmission sd context env w st) = Some r
                \<and> passed r = False \<and> retryAllowed r = Some False))
       \<and> (\<not> secretAnswersLoad env w st \<longrightarrow>
           fst (validateSecretSubmission sd context env w st) = None)"
  using assms
  by (cases env; cases "loadSecretAnswers (the env) w st")
     (auto simp: validateSecretSubmission_def secretAnswersLoad_def failure_fields
       split: option.splits)

lemma example_secrets_loaded:
  "loadSecretAnswers exampleEnv (exampleIo t) initialState
     = (True, initialState\<lparr>fetched := [GetDocument ''https://data/secrets.json''],
                            SECRET_ANSWERS := exampleSecrets,
                            secretAnswersCache := Some (exampleSecrets, t)\<rparr>)"
  by (simp add: loadSecretAnswers_def exampleEnv_def exampleIo_def initialState_def send_def)

lemma example_now: "now (exampleIo t) = t"
  by (simp add: exampleIo_def)

text \<open>
  The right secret, one millisecond after the cutoff, is refused for good; at the cutoff
  itself it still passes.
\<close>

theorem C9_launch_secret_after_cutoff_witness:
  "achievementNumber (exampleContext ''1101'' ''secret'' (noData\<lparr>secretAnswer := Some ''LAUNCH''\<rparr>)) = ''1101''
   \<and> now (exampleIo (cutoffDate + 1)) > cutoffDate
   \<and> secretAnswersLoad (Some exampleEnv) (exampleIo (cutoffDate + 1)) initialState
   \<and> fst (validateSecretSubmission (noData\<lparr>secretAnswer := Some ''LAUNCH''\<rparr>)
            (exampleContext ''1101'' ''secret'' (noData\<lparr>secretAnswer := Some ''LAUNCH''\<rparr>))
            (Some exampleEnv) (exampleIo (cutoffDate + 1)) initialState)
       = Some (failure
           ''This launch day achievement is no longer available. The promotion period has ended.''
           False)
   \<and> map_option passed (fst (validateSecretSubmission (noData\<lparr>secretAnswer := Some ''LAUNCH''\<rparr>)
            (exampleContext ''1101'' ''secret'' (noData\<lparr>secretAnswer := Some ''LAUNCH''\<rparr>))
            (Some exampleEnv) (exampleIo cutoffDate) initialState))
       = Some True"
proof -
  let ?sd = "noData\<lparr>secretAnswer := Some ''LAUNCH''\<rparr>"
  let ?c = "exampleContext ''1101'' ''secret'' ?sd"
  have a: "achievementNumber ?c = ''1101''" by (simp add: exampleContext_def)
  have n: "now (exampleIo (cutoffDate + 1)) > cutoffDate" by (simp add: example_now)
  have l: "secretAnswersLoad (Some exampleEnv) (exampleIo (cutoffDate + 1)) initialState"
    by (simp add: secretAnswersLoad_def example_secrets_loaded)
  have v: "fst (validateSecretSubmission ?sd ?c (Some exampleEnv) (exampleIo (cutoffDate + 1)) initialState)
       = Some (failure
           ''This launch day achievement is no longer available. The promotion period has ended.''
           False)"
    by (simp add: validateSecretSubmission_def example_secrets_loaded exampleSecrets_def
        exampleContext_def example_now)
  have b: "map_option passed (fst (validateSecretSubmission ?sd ?c (Some exampleEnv)
             (exampleIo cutoffDate) initialState)) = Some True"
    by (simp add: validateSecretSubmission_def example_secrets_loaded exampleSecrets_def
        exampleContext_def example_now noData_def trim_def isWhiteSpace_def resultOf_def)
  from C9_launch_secret_after_cutoff[OF a n, of "Some exampleEnv" initialState ?sd] l
  have "\<exists>r. fst (validateSecretSubmission ?sd ?c (Some exampleEnv) (exampleIo (cutoffDate + 1))
                 initialState) = Some r \<and> passed r = False \<and> retryAllowed r = Some False"
    by blast
  with a n l v b show ?thesis by blast
qed

text \<open>
  A well-formed hash for an achievement without a verifier of its own is looked up: the
  generic path sends exactly one request.
\<close>

lemma well_formed_hash_is_looked_up:
  assumes "transactionHash sd = Some h" and "txIdPattern_test h"
    and "achievementNumber context \<notin> {''0005'', ''0025'', ''0033'', ''0043''}"
  shows "fetched (snd (validateTransactionSubmission ext sd context env w st))
           = fetched st @ [EthGetTransactionByHash (rpcUrl context) h]"
  using assms
  by (auto simp: validateTransactionSubmission_def getTransactionByHash_def send_def
      split: fetch_result.splits option.splits)

text \<open>
  C6. When the submitted transaction hash does not match \<^verbatim>\<open>/^0x[a-fA-F0-9]{64}$/\<close> (an
  absent hash is tested as the text \<^verbatim>\<open>undefined\<close>), the transaction validator returns the
  format failure and leaves the state as it was: no request has been sent, and nothing of
  the outside has been read.
\<close>

theorem C6_hash_format_gate:
  assumes "\<not> txIdPattern_test (case transactionHash sd of None \<Rightarrow> ''undefined'' | Some h \<Rightarrow> h)"
  shows "validateTransactionSubmission ext sd context env w st =
           (Some (failure
              ''Invalid transaction ID format. Expected 64-character hex string starting with 0x''
              True), st)"
  using assms by (simp add: validateTransactionSubmission_def Let_def)

theorem C6_hash_format_gate_witness:
  "\<not> txIdPattern_test (case transactionHash (noData\<lparr>transactionHash := Some ''0x1234''\<rparr>) of
                          None \<Rightarrow> ''undefined'' | Some h \<Rightarrow> h)
   \<and> validateTransactionSubmission exampleExternals (noData\<lparr>transactionHash := Some ''0x1234''\<rparr>)
        (exampleContext ''0005'' ''transaction'' (noData\<lparr>transactionHash := Some ''0x1234''\<rparr>))
        (Some exampleEnv) (exampleIo 0) initialState
      = (Some (failure
           ''Invalid transaction ID format. Expected 64-character hex string starting with 0x''
           True), initialState)
   \<and> fetched initialState = []"
proof -
  have t: "\<not> txIdPattern_test (case transactionHash (noData\<lparr>transactionHash := Some ''0x1234''\<rparr>) of
                          None \<Rightarrow> ''undefined'' | Some h \<Rightarrow> h)"
    by (simp add: txIdPattern_test_def noData_def)
  from C6_hash_format_gate[OF t] show ?thesis
    using t by (simp add: initialState_def)
qed
section \<open>Retry flags\<close>

lemma terminal_failure: "terminal (failure e r)"
  by (simp add: terminal_def failure_fields)

lemma terminal_failed: "terminal ((resultOf False)\<lparr>error := e, retryAllowed := r\<rparr>)"
  by (simp add: terminal_def resultOf_def)

lemma terminal_token:
  "terminal ((resultOf True)\<lparr>retryAllowed := Some False, tokenAddress := a, tokenName := n,
                              tokenSymbol := s, resultMethod := m\<rparr>)"
  by (simp add: terminal_def)

lemma terminal_contract:
  "terminal ((resultOf True)\<lparr>retryAllowed := Some False, contractAddress := a, resultMethod := m\<rparr>)"
  by (simp add: terminal_def)

lemma terminal_transaction:
  "terminal ((resultOf True)\<lparr>transactionValid := v, blockNumber := b, retryAllowed := Some False\<rparr>)"
  by (simp add: terminal_def)

lemma terminal_flag: "terminal ((resultOf p)\<lparr>retryAllowed := Some (\<not> p)\<rparr>)"
  by (simp add: terminal_def resultOf_def)

lemmas terminal_simps =
  terminal_failure terminal_failed terminal_token terminal_contract terminal_transaction
  terminal_flag

lemma fetchReceipt_terminal: "fetchReceipt w url txId st = (Returns r, st1) \<Longrightarrow> terminal r"
  by (auto simp: fetchReceipt_def terminal_simps split: prod.splits fetch_result.splits
      option.splits if_splits)

lemma verifyFactoryTokenCreation_terminal:
  "verifyFactoryTokenCreation txId chain creator context env w st = (r, st') \<Longrightarrow> terminal r"
  by (auto simp: verifyFactoryTokenCreation_def terminal_simps
      dest: fetchReceipt_terminal
      split: option.splits prod.splits turn.splits if_splits)

lemma verifyManualTokenDeployment_terminal:
  "verifyManualTokenDeployment txId chain claimant context w st = (r, st') \<Longrightarrow> terminal r"
  by (auto simp: verifyManualTokenDeployment_def terminal_simps
      dest: fetchReceipt_terminal
      split: option.splits prod.splits turn.splits if_splits)

lemma verifyStakingContract_terminal:
  "verifyStakingContract txId chain claimant context w st = (r, st') \<Longrightarrow> terminal r"
  by (auto simp: verifyStakingContract_def terminal_simps
      dest: fetchReceipt_terminal
      split: option.splits prod.splits turn.splits fetch_result.splits if_splits)

lemma verifyNFTCollection_terminal:
  "verifyNFTCollection txId chain claimant context w st = (r, st') \<Longrightarrow> terminal r"
  by (auto simp: verifyNFTCollection_def terminal_simps
      dest: fetchReceipt_terminal
      split: option.splits prod.splits turn.splits fetch_result.splits if_splits)

lemma verifyRandomNumberGenerator_terminal:
  "verifyRandomNumberGenerator txId chain claimant context w st = (r, st') \<Longrightarrow> terminal r"
  by (auto simp: verifyRandomNumberGenerator_def terminal_simps Let_def
      dest: fetchReceipt_terminal
      split: option.splits prod.splits turn.splits fetch_result.splits if_splits)

lemma verifyUpgradeableContract_terminal:
  "verifyUpgradeableContract ext proxy chain claimant context w st = (r, st') \<Longrightarrow> terminal r"
  by (auto simp: verifyUpgradeableContract_def terminal_simps
      split: option.splits prod.splits fetch_result.splits if_splits)

lemma validateTransactionSubmission_terminal:
  assumes "validateTransactionSubmission ext sd context env w st = (Some r, st')"
  shows "terminal r"
  using assms
  by (auto simp: validateTransactionSubmission_def Let_def terminal_simps
      split: if_splits option.splits prod.splits fetch_result.splits
      dest: verifyFactoryTokenCreation_terminal verifyManualTokenDeployment_terminal
        verifyStakingContract_terminal verifyNFTCollection_terminal
        verifyRandomNumberGenerator_terminal)

lemma validateSecretSubmission_terminal:
  assumes "validateSecretSubmission sd context env w st = (Some r, st')"
  shows "terminal r"
  using assms
  by (auto simp: validateSecretSubmission_def Let_def terminal_simps
      split: if_splits option.splits prod.splits bool.splits)

lemma validateQuizSubmission_terminal:
  assumes "validateQuizSubmission ext sd context env w st = (Some r, st')"
  shows "terminal r"
  using assms
  by (auto simp: validateQuizSubmission_def Let_def terminal_def resultOf_def failure_def
      split: if_splits option.splits prod.splits bool.splits)

lemma validateSubmission_terminal:
  assumes "validateSubmission ext context env w st = (Some r, st')"
  shows "terminal r"
  using assms
  by (auto simp: validateSubmission_def terminal_simps
      split: if_splits option.splits prod.splits
      dest: validateQuizSubmission_terminal validateTransactionSubmission_terminal
        validateSecretSubmission_terminal verifyUpgradeableContract_terminal)

lemma quiz_data_missing:
  assumes "validateQuizSubmission ext sd context env w st = (Some r, st')"
    and "QUIZ_DATA st' (achievementNumber context) = None"
  shows "r = failure ''Quiz data not found for this achievement'' False"
  using assms
  by (auto simp: validateQuizSubmission_def Let_def
      split: if_splits option.splits prod.splits bool.splits)

lemma secret_missing:
  assumes "validateSecretSubmission sd context env w st = (Some r, st')"
    and "SECRET_ANSWERS st' (achievementNumber context) = None
         \<or> SECRET_ANSWERS st' (achievementNumber context) = Some ''''"
  shows "r = failure ''Secret answer not configured for this achievement'' False"
  using assms
  by (auto simp: validateSecretSubmission_def Let_def
      split: if_splits option.splits prod.splits bool.splits)

lemma secret_expired:
  assumes "validateSecretSubmission sd context env w st = (Some r, st')"
    and "achievementNumber context = ''1101''" and "now w > cutoffDate"
  shows "passed r = False \<and> retryAllowed r = Some False"
  using assms
  by (auto simp: validateSecretSubmission_def Let_def failure_fields
      split: if_splits option.splits prod.splits bool.splits)

text \<open>
  C4. Every result that the dispatch over the validators (quiz, transaction, contract,
  secret, custom) returns has \<open>retryAllowed = false\<close> when it has \<open>passed = true\<close>. A quiz
  whose question bank is missing, a secret whose answer is not configured, the launch secret
  after its cutoff, and the kinds without a validator (custom, and contract for an
  achievement other than \<^verbatim>\<open>0046\<close>) fail with \<open>retryAllowed = false\<close>. The tables are
  those of the state that the validator leaves, which are the ones it read.
\<close>

theorem C4_retry_flags:
  assumes "validateSubmission ext context env w st = (Some r, st')"
  shows "(passed r \<longrightarrow> retryAllowed r = Some False)
    \<and> (submissionType context = ''quiz'' \<and> QUIZ_DATA st' (achievementNumber context) = None
          \<longrightarrow> passed r = False \<and> retryAllowed r = Some False)
    \<and> (submissionType context = ''secret''
          \<and> (SECRET_ANSWERS st' (achievementNumber context) = None
              \<or> SECRET_ANSWERS st' (achievementNumber context) = Some '''')
          \<longrightarrow> passed r = False \<and> retryAllowed r = Some False)
    \<and> (submissionType context = ''secret'' \<and> achievementNumber context = ''1101''
          \<and> now w > cutoffDate
          \<longrightarrow> passed r = False \<and> retryAllowed r = Some False)
    \<and> (submissionType context = ''custom''
          \<or> submissionType context = ''contract'' \<and> achievementNumber context \<noteq> ''0046''
          \<longrightarrow> passed r = False \<and> retryAllowed r = Some False)"
proof (intro conjI impI)
  from validateSubmission_terminal[OF assms]
  show "passed r \<Longrightarrow> retryAllowed r = Some False" by (simp add: terminal_def)
next
  assume h: "submissionType context = ''quiz'' \<and> QUIZ_DATA st' (achievementNumber context) = None"
  with assms have "validateQuizSubmission ext (submissionData context) context env w st = (Some r, st')"
    by (simp add: validateSubmission_def)
  from quiz_data_missing[OF this] h
  show "passed r = False" "retryAllowed r = Some False" by (simp_all add: failure_fields)
next
  assume h: "submissionType context = ''secret''
          \<and> (SECRET_ANSWERS st' (achievementNumber context) = None
              \<or> SECRET_ANSWERS st' (achievementNumber context) = Some '''')"
  with assms have "validateSecretSubmission (submissionData context) context env w st = (Some r, st')"
    by (simp add: validateSubmission_def)
  from secret_missing[OF this] h
  show "passed r = False" "retryAllowed r = Some False" by (simp_all add: failure_fields)
next
  assume h: "submissionType context = ''secret'' \<and> achievementNumber context = ''1101''
          \<and> now w > cutoffDate"
  with assms have "validateSecretSubmission (submissionData context) context env w st = (Some r, st')"
    by (simp add: validateSubmission_def)
  from secret_expired[OF this] h
  show "passed r = False" "retryAllowed r = Some False" by simp_all
next
  assume h: "submissionType context = ''custom''
          \<or> submissionType context = ''contract'' \<and> achievementNumber context \<noteq> ''0046''"
  with assms show "passed r = False" "retryAllowed r = Some False"
    by (auto simp: validateSubmission_def failure_fields split: if_splits)
qed

lemma example_quiz_loaded:
  "loadQuizData exampleEnv (exampleIo t) initialState
     = (True, initialState\<lparr>fetched := [GetDocument ''https://data/quiz.json''],
                            QUIZ_DATA := exampleQuiz,
                            quizDataCache := Some (exampleQuiz, t)\<rparr>)"
  by (simp add: loadQuizData_def exampleEnv_def exampleIo_def initialState_def send_def)

text \<open>
  The secret of \<^verbatim>\<open>1001\<close>, with white space around it, passes and cannot be retried; a
  quiz for \<^verbatim>\<open>0001\<close>, which the example bank does not have, fails and cannot be retried.
\<close>

theorem C4_retry_flags_witness:
  "validateSubmission exampleExternals
      (exampleContext ''1001'' ''secret'' (noData\<lparr>secretAnswer := Some '' FIRSTSECRET ''\<rparr>))
      (Some exampleEnv) (exampleIo 0) initialState
    = (Some ((resultOf True)\<lparr>retryAllowed := Some False\<rparr>),
       initialState\<lparr>fetched := [GetDocument ''https://data/secrets.json''],
                     SECRET_ANSWERS := exampleSecrets,
                     secretAnswersCache := Some (exampleSecrets, 0)\<rparr>)
   \<and> passed ((resultOf True)\<lparr>retryAllowed := Some False\<rparr>)
   \<and> retryAllowed ((resultOf True)\<lparr>retryAllowed := Some False\<rparr>) = Some False
   \<and> validateSubmission exampleExternals (exampleContext ''0001'' ''quiz'' noData)
      (Some exampleEnv) (exampleIo 0) initialState
    = (Some (failure ''Quiz data not found for this achievement'' False),
       initialState\<lparr>fetched := [GetDocument ''https://data/quiz.json''],
                     QUIZ_DATA := exampleQuiz,
                     quizDataCache := Some (exampleQuiz, 0)\<rparr>)
   \<and> retryAllowed (failure ''Quiz data not found for this achievement'' False) = Some False"
proof -
  have s: "validateSubmission exampleExternals
      (exampleContext ''1001'' ''secret'' (noData\<lparr>secretAnswer := Some '' FIRSTSECRET ''\<rparr>))
      (Some exampleEnv) (exampleIo 0) initialState
    = (Some ((resultOf True)\<lparr>retryAllowed := Some False\<rparr>),
       initialState\<lparr>fetched := [GetDocument ''https://data/secrets.json''],
                     SECRET_ANSWERS := exampleSecrets,
                     secretAnswersCache := Some (exampleSecrets, 0)\<rparr>)"
    by (simp add: validateSubmission_def validateSecretSubmission_def example_secrets_loaded
        exampleSecrets_def exampleContext_def example_now noData_def trim_def isWhiteSpace_def)
  have q: "validateSubmission exampleExternals (exampleContext ''0001'' ''quiz'' noData)
      (Some exampleEnv) (exampleIo 0) initialState
    = (Some (failure ''Quiz data not found for this achievement'' False),
       initialState\<lparr>fetched := [GetDocument ''https://data/quiz.json''],
                     QUIZ_DATA := exampleQuiz,
                     quizDataCache := Some (exampleQuiz, 0)\<rparr>)"
    by (simp add: validateSubmission_def validateQuizSubmission_def example_quiz_loaded
        exampleQuiz_def exampleContext_def)
  have p: "passed ((resultOf True)\<lparr>retryAllowed := Some False\<rparr>)"
    by (simp add: resultOf_def)
  from C4_retry_flags[OF s] p
  have "retryAllowed ((resultOf True)\<lparr>retryAllowed := Some False\<rparr>) = Some False" by blast
  moreover from C4_retry_flags[OF q]
  have "retryAllowed (failure ''Quiz data not found for this achievement'' False) = Some False"
    by (simp add: exampleContext_def exampleQuiz_def)
  ultimately show ?thesis using s q p by blast
qed
section \<open>Quiz scores\<close>

lemma gradeQuestion_total:
  "snd (gradeQuestion ext submitted q (c, t))
     = (case awardedPoints ext submitted q of None \<Rightarrow> t | Some p \<Rightarrow> numAdd t p)"
  by (auto simp: gradeQuestion_def awardedPoints_def Let_def split: option.splits CorrectAnswer.splits)

lemma gradeQuestions_total:
  "snd (gradeQuestions ext submitted qs (c, t))
     = foldl numAdd t (List.map_filter (awardedPoints ext submitted) qs)"
proof (induction qs arbitrary: c t)
  case Nil
  then show ?case by (simp add: List.map_filter_simps)
next
  case (Cons q qs)
  obtain c' t' where g: "gradeQuestion ext submitted q (c, t) = (c', t')"
    by (cases "gradeQuestion ext submitted q (c, t)")
  with gradeQuestion_total[of ext submitted q c t]
  have "t' = (case awardedPoints ext submitted q of None \<Rightarrow> t | Some p \<Rightarrow> numAdd t p)"
    by simp
  with Cons[of c' t'] g show ?case
    by (simp add: List.map_filter_simps split: option.splits)
qed

lemma foldl_points:
  "foldl (\<lambda>sum q. numAdd sum (question_points q)) a qs = foldl numAdd a (map question_points qs)"
  by (induction qs arbitrary: a) simp_all

lemma sumPoints_maxPoints: "sumPoints qs = maxPoints qs"
  by (simp add: sumPoints_def maxPoints_def numSum_def foldl_points)

lemma quiz_result:
  assumes "quizDataLoad env w st = (True, st1)"
    and "QUIZ_DATA st1 (achievementNumber context) = Some quizData"
    and "answers sd = Some submitted"
  shows "\<exists>r. validateQuizSubmission ext sd context env w st = (Some r, st1)
      \<and> score r = Some (totalAwarded ext submitted (quiz_questions quizData))
      \<and> maxScore r = Some (maxPoints (quiz_questions quizData))
      \<and> passingScore r = Some (quiz_passingScore quizData)
      \<and> passed r = numGe (percentage (totalAwarded ext submitted (quiz_questions quizData))
                            (maxPoints (quiz_questions quizData)))
                    (quiz_passingScore quizData)"
proof -
  let ?qs = "quiz_questions quizData"
  obtain c t where g: "gradeQuestions ext submitted ?qs (0, Finite 0) = (c, t)"
    by (cases "gradeQuestions ext submitted ?qs (0, Finite 0)")
  with gradeQuestions_total[of ext submitted ?qs 0 "Finite 0"]
  have t: "t = totalAwarded ext submitted ?qs"
    by (simp add: totalAwarded_def numSum_def)
  have e: "?qs = [] \<Longrightarrow> totalAwarded ext submitted ?qs = Finite 0"
    by (simp add: totalAwarded_def numSum_def List.map_filter_simps)
  show ?thesis
    using assms g t e
    by (auto simp: validateQuizSubmission_def quizDataLoad_def Let_def sumPoints_maxPoints resultOf_def
        percentage_def)
qed

text \<open>
  C2. When the quiz data load and hold a bank for the achievement, the quiz validator
  returns a result whose score is the sum of the points awarded for the answered questions,
  whose maximum is the sum of the configured points, and which has passed exactly when the
  percentage \<^verbatim>\<open>score / maxScore * 100\<close> is at least the configured passing percentage. The
  sums, the quotient, the product and the comparison are those of the language on doubles;
  for a maximum that is not positive the code takes the percentage as 0.
\<close>

theorem C2_quiz_pass_threshold:
  assumes "quizDataLoad env w st = (True, st1)"
    and "QUIZ_DATA st1 (achievementNumber context) = Some quizData"
    and "answers sd = Some submitted"
  shows "\<exists>r. validateQuizSubmission ext sd context env w st = (Some r, st1)
      \<and> score r = Some (totalAwarded ext submitted (quiz_questions quizData))
      \<and> maxScore r = Some (maxPoints (quiz_questions quizData))
      \<and> passingScore r = Some (quiz_passingScore quizData)
      \<and> passed r = numGe (percentage (totalAwarded ext submitted (quiz_questions quizData))
                            (maxPoints (quiz_questions quizData)))
                    (quiz_passingScore quizData)"
  using quiz_result[OF assms] .

lemma roundToDouble_3_2: "roundToDouble (3 / 2) = Finite (3 / 2)"
proof (rule roundToDouble_pos)
  show "(0::rat) < 3 / 2" by simp
  show "exponentOf (3 / 2) = 0"
    by (simp add: exponentOf_def floor_rat_numeral ceiling_rat_numeral bitLength_numeral)
  show "roundHalfEven (3 / 2 / pow2 (max (0 - 52) (- 1074))) = 6755399441055744"
    by (simp add: pow2_def roundHalfEven_def floor_rat_numeral Let_def)
  show "of_int 6755399441055744 * pow2 (max (0 - 52) (- 1074)) = 3 / 2"
    by (simp add: pow2_def)
  show "(3 / 2 :: rat) < 2 ^ 1024" by simp
qed

lemma example_pairs_scores:
  "gradeConceptMatching exampleExternals onePairText twoPairs (Finite 10) = Finite 5"
  "gradeConceptMatching exampleExternals bothPairsText twoPairs (Finite 10) = Finite 10"
  "gradeConceptMatching exampleExternals threePairsText twoPairs (Finite 10) = Finite 15"
proof -
  have cps: "data_pairs (answer_data twoPairs) = Some [(''c1'', ''d1''), (''c2'', ''d2'')]"
    by (simp add: twoPairs_def)
  show "gradeConceptMatching exampleExternals onePairText twoPairs (Finite 10) = Finite 5"
    by (simp add: gradeConceptMatching_parsed[OF example_parses(3) envelope_field cps]
        envelope_props credit_def example_pair_correct double_eval
        roundToDouble_3_2)
  show "gradeConceptMatching exampleExternals bothPairsText twoPairs (Finite 10) = Finite 10"
    by (simp add: gradeConceptMatching_parsed[OF example_parses(4) envelope_field cps]
        envelope_props credit_def example_pair_correct double_eval
        roundToDouble_3_2)
  show "gradeConceptMatching exampleExternals threePairsText twoPairs (Finite 10) = Finite 15"
    by (simp add: gradeConceptMatching_parsed[OF example_parses(5) envelope_field cps]
        envelope_props credit_def example_pair_correct double_eval
        roundToDouble_3_2)
qed

lemma example_texts_interactive:
  "isInteractiveAnswer onePairText" "isInteractiveAnswer bothPairsText"
  "isInteractiveAnswer threePairsText"
  by (simp_all add: isInteractiveAnswer_def trim_def isWhiteSpace_def startsWith_def endsWith_def
      onePairText_def bothPairsText_def threePairsText_def)

lemma example_bank:
  "exampleQuiz ''0002'' = Some \<lparr>quiz_questions = exampleQuestions, quiz_passingScore = Finite 80\<rparr>"
  by (simp add: exampleQuiz_def exampleQuestions_def)

lemma example_awarded:
  "totalAwarded exampleExternals (\<lambda>k. if k = ''q1'' then Some onePairText else None) exampleQuestions = Finite 5"
  "totalAwarded exampleExternals (\<lambda>k. if k = ''q1'' then Some bothPairsText else None) exampleQuestions = Finite 10"
  "totalAwarded exampleExternals (\<lambda>k. if k = ''q1'' then Some threePairsText else None) exampleQuestions = Finite 15"
  "maxPoints exampleQuestions = Finite 10"
proof -
  have ne: "onePairText \<noteq> []" "bothPairsText \<noteq> []" "threePairsText \<noteq> []"
    by (simp_all add: onePairText_def bothPairsText_def threePairsText_def)
  have ty: "answer_type twoPairs = concept_matching" by (simp add: twoPairs_def)
  show "totalAwarded exampleExternals (\<lambda>k. if k = ''q1'' then Some onePairText else None) exampleQuestions = Finite 5"
    by (simp add: totalAwarded_def numSum_def List.map_filter_simps awardedPoints_def
        exampleQuestions_def ne example_texts_interactive gradeInteractive_def ty
        example_pairs_scores double_eval)
  show "totalAwarded exampleExternals (\<lambda>k. if k = ''q1'' then Some bothPairsText else None) exampleQuestions = Finite 10"
    by (simp add: totalAwarded_def numSum_def List.map_filter_simps awardedPoints_def
        exampleQuestions_def ne example_texts_interactive gradeInteractive_def ty
        example_pairs_scores double_eval)
  show "totalAwarded exampleExternals (\<lambda>k. if k = ''q1'' then Some threePairsText else None) exampleQuestions = Finite 15"
    by (simp add: totalAwarded_def numSum_def List.map_filter_simps awardedPoints_def
        exampleQuestions_def ne example_texts_interactive gradeInteractive_def ty
        example_pairs_scores double_eval)
  show "maxPoints exampleQuestions = Finite 10"
    by (simp add: maxPoints_def numSum_def exampleQuestions_def double_eval)
qed

text \<open>
  Seven of ten positions of a question worth 6 points: \<^verbatim>\<open>7 / 10\<close>, the product with 6,
  the quotient by 6 and the product with 100, each rounded to a double.
\<close>

lemma round_seven_tenths:
  "roundToDouble (7 / 10)
     = Finite (3152519739159347 / 4503599627370496)"
proof (rule roundToDouble_pos)
  show "(0::rat) < 7 / 10" by simp
  show "exponentOf (7 / 10) = - 1"
    by (simp add: exponentOf_def floor_rat_numeral ceiling_rat_numeral bitLength_numeral)
  show "roundHalfEven (7 / 10 / pow2 (max (- 1 - 52) (- 1074)))
          = 6305039478318694"
    by (simp add: pow2_def roundHalfEven_def floor_rat_numeral Let_def)
  show "of_int 6305039478318694 * pow2 (max (- 1 - 52) (- 1074))
          = 3152519739159347 / 4503599627370496"
    by (simp add: pow2_def)
  show "(3152519739159347 / 4503599627370496 :: rat) < 2 ^ 1024" by simp
qed

lemma round_seven_tenths_of_six:
  "roundToDouble (9457559217478041 / 2251799813685248)
     = Finite (1182194902184755 / 281474976710656)"
proof (rule roundToDouble_pos)
  show "(0::rat) < 9457559217478041 / 2251799813685248" by simp
  show "exponentOf (9457559217478041 / 2251799813685248) = 2"
    by (simp add: exponentOf_def floor_rat_numeral ceiling_rat_numeral bitLength_numeral)
  show "roundHalfEven (9457559217478041 / 2251799813685248 / pow2 (max (2 - 52) (- 1074)))
          = 4728779608739020"
    by (simp add: pow2_def roundHalfEven_def floor_rat_numeral Let_def)
  show "of_int 4728779608739020 * pow2 (max (2 - 52) (- 1074))
          = 1182194902184755 / 281474976710656"
    by (simp add: pow2_def)
  show "(1182194902184755 / 281474976710656 :: rat) < 2 ^ 1024" by simp
qed

lemma round_score_kept:
  "roundToDouble (1182194902184755 / 281474976710656)
     = Finite (1182194902184755 / 281474976710656)"
proof (rule roundToDouble_pos)
  show "(0::rat) < 1182194902184755 / 281474976710656" by simp
  show "exponentOf (1182194902184755 / 281474976710656) = 2"
    by (simp add: exponentOf_def floor_rat_numeral ceiling_rat_numeral bitLength_numeral)
  show "roundHalfEven (1182194902184755 / 281474976710656 / pow2 (max (2 - 52) (- 1074)))
          = 4728779608739020"
    by (simp add: pow2_def roundHalfEven_def floor_rat_numeral Let_def)
  show "of_int 4728779608739020 * pow2 (max (2 - 52) (- 1074))
          = 1182194902184755 / 281474976710656"
    by (simp add: pow2_def)
  show "(1182194902184755 / 281474976710656 :: rat) < 2 ^ 1024" by simp
qed

lemma round_score_share:
  "roundToDouble (1182194902184755 / 1688849860263936)
     = Finite (6305039478318693 / 9007199254740992)"
proof (rule roundToDouble_pos)
  show "(0::rat) < 1182194902184755 / 1688849860263936" by simp
  show "exponentOf (1182194902184755 / 1688849860263936) = - 1"
    by (simp add: exponentOf_def floor_rat_numeral ceiling_rat_numeral bitLength_numeral)
  show "roundHalfEven (1182194902184755 / 1688849860263936 / pow2 (max (- 1 - 52) (- 1074)))
          = 6305039478318693"
    by (simp add: pow2_def roundHalfEven_def floor_rat_numeral Let_def)
  show "of_int 6305039478318693 * pow2 (max (- 1 - 52) (- 1074))
          = 6305039478318693 / 9007199254740992"
    by (simp add: pow2_def)
  show "(6305039478318693 / 9007199254740992 :: rat) < 2 ^ 1024" by simp
qed

lemma round_score_percentage:
  "roundToDouble (157625986957967325 / 2251799813685248)
     = Finite (4925812092436479 / 70368744177664)"
proof (rule roundToDouble_pos)
  show "(0::rat) < 157625986957967325 / 2251799813685248" by simp
  show "exponentOf (157625986957967325 / 2251799813685248) = 6"
    by (simp add: exponentOf_def floor_rat_numeral ceiling_rat_numeral bitLength_numeral)
  show "roundHalfEven (157625986957967325 / 2251799813685248 / pow2 (max (6 - 52) (- 1074)))
          = 4925812092436479"
    by (simp add: pow2_def roundHalfEven_def floor_rat_numeral Let_def)
  show "of_int 4925812092436479 * pow2 (max (6 - 52) (- 1074))
          = 4925812092436479 / 70368744177664"
    by (simp add: pow2_def)
  show "(4925812092436479 / 70368744177664 :: rat) < 2 ^ 1024" by simp
qed

lemma example_seven_parsed:
  "JSON_parse exampleExternals sevenOfTenText
     = Some (envelope ''timeline-builder'' ''sequence'' (JArr sevenOfTen))"
  by (simp add: exampleExternals_def exampleParse_def exampleAnswers_def example_texts
      sevenOfTenText_def)

lemma example_seven_score:
  "gradeTimelineBuilder exampleExternals sevenOfTenText timelineTen (Finite 6)
     = Finite (1182194902184755 / 281474976710656)"
proof -
  have cs: "data_sequence (answer_data timelineTen)
      = Some [''a'', ''b'', ''c'', ''d'', ''e'', ''f'', ''g'', ''h'', ''i'', ''j'']"
    by (simp add: timelineTen_def)
  have m: "matchingPositions sevenOfTen [''a'', ''b'', ''c'', ''d'', ''e'', ''f'', ''g'', ''h'', ''i'', ''j''] = 7"
    by (simp add: matchingPositions_def sevenOfTen_def upt_rec)
  show ?thesis
    by (simp add: gradeTimelineBuilder_parsed[OF example_seven_parsed envelope_field cs]
        envelope_props credit_def m double_eval round_seven_tenths round_seven_tenths_of_six)
qed

lemma example_seven_interactive: "isInteractiveAnswer sevenOfTenText" "sevenOfTenText \<noteq> []"
  by (simp_all add: isInteractiveAnswer_def trim_def isWhiteSpace_def startsWith_def endsWith_def
      sevenOfTenText_def)

lemma example_timeline_bank:
  "exampleQuiz ''0003'' = Some \<lparr>quiz_questions = timelineQuestions, quiz_passingScore = Finite 70\<rparr>"
  by (simp add: exampleQuiz_def timelineQuestions_def)

lemma example_seven_awarded:
  "totalAwarded exampleExternals (\<lambda>k. if k = ''q1'' then Some sevenOfTenText else None) timelineQuestions
     = Finite (1182194902184755 / 281474976710656)"
  "maxPoints timelineQuestions = Finite 6"
proof -
  have ty: "answer_type timelineTen = timeline_builder" by (simp add: timelineTen_def)
  show "totalAwarded exampleExternals (\<lambda>k. if k = ''q1'' then Some sevenOfTenText else None)
          timelineQuestions = Finite (1182194902184755 / 281474976710656)"
    by (simp add: totalAwarded_def numSum_def List.map_filter_simps awardedPoints_def
        timelineQuestions_def example_seven_interactive gradeInteractive_def ty
        example_seven_score round_score_kept)
  show "maxPoints timelineQuestions = Finite 6"
    by (simp add: maxPoints_def numSum_def timelineQuestions_def double_eval)
qed

lemma example_seven_percentage:
  "percentage (Finite (1182194902184755 / 281474976710656)) (Finite 6)
     = Finite (4925812092436479 / 70368744177664)"
  by (simp add: percentage_def numGt_def round_score_share round_score_percentage)

text \<open>
  One of two pairs gives 50 percent and fails; both pairs give 100 percent and pass. Seven
  of ten positions of the question worth 6 points give the score 4.199999999999999 and
  the percentage 69.99999999999999, which is below the 70 to pass.
\<close>

theorem C2_quiz_pass_threshold_witness:
  "quizDataLoad (Some exampleEnv) (exampleIo 0) initialState
     = (True, initialState\<lparr>fetched := [GetDocument ''https://data/quiz.json''],
                            QUIZ_DATA := exampleQuiz,
                            quizDataCache := Some (exampleQuiz, 0)\<rparr>)
   \<and> (\<exists>r st1. validateQuizSubmission exampleExternals
          (noData\<lparr>answers := Some (\<lambda>k. if k = ''q1'' then Some onePairText else None)\<rparr>)
          (exampleContext ''0002'' ''quiz'' noData) (Some exampleEnv) (exampleIo 0) initialState
        = (Some r, st1)
        \<and> score r = Some (Finite 5) \<and> maxScore r = Some (Finite 10)
        \<and> passingScore r = Some (Finite 80) \<and> passed r = False)
   \<and> (\<exists>r st1. validateQuizSubmission exampleExternals
          (noData\<lparr>answers := Some (\<lambda>k. if k = ''q1'' then Some bothPairsText else None)\<rparr>)
          (exampleContext ''0002'' ''quiz'' noData) (Some exampleEnv) (exampleIo 0) initialState
        = (Some r, st1)
        \<and> score r = Some (Finite 10) \<and> maxScore r = Some (Finite 10)
        \<and> passingScore r = Some (Finite 80) \<and> passed r = True)
   \<and> (\<exists>r st1. validateQuizSubmission exampleExternals
          (noData\<lparr>answers := Some (\<lambda>k. if k = ''q1'' then Some sevenOfTenText else None)\<rparr>)
          (exampleContext ''0003'' ''quiz'' noData) (Some exampleEnv) (exampleIo 0) initialState
        = (Some r, st1)
        \<and> score r = Some (Finite (1182194902184755 / 281474976710656))
        \<and> maxScore r = Some (Finite 6) \<and> passingScore r = Some (Finite 70) \<and> passed r = False)"
proof -
  let ?st1 = "initialState\<lparr>fetched := [GetDocument ''https://data/quiz.json''],
                            QUIZ_DATA := exampleQuiz,
                            quizDataCache := Some (exampleQuiz, 0)\<rparr>"
  have l: "quizDataLoad (Some exampleEnv) (exampleIo 0) initialState = (True, ?st1)"
    by (simp add: quizDataLoad_def example_quiz_loaded)
  have b: "QUIZ_DATA ?st1 (achievementNumber (exampleContext ''0002'' ''quiz'' noData))
             = Some \<lparr>quiz_questions = exampleQuestions, quiz_passingScore = Finite 80\<rparr>"
    by (simp add: exampleContext_def example_bank)
  have a1: "answers (noData\<lparr>answers := Some (\<lambda>k. if k = ''q1'' then Some onePairText else None)\<rparr>)
              = Some (\<lambda>k. if k = ''q1'' then Some onePairText else None)" by simp
  have a2: "answers (noData\<lparr>answers := Some (\<lambda>k. if k = ''q1'' then Some bothPairsText else None)\<rparr>)
              = Some (\<lambda>k. if k = ''q1'' then Some bothPairsText else None)" by simp
  from C2_quiz_pass_threshold[OF l b a1, of exampleExternals]
  have r1: "\<exists>r st1. validateQuizSubmission exampleExternals
          (noData\<lparr>answers := Some (\<lambda>k. if k = ''q1'' then Some onePairText else None)\<rparr>)
          (exampleContext ''0002'' ''quiz'' noData) (Some exampleEnv) (exampleIo 0) initialState
        = (Some r, st1)
        \<and> score r = Some (Finite 5) \<and> maxScore r = Some (Finite 10)
        \<and> passingScore r = Some (Finite 80) \<and> passed r = False"
    by (auto simp: example_awarded percentage_def numGt_def numGe_def numLe_def double_eval)
  from C2_quiz_pass_threshold[OF l b a2, of exampleExternals]
  have r2: "\<exists>r st1. validateQuizSubmission exampleExternals
          (noData\<lparr>answers := Some (\<lambda>k. if k = ''q1'' then Some bothPairsText else None)\<rparr>)
          (exampleContext ''0002'' ''quiz'' noData) (Some exampleEnv) (exampleIo 0) initialState
        = (Some r, st1)
        \<and> score r = Some (Finite 10) \<and> maxScore r = Some (Finite 10)
        \<and> passingScore r = Some (Finite 80) \<and> passed r = True"
    by (auto simp: example_awarded percentage_def numGt_def numGe_def numLe_def double_eval)
  have b3: "QUIZ_DATA ?st1 (achievementNumber (exampleContext ''0003'' ''quiz'' noData))
             = Some \<lparr>quiz_questions = timelineQuestions, quiz_passingScore = Finite 70\<rparr>"
    by (simp add: exampleContext_def example_timeline_bank)
  have a3: "answers (noData\<lparr>answers := Some (\<lambda>k. if k = ''q1'' then Some sevenOfTenText else None)\<rparr>)
              = Some (\<lambda>k. if k = ''q1'' then Some sevenOfTenText else None)" by simp
  from C2_quiz_pass_threshold[OF l b3 a3, of exampleExternals]
  have r3: "\<exists>r st1. validateQuizSubmission exampleExternals
          (noData\<lparr>answers := Some (\<lambda>k. if k = ''q1'' then Some sevenOfTenText else None)\<rparr>)
          (exampleContext ''0003'' ''quiz'' noData) (Some exampleEnv) (exampleIo 0) initialState
        = (Some r, st1)
        \<and> score r = Some (Finite (1182194902184755 / 281474976710656))
        \<and> maxScore r = Some (Finite 6) \<and> passingScore r = Some (Finite 70) \<and> passed r = False"
    by (auto simp: example_seven_awarded example_seven_percentage numGe_def numLe_def)
  from l r1 r2 r3 show ?thesis by blast
qed

text \<open>
  C3 fails on the code. The concept-matching grader counts every submitted pair that is
  among the expected ones, also when the same pair is submitted again, and the true/false
  grader does the same with classifications. Here the bank has one question with two
  expected pairs, worth 10 points, and the answer repeats one correct pair three times:
  the grader awards 15 points, the result reports the score 15 against the maximum 10, no
  correct answer and the accuracy 0, and the quiz is passed.
\<close>

theorem C3_repeated_pair_exceeds_maxScore:
  "map_option score (fst (validateQuizSubmission exampleExternals
          (noData\<lparr>answers := Some (\<lambda>k. if k = ''q1'' then Some threePairsText else None)\<rparr>)
          (exampleContext ''0002'' ''quiz'' noData) (Some exampleEnv) (exampleIo 0) initialState))
     = Some (Some (Finite 15))
   \<and> map_option maxScore (fst (validateQuizSubmission exampleExternals
          (noData\<lparr>answers := Some (\<lambda>k. if k = ''q1'' then Some threePairsText else None)\<rparr>)
          (exampleContext ''0002'' ''quiz'' noData) (Some exampleEnv) (exampleIo 0) initialState))
     = Some (Some (Finite 10))
   \<and> map_option correctAnswers (fst (validateQuizSubmission exampleExternals
          (noData\<lparr>answers := Some (\<lambda>k. if k = ''q1'' then Some threePairsText else None)\<rparr>)
          (exampleContext ''0002'' ''quiz'' noData) (Some exampleEnv) (exampleIo 0) initialState))
     = Some (Some 0)
   \<and> map_option passed (fst (validateQuizSubmission exampleExternals
          (noData\<lparr>answers := Some (\<lambda>k. if k = ''q1'' then Some threePairsText else None)\<rparr>)
          (exampleContext ''0002'' ''quiz'' noData) (Some exampleEnv) (exampleIo 0) initialState))
     = Some True"
proof -
  have ne: "threePairsText \<noteq> []" by (simp add: threePairsText_def)
  have ty: "answer_type twoPairs = concept_matching" by (simp add: twoPairs_def)
  have g: "gradeQuestions exampleExternals (\<lambda>k. if k = ''q1'' then Some threePairsText else None)
             exampleQuestions (0, Finite 0) = (0, Finite 15)"
    by (simp add: exampleQuestions_def gradeQuestion_def ne example_texts_interactive
        gradeInteractive_def ty example_pairs_scores double_eval)
  have q: "exampleQuestions \<noteq> []" "length exampleQuestions = 1" "sumPoints exampleQuestions = Finite 10"
    by (simp_all add: exampleQuestions_def sumPoints_def double_eval)
  show ?thesis
    by (simp add: validateQuizSubmission_def example_quiz_loaded example_bank exampleContext_def
        g q resultOf_def numGt_def numGe_def numLe_def double_eval roundToDouble_3_2)
qed
section \<open>The submit endpoint\<close>

lemma catalog_codes_positive:
  "\<forall>a \<in> set (map fst ACHIEVEMENT_TYPES).
     (case achievementNumberToTaskCode a of None \<Rightarrow> False | Some n \<Rightarrow> 0 < n)"
  by (simp add: ACHIEVEMENT_TYPES_def achievementNumberToTaskCode_def parseInt_def isWhiteSpace_def
      isRadixDigit_def digitValue_def digitsValue_def Let_def)

lemma catalog_kinds:
  "\<forall>k \<in> set (map snd ACHIEVEMENT_TYPES). k \<in> set submissionTypes"
  by (simp add: ACHIEVEMENT_TYPES_def submissionTypes_def)

lemma tables_send: "tables (send r st) = tables st"
  by (simp add: tables_def send_def)

lemma tables_calls:
  "getTransactionByHash w url txId st = (tr, st1) \<Longrightarrow> tables st1 = tables st"
  "getTransactionReceipt w url txId st = (rr, st1) \<Longrightarrow> tables st1 = tables st"
  "ethCall w url to calldata st = (cr, st1) \<Longrightarrow> tables st1 = tables st"
  "getStorageAt w url address slot st = (cr, st1) \<Longrightarrow> tables st1 = tables st"
  by (auto simp: getTransactionByHash_def getTransactionReceipt_def ethCall_def getStorageAt_def
      tables_send)

lemma tables_loaders:
  "loadQuizData env w st = (b, st1) \<Longrightarrow> tables st1 = tables st"
  "loadSecretAnswers env w st = (b, st1) \<Longrightarrow> tables st1 = tables st"
  by (auto simp: loadQuizData_def loadSecretAnswers_def tables_def send_def
      split: option.splits fetch_result.splits prod.splits if_splits)

lemma tables_erc20Loop:
  "erc20Loop w url address fs res0 st = (t, st1) \<Longrightarrow> tables st1 = tables st"
proof (induction fs arbitrary: res0 st)
  case Nil
  then show ?case by simp
next
  case (Cons f fs)
  obtain cr st2 where c: "ethCall w url address (snd f) st = (cr, st2)"
    by (cases "ethCall w url address (snd f) st")
  from tables_calls(3)[OF c] have t2: "tables st2 = tables st" .
  show ?case
    using Cons.prems c t2 Cons.IH
    by (auto split: fetch_result.splits option.splits if_splits)
qed

lemma tables_verifyERC20Token:
  "verifyERC20Token w address url creator st = (v, st1) \<Longrightarrow> tables st1 = tables st"
  by (auto simp: verifyERC20Token_def split: prod.splits turn.splits if_splits
      dest: tables_erc20Loop)

lemma tables_verifyClaimantField:
  "verifyClaimantField w address url claimant st = (v, st1) \<Longrightarrow> tables st1 = tables st"
  by (auto simp: verifyClaimantField_def Let_def
      split: prod.splits fetch_result.splits option.splits if_splits
      dest: tables_calls(3))

lemma tables_fetchReceipt:
  "fetchReceipt w url txId st = (t, st1) \<Longrightarrow> tables st1 = tables st"
  by (auto simp: fetchReceipt_def split: prod.splits fetch_result.splits option.splits if_splits
      dest: tables_calls(2))

lemmas tables_steps =
  tables_calls tables_loaders tables_erc20Loop tables_verifyERC20Token tables_verifyClaimantField
  tables_fetchReceipt

lemma tables_verifyFactoryTokenCreation:
  "verifyFactoryTokenCreation txId chain creator context env w st = (r, st1) \<Longrightarrow> tables st1 = tables st"
  by (auto simp: verifyFactoryTokenCreation_def
      split: option.splits prod.splits turn.splits if_splits
      dest!: tables_fetchReceipt tables_verifyERC20Token)

lemma tables_verifyManualTokenDeployment:
  "verifyManualTokenDeployment txId chain claimant context w st = (r, st1) \<Longrightarrow> tables st1 = tables st"
  by (auto simp: verifyManualTokenDeployment_def
      split: option.splits prod.splits turn.splits if_splits
      dest!: tables_fetchReceipt tables_verifyERC20Token tables_verifyClaimantField)

lemma tables_verifyStakingContract:
  "verifyStakingContract txId chain claimant context w st = (r, st1) \<Longrightarrow> tables st1 = tables st"
  by (auto simp: verifyStakingContract_def
      split: option.splits prod.splits turn.splits fetch_result.splits if_splits
      dest!: tables_fetchReceipt tables_verifyClaimantField tables_calls(3))

lemma tables_verifyNFTCollection:
  "verifyNFTCollection txId chain claimant context w st = (r, st1) \<Longrightarrow> tables st1 = tables st"
  by (auto simp: verifyNFTCollection_def
      split: option.splits prod.splits turn.splits fetch_result.splits if_splits
      dest!: tables_fetchReceipt tables_verifyClaimantField tables_calls(3))

lemma tables_verifyRandomNumberGenerator:
  "verifyRandomNumberGenerator txId chain claimant context w st = (r, st1) \<Longrightarrow> tables st1 = tables st"
  by (auto simp: verifyRandomNumberGenerator_def Let_def
      split: option.splits prod.splits turn.splits fetch_result.splits if_splits
      dest!: tables_fetchReceipt tables_verifyClaimantField tables_calls(3))

lemma tables_verifyUpgradeableContract:
  "verifyUpgradeableContract ext proxy chain claimant context w st = (r, st1) \<Longrightarrow> tables st1 = tables st"
  by (auto simp: verifyUpgradeableContract_def
      split: option.splits prod.splits fetch_result.splits if_splits
      dest!: tables_verifyClaimantField tables_calls(4))

lemma tables_validateTransactionSubmission:
  "validateTransactionSubmission ext sd context env w st = (r, st1) \<Longrightarrow> tables st1 = tables st"
  by (auto simp: validateTransactionSubmission_def Let_def
      split: if_splits option.splits prod.splits fetch_result.splits
      dest!: tables_verifyFactoryTokenCreation tables_verifyManualTokenDeployment
        tables_verifyStakingContract tables_verifyNFTCollection
        tables_verifyRandomNumberGenerator tables_calls(1))

lemma tables_validateSecretSubmission:
  "validateSecretSubmission sd context env w st = (r, st1) \<Longrightarrow> tables st1 = tables st"
  by (auto simp: validateSecretSubmission_def Let_def
      split: if_splits option.splits prod.splits bool.splits
      dest!: tables_loaders(2))

lemma tables_validateQuizSubmission:
  "validateQuizSubmission ext sd context env w st = (r, st1) \<Longrightarrow> tables st1 = tables st"
  by (auto simp: validateQuizSubmission_def Let_def
      split: if_splits option.splits prod.splits bool.splits
      dest!: tables_loaders(1))

lemma tables_validateSubmission:
  "validateSubmission ext context env w st = (r, st1) \<Longrightarrow> tables st1 = tables st"
  by (auto simp: validateSubmission_def
      split: if_splits option.splits prod.splits
      dest!: tables_validateQuizSubmission tables_validateTransactionSubmission
        tables_validateSecretSubmission tables_verifyUpgradeableContract)

lemma no_completion_no_rows:
  "getTrainingCompletion W A st = None \<Longrightarrow> passedRows W A st = []"
  by (auto simp: getTrainingCompletion_def passedRows_def find_None_iff filter_empty_conv)

lemma tables_rows: "tables st1 = tables st \<Longrightarrow> training_completions st1 = training_completions st"
  by (simp add: tables_def)

lemma createWalletData_rows:
  "training_completions (createWalletData a st) = training_completions st"
  by (simp add: createWalletData_def)

lemma submitLookup_accepted:
  "submitLookup ext request st = Inr accepted \<Longrightarrow>
   getTrainingCompletion (accepted_wallet accepted) (accepted_number accepted) st = None"
  by (auto simp: submitLookup_def Let_def split: option.splits if_splits catalogValue.splits)

lemma submitValidate_rows:
  assumes "submitValidate ext env w accepted st = (resp, st')"
  shows "training_completions st' = training_completions st
       \<or> (\<exists>row. training_completions st' = training_completions st @ [row]
              \<and> wallet_address row = accepted_wallet accepted
              \<and> achievement_number row = accepted_number accepted)"
  using assms
  by (auto simp: submitValidate_def Let_def createTrainingCompletion_def createWalletData_rows
      split: option.splits if_splits prod.splits
      dest!: tables_validateSubmission tables_rows)

lemma submit_rows:
  assumes "submit ext env w request st = (resp, st')"
  shows "training_completions st' = training_completions st
       \<or> (\<exists>row. training_completions st' = training_completions st @ [row]
              \<and> getTrainingCompletion (wallet_address row) (achievement_number row) st = None)"
proof (cases "submitLookup ext request st")
  case (Inl response)
  with assms show ?thesis by (simp add: submit_def)
next
  case (Inr accepted)
  with assms have v: "submitValidate ext env w accepted st = (resp, st')" by (simp add: submit_def)
  from submitValidate_rows[OF v] submitLookup_accepted[OF Inr] show ?thesis by auto
qed

lemma passedRows_same:
  "training_completions st' = training_completions st \<Longrightarrow> passedRows W A st' = passedRows W A st"
  by (simp add: passedRows_def)

lemma submit_invariant:
  assumes "atMostOnePassed st"
  shows "atMostOnePassed (snd (submit ext env w request st))"
proof -
  obtain resp st' where s: "submit ext env w request st = (resp, st')"
    by (cases "submit ext env w request st")
  from submit_rows[OF s] show ?thesis
  proof
    assume "training_completions st' = training_completions st"
    with assms s show ?thesis by (simp add: atMostOnePassed_def passedRows_def)
  next
    assume "\<exists>row. training_completions st' = training_completions st @ [row]
              \<and> getTrainingCompletion (wallet_address row) (achievement_number row) st = None"
    then obtain row where r: "training_completions st' = training_completions st @ [row]"
      and n: "getTrainingCompletion (wallet_address row) (achievement_number row) st = None"
      by blast
    have "length (passedRows W A st') \<le> 1" for W A
    proof (cases "wallet_address row = W \<and> achievement_number row = A")
      case True
      with no_completion_no_rows[OF n] have "passedRows W A st = []" by simp
      then show ?thesis using r by (simp add: passedRows_def)
    next
      case False
      then have "passedRows W A st' = passedRows W A st" using r by (auto simp: passedRows_def)
      with assms show ?thesis by (simp add: atMostOnePassed_def)
    qed
    then show ?thesis using s by (simp add: atMostOnePassed_def)
  qed
qed

lemma submitAll_invariant:
  "atMostOnePassed st \<Longrightarrow> atMostOnePassed (submitAll ext env requests st)"
proof (induction requests arbitrary: st)
  case Nil
  then show ?case by simp
next
  case (Cons x requests)
  obtain w request where x: "x = (w, request)" by (cases x)
  from Cons.prems have "atMostOnePassed (snd (submit ext env w request st))"
    by (rule submit_invariant)
  from Cons.IH[OF this] x show ?case by simp
qed

lemma catalog_entry:
  assumes "expectedTypeOf number = Some (Configured kind)"
  shows "number \<noteq> []" "kind \<in> set submissionTypes"
    "\<exists>n. achievementNumberToTaskCode number = Some n \<and> 0 < n"
proof -
  from assms have "map_of ACHIEVEMENT_TYPES number = Some kind"
    by (simp add: expectedTypeOf_def split: option.splits if_splits)
  then have m: "(number, kind) \<in> set ACHIEVEMENT_TYPES"
    by (rule map_of_SomeD)
  then have n: "number \<in> set (map fst ACHIEVEMENT_TYPES)" and k: "kind \<in> set (map snd ACHIEVEMENT_TYPES)"
    by force+
  from n catalog_shape show "number \<noteq> []" by fastforce
  from k catalog_kinds show "kind \<in> set submissionTypes" by blast
  from n catalog_codes_positive
  show "\<exists>n. achievementNumberToTaskCode number = Some n \<and> 0 < n"
    by (fastforce split: option.splits)
qed

lemma submit_conflict:
  assumes "request_walletAddress body = Some address" "address \<noteq> []"
    "getAddress ext address = Some normalizedWallet"
    "request_achievementNumber body = Some number" "request_submissionType body = Some kind"
    "expectedTypeOf number = Some (Configured kind)" "request_submissionData body = Some sd"
    "getTrainingCompletion normalizedWallet number st = Some row"
  shows "submit ext env w (Some body) st
           = (reject 409 ''Achievement already completed successfully'', st)"
proof -
  from catalog_entry[OF assms(6)] obtain n where
    c: "number \<noteq> []" "kind \<in> set submissionTypes" "achievementNumberToTaskCode number = Some n" "0 < n"
    by blast
  show ?thesis
    using assms c by (simp add: submit_def submitLookup_def isValidEthereumAddress_def)
qed
text \<open>
  C1, as the code has it. When each request is handled to its end before the next begins,
  the completions table keeps the invariant that a wallet and an achievement have at most
  one row with \<open>passed = true\<close>: it holds after any sequence of requests from any state
  in which it holds, the empty table among them. A request that passes the checks of the
  handler and finds a passed row for its normalized wallet and achievement is answered with
  status 409 and leaves the state as it was: nothing is validated, fetched, signed or
  stored, whatever the outside would have replied.
\<close>

theorem C1_at_most_one_passed:
  assumes "atMostOnePassed st"
  shows "atMostOnePassed (submitAll ext env requests st)
    \<and> (request_walletAddress body = Some address \<and> address \<noteq> []
         \<and> getAddress ext address = Some normalizedWallet
         \<and> request_achievementNumber body = Some number
         \<and> request_submissionType body = Some kind
         \<and> expectedTypeOf number = Some (Configured kind)
         \<and> request_submissionData body = Some sd
         \<and> getTrainingCompletion normalizedWallet number st = Some row
        \<longrightarrow> submit ext env w (Some body) st
              = (reject 409 ''Achievement already completed successfully'', st))"
  using submitAll_invariant[OF assms] submit_conflict by blast

lemma example_catalog:
  "expectedTypeOf ''1001'' = Some (Configured ''secret'')"
  "expectedTypeOf ''0001'' = Some (Configured ''quiz'')"
  by (simp_all add: expectedTypeOf_def ACHIEVEMENT_TYPES_def)

lemma example_code: "achievementNumberToTaskCode ''1001'' = Some 1001"
  by (simp add: achievementNumberToTaskCode_def parseInt_def isWhiteSpace_def isRadixDigit_def
      digitValue_def digitsValue_def Let_def)

lemma example_address: "getAddress exampleExternals exampleWallet = Some exampleWallet"
  by (simp add: exampleExternals_def)

lemma example_secret_validated:
  "validateSubmission exampleExternals
      (exampleContext ''1001'' ''secret'' (noData\<lparr>secretAnswer := Some ''FIRSTSECRET''\<rparr>))
      (Some exampleEnv) (exampleIo 0) initialState
    = (Some ((resultOf True)\<lparr>retryAllowed := Some False\<rparr>),
       initialState\<lparr>fetched := [GetDocument ''https://data/secrets.json''],
                     SECRET_ANSWERS := exampleSecrets,
                     secretAnswersCache := Some (exampleSecrets, 0)\<rparr>)"
  by (simp add: validateSubmission_def validateSecretSubmission_def example_secrets_loaded
      exampleSecrets_def exampleContext_def example_now noData_def trim_def isWhiteSpace_def)

lemma example_secret_validated_again:
  "validateSubmission exampleExternals
      (exampleContext ''1001'' ''secret'' (noData\<lparr>secretAnswer := Some ''FIRSTSECRET''\<rparr>))
      (Some exampleEnv) (exampleIo 1) afterSecret
    = (Some ((resultOf True)\<lparr>retryAllowed := Some False\<rparr>), afterSecret)"
proof -
  have cached: "loadSecretAnswers exampleEnv (exampleIo 1) afterSecret = (True, afterSecret)"
    by (simp add: loadSecretAnswers_def afterSecret_def initialState_def example_now CACHE_DURATION_def)
  have known: "SECRET_ANSWERS afterSecret ''1001'' = Some ''FIRSTSECRET''"
    by (simp add: afterSecret_def exampleSecrets_def)
  show ?thesis
    by (simp add: validateSubmission_def validateSecretSubmission_def cached known
        exampleContext_def example_now noData_def trim_def isWhiteSpace_def)
qed

lemma example_context:
  "\<lparr>achievementNumber = ''1001'', walletAddress = exampleWallet,
    rpcUrl = selectRpcUrl exampleEnv ''secret'' (noData\<lparr>secretAnswer := Some ''FIRSTSECRET''\<rparr>),
    submissionType = ''secret'',
    submissionData = noData\<lparr>secretAnswer := Some ''FIRSTSECRET''\<rparr>,
    metadata = None\<rparr>
   = exampleContext ''1001'' ''secret'' (noData\<lparr>secretAnswer := Some ''FIRSTSECRET''\<rparr>)"
  by (simp add: exampleContext_def selectRpcUrl_def orElse_def exampleEnv_def)

lemma example_chain:
  "responseChainId exampleEnv ''secret'' (noData\<lparr>secretAnswer := Some ''FIRSTSECRET''\<rparr>) = Some 32769"
  by (simp add: responseChainId_def exampleEnv_def parseInt_def isWhiteSpace_def isRadixDigit_def
      digitValue_def digitsValue_def Let_def)

lemma example_lookup:
  "submitLookup exampleExternals (Some secretRequest) initialState = Inr secretAccepted"
proof -
  have none: "getTrainingCompletion exampleWallet ''1001'' initialState = None"
    by (simp add: getTrainingCompletion_def initialState_def)
  have ne: "exampleWallet \<noteq> []" by (simp add: exampleWallet_def)
  show ?thesis
    by (simp add: submitLookup_def secretRequest_def isValidEthereumAddress_def example_address
        ne submissionTypes_def example_catalog example_code none secretAccepted_def)
qed

lemma example_validate:
  "submitValidate exampleExternals exampleEnv (exampleIo 0) secretAccepted initialState
     = (secretReply, afterSecret)"
proof -
  have sign: "signTypedData (exampleIo 0) (Some 1001) exampleWallet = Some ''0xsignature''"
    by (simp add: exampleIo_def)
  have env: "CONTRACT_ADDRESS exampleEnv = ''0xRegistry''" by (simp add: exampleEnv_def)
  show ?thesis
    by (simp add: submitValidate_def secretAccepted_def Let_def example_context
        example_secret_validated example_chain sign env)
       (simp add: resultOf_def createWalletData_def createTrainingCompletion_def initialState_def
        afterSecret_def passedSecretRow_def orNull_def secretReply_def)
qed

lemma example_validate_again:
  "submitValidate exampleExternals exampleEnv (exampleIo 1) secretAccepted afterSecret
     = (secretReply, afterBoth)"
proof -
  have sign: "signTypedData (exampleIo 1) (Some 1001) exampleWallet = Some ''0xsignature''"
    by (simp add: exampleIo_def)
  have env: "CONTRACT_ADDRESS exampleEnv = ''0xRegistry''" by (simp add: exampleEnv_def)
  show ?thesis
    by (simp add: submitValidate_def secretAccepted_def Let_def example_context
        example_secret_validated_again example_chain sign env)
       (simp add: resultOf_def createWalletData_def createTrainingCompletion_def initialState_def
        afterSecret_def afterBoth_def passedSecretRow_def orNull_def secretReply_def)
qed

lemma example_first_submit:
  "submit exampleExternals exampleEnv (exampleIo 0) (Some secretRequest) initialState
     = (secretReply, afterSecret)"
  by (simp add: submit_def example_lookup example_validate)

lemma example_rows:
  "passedRows exampleWallet ''1001'' afterSecret = [passedSecretRow]"
  "getTrainingCompletion exampleWallet ''1001'' afterSecret = Some passedSecretRow"
  by (simp_all add: passedRows_def getTrainingCompletion_def afterSecret_def passedSecretRow_def)

lemma initial_invariant: "atMostOnePassed initialState"
  by (simp add: atMostOnePassed_def passedRows_def initialState_def)

text \<open>
  On a fresh worker the right secret passes and stores one passed row; the same request
  again is answered with the conflict.
\<close>

theorem C1_at_most_one_passed_witness:
  "atMostOnePassed initialState
   \<and> snd (submit exampleExternals exampleEnv (exampleIo 0) (Some secretRequest) initialState) = afterSecret
   \<and> passedRows exampleWallet ''1001'' afterSecret = [passedSecretRow]
   \<and> getTrainingCompletion exampleWallet ''1001'' afterSecret = Some passedSecretRow
   \<and> submit exampleExternals exampleEnv (exampleIo 1) (Some secretRequest) afterSecret
       = (reject 409 ''Achievement already completed successfully'', afterSecret)
   \<and> submitAll exampleExternals exampleEnv
         [(exampleIo 0, Some secretRequest), (exampleIo 1, Some secretRequest)] initialState
       = afterSecret
   \<and> atMostOnePassed afterSecret"
proof -
  have first: "snd (submit exampleExternals exampleEnv (exampleIo 0) (Some secretRequest) initialState)
                 = afterSecret"
    by (simp add: example_first_submit)
  have ne: "exampleWallet \<noteq> []" by (simp add: exampleWallet_def)
  have fields: "request_walletAddress secretRequest = Some exampleWallet"
    "request_achievementNumber secretRequest = Some ''1001''"
    "request_submissionType secretRequest = Some ''secret''"
    "request_submissionData secretRequest = Some (noData\<lparr>secretAnswer := Some ''FIRSTSECRET''\<rparr>)"
    by (simp_all add: secretRequest_def)
  have inv1: "atMostOnePassed
      (submitAll exampleExternals exampleEnv [(exampleIo 0, Some secretRequest)] initialState)"
    using C1_at_most_one_passed[OF initial_invariant] by blast
  then have inv: "atMostOnePassed afterSecret" by (simp add: first)
  from C1_at_most_one_passed[OF inv, where body = secretRequest and address = exampleWallet
      and ext = exampleExternals and normalizedWallet = exampleWallet and number = "''1001''"
      and kind = "''secret''" and row = passedSecretRow and env = exampleEnv and w = "exampleIo 1"]
    fields ne example_address example_catalog(1) example_rows(2)
  have second: "submit exampleExternals exampleEnv (exampleIo 1) (Some secretRequest) afterSecret
       = (reject 409 ''Achievement already completed successfully'', afterSecret)"
    by blast
  have all: "submitAll exampleExternals exampleEnv
         [(exampleIo 0, Some secretRequest), (exampleIo 1, Some secretRequest)] initialState
       = afterSecret"
    by (simp add: first second)
  from initial_invariant first example_rows second all inv show ?thesis by blast
qed

text \<open>
  The claim as stated fails when the handlers of two requests overlap. On a fresh worker
  the same request with the right secret arrives twice; both handlers look up the stored
  completion before either has inserted its row, both find none, both validate and sign,
  and the table ends with two passed rows for the wallet and the achievement.
\<close>

theorem C1_overlapping_requests_counterexample:
  "atMostOnePassed initialState
   \<and> submitLookup exampleExternals (Some secretRequest) initialState = Inr secretAccepted
   \<and> submitOverlapping exampleExternals exampleEnv
         (exampleIo 0, Some secretRequest) (exampleIo 1, Some secretRequest) initialState
       = afterBoth
   \<and> passedRows exampleWallet ''1001'' afterBoth = [passedSecretRow, passedSecretRow]
   \<and> \<not> atMostOnePassed afterBoth"
proof -
  have both: "submitOverlapping exampleExternals exampleEnv
         (exampleIo 0, Some secretRequest) (exampleIo 1, Some secretRequest) initialState
       = afterBoth"
    by (simp add: submitOverlapping_def example_lookup example_validate example_validate_again)
  have rows: "passedRows exampleWallet ''1001'' afterBoth = [passedSecretRow, passedSecretRow]"
    by (simp add: passedRows_def afterBoth_def afterSecret_def passedSecretRow_def)
  have "\<not> length (passedRows exampleWallet ''1001'' afterBoth) \<le> 1" by (simp add: rows)
  then have "\<not> atMostOnePassed afterBoth"
    unfolding atMostOnePassed_def by blast
  with initial_invariant example_lookup both rows show ?thesis by simp
qed
lemma submit_mismatch:
  assumes "request_achievementNumber body = Some number"
    and "request_submissionType body = Some kind"
    and "expectedTypeOf number = Some (Configured expectedType)"
    and "kind \<noteq> expectedType"
  shows "\<exists>e. (\<forall>w. submit ext env w (Some body) st = (reject 400 e, st))
             \<and> (shapeChecksPass ext body \<longrightarrow> e = mismatchMessage number expectedType)
             \<and> (\<not> shapeChecksPass ext body \<longrightarrow> shapeError ext body = Some e)"
proof -
  from catalog_entry(1)[OF assms(3)] have ne: "number \<noteq> []" .
  let ?walletOk = "case request_walletAddress body of
         None \<Rightarrow> False
       | Some address \<Rightarrow> address \<noteq> [] \<and> isValidEthereumAddress ext address"
  consider (wallet) "\<not> ?walletOk"
    | (kind) "?walletOk" "kind \<notin> set submissionTypes"
    | (data) "?walletOk" "kind \<in> set submissionTypes" "request_submissionData body = None"
    | (mismatch) "?walletOk" "kind \<in> set submissionTypes" "request_submissionData body \<noteq> None"
    by blast
  then show ?thesis
  proof cases
    case wallet
    then have "\<forall>w. submit ext env w (Some body) st = (reject 400 ''Invalid wallet address'', st)"
      by (auto simp: submit_def submitLookup_def split: option.splits)
    moreover have "\<not> shapeChecksPass ext body" using wallet by (simp add: shapeChecksPass_def)
    moreover have "shapeError ext body = Some ''Invalid wallet address''"
      using wallet by (auto simp: shapeError_def split: option.splits)
    ultimately show ?thesis by blast
  next
    case kind
    then have "\<forall>w. submit ext env w (Some body) st
        = (reject 400
             ''Invalid submission type. Must be one of: quiz, transaction, contract, custom, secret'', st)"
      using assms ne by (auto simp: submit_def submitLookup_def split: option.splits)
    moreover have "\<not> shapeChecksPass ext body" using kind assms by (simp add: shapeChecksPass_def)
    moreover have "shapeError ext body
        = Some ''Invalid submission type. Must be one of: quiz, transaction, contract, custom, secret''"
      using kind assms ne by (auto simp: shapeError_def split: option.splits)
    ultimately show ?thesis by blast
  next
    case data
    then have "\<forall>w. submit ext env w (Some body) st = (reject 400 ''Submission data is required'', st)"
      using assms ne by (auto simp: submit_def submitLookup_def split: option.splits)
    moreover have "\<not> shapeChecksPass ext body" using data by (simp add: shapeChecksPass_def)
    moreover have "shapeError ext body = Some ''Submission data is required''"
      using data assms ne by (auto simp: shapeError_def split: option.splits)
    ultimately show ?thesis by blast
  next
    case mismatch
    then have "\<forall>w. submit ext env w (Some body) st
        = (reject 400 (mismatchMessage number expectedType), st)"
      using assms ne by (auto simp: submit_def submitLookup_def mismatchMessage_def split: option.splits)
    moreover have "shapeChecksPass ext body"
      using mismatch assms ne by (auto simp: shapeChecksPass_def split: option.splits)
    ultimately show ?thesis by blast
  qed
qed

text \<open>
  C5, as the code has it. A request whose declared kind is not the kind that the catalog
  configures for its achievement is answered with status 400 and leaves the state as it
  was, whatever the outside would have replied: no validator runs and the payload is not
  read. The error is the kind-mismatch error when the request passes the checks that come
  first (wallet address, achievement number, one of the five kinds, payload present);
  otherwise it is the error of the first of those checks that fails.
\<close>

theorem C5_kind_mismatch_rejected:
  assumes "request_achievementNumber body = Some number"
    and "request_submissionType body = Some kind"
    and "expectedTypeOf number = Some (Configured expectedType)"
    and "kind \<noteq> expectedType"
  shows "\<exists>e. (\<forall>w. submit ext env w (Some body) st = (reject 400 e, st))
             \<and> (shapeChecksPass ext body \<longrightarrow> e = mismatchMessage number expectedType)
             \<and> (\<not> shapeChecksPass ext body \<longrightarrow> shapeError ext body = Some e)"
  using submit_mismatch[OF assms] .

theorem C5_kind_mismatch_rejected_witness:
  "request_achievementNumber (mismatchedRequest exampleWallet) = Some ''0001''
   \<and> request_submissionType (mismatchedRequest exampleWallet) = Some ''secret''
   \<and> expectedTypeOf ''0001'' = Some (Configured ''quiz'')
   \<and> ''secret'' \<noteq> ''quiz''
   \<and> shapeChecksPass exampleExternals (mismatchedRequest exampleWallet)
   \<and> submit exampleExternals exampleEnv (exampleIo 0) (Some (mismatchedRequest exampleWallet)) initialState
       = (reject 400 ''Invalid submission type for achievement 0001. Expected: quiz'', initialState)"
proof -
  have f: "request_achievementNumber (mismatchedRequest exampleWallet) = Some ''0001''"
    "request_submissionType (mismatchedRequest exampleWallet) = Some ''secret''"
    by (simp_all add: mismatchedRequest_def)
  have d: "''secret'' \<noteq> ''quiz''" by simp
  have ne: "exampleWallet \<noteq> []" by (simp add: exampleWallet_def)
  have s: "shapeChecksPass exampleExternals (mismatchedRequest exampleWallet)"
    by (simp add: shapeChecksPass_def mismatchedRequest_def isValidEthereumAddress_def
        example_address ne submissionTypes_def)
  from C5_kind_mismatch_rejected[OF f example_catalog(2) d, of exampleExternals exampleEnv initialState] s
  have "submit exampleExternals exampleEnv (exampleIo 0) (Some (mismatchedRequest exampleWallet)) initialState
       = (reject 400 (mismatchMessage ''0001'' ''quiz''), initialState)"
    by auto
  then show ?thesis using f d s example_catalog(2) by (simp add: mismatchMessage_def)
qed

text \<open>
  The claim as stated fails: with a wallet address that is not valid, the request that
  declares \<^verbatim>\<open>secret\<close> for the quiz \<^verbatim>\<open>0001\<close> is rejected with the wallet error, not with
  a kind-mismatch error.
\<close>

theorem C5_invalid_wallet_counterexample:
  "request_submissionType (mismatchedRequest ''0x123'') = Some ''secret''
   \<and> request_achievementNumber (mismatchedRequest ''0x123'') = Some ''0001''
   \<and> expectedTypeOf ''0001'' = Some (Configured ''quiz'')
   \<and> submit exampleExternals exampleEnv (exampleIo 0) (Some (mismatchedRequest ''0x123'')) initialState
       = (reject 400 ''Invalid wallet address'', initialState)"
  by (simp add: example_catalog mismatchedRequest_def submit_def submitLookup_def isValidEthereumAddress_def
      exampleExternals_def exampleWallet_def)
end
